(* ===== verification/Py_Prelude.thy ===== *)
theory Py_Prelude
  imports Complex_Main "HOL-Library.Sublist"
begin

text \<open>
  Shared vocabulary of the development: how the Python values, exceptions, strings
  and log streams of the repository are represented, and the lemmas on them that
  every component theory relies on.

  \<^item> An exception is a value of \<open>py_error\<close>; a function that may raise returns
    \<open>'a result\<close>, i.e. \<open>py_error + 'a\<close>, written with \<open>Raise\<close> and \<open>Return\<close>.
  \<^item> A dynamically typed value (what \<open>json.loads\<close> yields, what a \<open>Dict[str, Any]\<close>
    holds) is a \<open>pyval\<close>; a \<open>dict\<close> with string keys is an association list in
    insertion order (\<open>pydict\<close>), looked up with \<open>map_of\<close>.
  \<^item> A Python \<open>str\<close> is a \<open>string\<close>: one \<open>char\<close> per character, so the model covers
    text whose code points are below 256.
  \<^item> \<open>str_of_nat\<close> and \<open>str_of_int\<close> are the decimal rendering an f-string applies
    to an \<open>int\<close>; \<open>py_repr_str\<close> and \<open>py_repr_str_list\<close> are \<open>repr\<close> on strings and on
    lists of strings, as an f-string applies it to a list.
  \<^item> \<open>py_int\<close> is the built-in \<open>int\<close> on a string, in base 10; \<open>py_int_str_of_int\<close> is
    its round trip with \<open>str_of_int\<close>.
  \<^item> \<open>py_in\<close> is the substring test \<open>sub in s\<close>; \<open>py_lower\<close> and \<open>py_upper\<close> are
    \<open>s.lower()\<close> and \<open>s.upper()\<close> on the letters of ASCII.
  \<^item> \<open>py_type\<close> holds the annotations the dataclasses use; \<open>has_type\<close> and \<open>conforms\<close>
    say when a value and a dict have the annotated types; \<open>py_truthy\<close> is the truth
    value of a value in a condition.
  \<^item> \<open>newline\<close> and \<open>breaks\<close> are the line break and the number of line breaks in a
    text that \<open>print\<close> writes.
  \<^item> \<open>environ\<close> is \<open>os.environ\<close>.
  \<^item> A log stream is a list of pairs of a level and a message (\<open>'m log\<close>), oldest
    first; each component declares the datatype of its own messages.  The levels are
    those of \<open>logging\<close>, ordered by their numbers; \<open>visible\<close> keeps the entries that
    pass the level of a logger.
\<close>

section \<open>Fact collections\<close>

named_theorems py_defs "definitions of the Python value model, unfolded to evaluate a closed term"
named_theorems table_defs "the static tables of the repository, unfolded to evaluate a lookup"

section \<open>Exceptions and results\<close>

text \<open>
  A \<open>TypeError\<close> raised by the interpreter itself carries the reason instead of the
  message text, which differs between interpreter versions.  Exceptions the repository
  raises with a message of its own (\<open>ValueError\<close>, \<open>Exception\<close>) carry that message.
\<close>

datatype type_error =
    UnexpectedKeyword string
  | MissingArguments "string list"
  | MultipleValues string
  | NotAMapping
  | NotALevel

datatype py_error =
    ValueError string
  | IndexError string
  | KeyError string
  | TypeError type_error
  | AttributeError string
  | Exception string

type_synonym 'a result = "py_error + 'a"

abbreviation Raise :: "py_error \<Rightarrow> 'a result" where
  "Raise \<equiv> Inl"

abbreviation Return :: "'a \<Rightarrow> 'a result" where
  "Return \<equiv> Inr"

abbreviation raises :: "'a result \<Rightarrow> bool" where
  "raises r \<equiv> isl r"

text \<open>The message of Python's \<open>IndexError\<close> on \<open>xs[i]\<close> past the end of a list.\<close>

definition list_index_out_of_range :: string where
  "list_index_out_of_range = ''list index out of range''"

text \<open>\<open>xs[0]\<close>: the first element, or \<open>IndexError\<close> on the empty list.\<close>

definition py_first :: "'a list \<Rightarrow> 'a result" where
  "py_first xs = (case xs of [] \<Rightarrow> Raise (IndexError list_index_out_of_range) | x # _ \<Rightarrow> Return x)"

declare list_index_out_of_range_def [py_defs] py_first_def [py_defs]

lemma py_first_simps [simp]:
  "py_first [] = Raise (IndexError list_index_out_of_range)"
  "py_first (x # xs) = Return x"
  by (simp_all add: py_first_def)

lemma py_first_Return_iff: "py_first xs = Return x \<longleftrightarrow> xs \<noteq> [] \<and> x = hd xs"
  by (cases xs) auto

lemma not_raises_iff: "\<not> raises r \<longleftrightarrow> (\<exists>x. r = Return x)"
  by (cases r) auto

section \<open>Dynamically typed values\<close>

datatype pyval =
    PNone
  | PBool bool
  | PInt int
  | PFloat real
  | PStr string
  | PList "pyval list"
  | PDict "(string \<times> pyval) list"

type_synonym pydict = "(string \<times> pyval) list"

text \<open>The typed readings of a value: \<open>None\<close> when the value has another type.\<close>

fun as_str :: "pyval \<Rightarrow> string option" where
  "as_str (PStr s) = Some s"
| "as_str _ = None"

fun as_int :: "pyval \<Rightarrow> int option" where
  "as_int (PInt i) = Some i"
| "as_int _ = None"

fun as_float :: "pyval \<Rightarrow> real option" where
  "as_float (PFloat r) = Some r"
| "as_float _ = None"

fun as_opt_str :: "pyval \<Rightarrow> string option option" where
  "as_opt_str PNone = Some None"
| "as_opt_str (PStr s) = Some (Some s)"
| "as_opt_str _ = None"

fun all_some :: "'a option list \<Rightarrow> 'a list option" where
  "all_some [] = Some []"
| "all_some (None # _) = None"
| "all_some (Some x # xs) = map_option ((#) x) (all_some xs)"

fun as_str_list :: "pyval \<Rightarrow> string list option" where
  "as_str_list (PList vs) = all_some (map as_str vs)"
| "as_str_list _ = None"

definition of_opt_str :: "string option \<Rightarrow> pyval" where
  "of_opt_str r = (case r of None \<Rightarrow> PNone | Some s \<Rightarrow> PStr s)"

lemma all_some_map_Some [simp]: "all_some (map (\<lambda>x. Some (f x)) xs) = Some (map f xs)"
  by (induction xs) auto

lemma all_some_eq_Some_iff: "all_some xs = Some ys \<longleftrightarrow> xs = map Some ys"
proof (induction xs arbitrary: ys rule: all_some.induct)
  case 1
  show ?case by auto
next
  case (2 xs)
  show ?case by auto
next
  case (3 x xs)
  then show ?case by (cases ys) auto
qed

lemma all_some_as_str_PStr [simp]: "all_some (map (as_str \<circ> PStr) ks) = Some ks"
  by (simp add: comp_def)

lemma as_str_list_strs: "as_str_list (PList (map PStr ks)) = Some ks"
  by simp

lemma as_opt_str_of_opt_str [simp]: "as_opt_str (of_opt_str r) = Some r"
  by (cases r) (simp_all add: of_opt_str_def)

lemma as_str_eq_Some_iff: "as_str v = Some s \<longleftrightarrow> v = PStr s"
  by (cases v) auto

lemma as_int_eq_Some_iff: "as_int v = Some i \<longleftrightarrow> v = PInt i"
  by (cases v) auto

lemma as_float_eq_Some_iff: "as_float v = Some r \<longleftrightarrow> v = PFloat r"
  by (cases v) auto

lemma as_opt_str_eq_Some_iff: "as_opt_str v = Some r \<longleftrightarrow> v = of_opt_str r"
  by (cases v; cases r) (auto simp: of_opt_str_def)

lemma as_str_list_eq_Some_iff: "as_str_list v = Some ks \<longleftrightarrow> v = PList (map PStr ks)"
proof (cases v)
  case (PList vs)
  have "map as_str vs = map Some ks \<longleftrightarrow> vs = map PStr ks"
  proof (induction vs arbitrary: ks)
    case Nil
    show ?case by auto
  next
    case (Cons a vs)
    then show ?case by (cases ks) (auto simp: as_str_eq_Some_iff)
  qed
  with PList show ?thesis by (simp add: all_some_eq_Some_iff)
qed auto

lemmas as_typed_iffs =
  as_str_eq_Some_iff as_int_eq_Some_iff as_float_eq_Some_iff
  as_opt_str_eq_Some_iff as_str_list_eq_Some_iff

text \<open>
  The annotations the dataclasses use, and when a value has the annotated type.  The
  test is exact: an \<open>int\<close> is no \<open>float\<close> and a \<open>bool\<close> is no \<open>int\<close>, as the readers
  above have it.
\<close>

datatype py_type = TStr | TInt | TFloat | TList py_type | TOptional py_type

primrec has_type :: "py_type \<Rightarrow> pyval \<Rightarrow> bool" where
  "has_type TStr v = (case v of PStr s \<Rightarrow> True | _ \<Rightarrow> False)"
| "has_type TInt v = (case v of PInt i \<Rightarrow> True | _ \<Rightarrow> False)"
| "has_type TFloat v = (case v of PFloat x \<Rightarrow> True | _ \<Rightarrow> False)"
| "has_type (TList t) v = (case v of PList xs \<Rightarrow> list_all (has_type t) xs | _ \<Rightarrow> False)"
| "has_type (TOptional t) v = (v = PNone \<or> has_type t v)"

text \<open>A dict conforms to annotations when every annotated key it holds has its type.\<close>

definition conforms :: "(string \<times> py_type) list \<Rightarrow> (string \<times> pyval) list \<Rightarrow> bool" where
  "conforms annotations d =
     list_all (\<lambda>(k, t). case map_of d k of None \<Rightarrow> True | Some v \<Rightarrow> has_type t v) annotations"

lemma has_type_readers:
  "has_type TStr v \<longleftrightarrow> as_str v \<noteq> None"
  "has_type TInt v \<longleftrightarrow> as_int v \<noteq> None"
  "has_type TFloat v \<longleftrightarrow> as_float v \<noteq> None"
  "has_type (TOptional TStr) v \<longleftrightarrow> as_opt_str v \<noteq> None"
  by (cases v; simp)+

lemma all_some_None_iff: "all_some xs = None \<longleftrightarrow> None \<in> set xs"
  by (induction xs rule: all_some.induct) auto

lemma has_type_str_list: "has_type (TList TStr) v \<longleftrightarrow> as_str_list v \<noteq> None"
proof (cases v)
  case (PList xs)
  have "list_all (has_type TStr) xs \<longleftrightarrow> None \<notin> set (map as_str xs)"
    by (induction xs) (auto simp: has_type_readers(1) simp del: has_type.simps)
  with PList show ?thesis by (simp add: all_some_None_iff del: set_map)
qed simp_all

text \<open>The truth value of a value in a condition: \<open>if v:\<close>.\<close>

fun py_truthy :: "pyval \<Rightarrow> bool" where
  "py_truthy PNone = False"
| "py_truthy (PBool b) = b"
| "py_truthy (PInt i) = (i \<noteq> 0)"
| "py_truthy (PFloat x) = (x \<noteq> 0)"
| "py_truthy (PStr s) = (s \<noteq> [])"
| "py_truthy (PList xs) = (xs \<noteq> [])"
| "py_truthy (PDict d) = (d \<noteq> [])"

section \<open>Dictionaries\<close>

text \<open>
  A \<open>dict\<close> keeps its keys in insertion order and holds each key once.  \<open>dict_wf\<close> is
  that invariant on the association list; \<open>map_of\<close> is the lookup, \<open>dict_keys\<close> what
  \<open>d.keys()\<close> lists.
\<close>

definition dict_keys :: "('k \<times> 'v) list \<Rightarrow> 'k list" where
  "dict_keys d = map fst d"

definition dict_wf :: "('k \<times> 'v) list \<Rightarrow> bool" where
  "dict_wf d \<longleftrightarrow> distinct (dict_keys d)"

definition dict_has :: "('k \<times> 'v) list \<Rightarrow> 'k \<Rightarrow> bool" where
  "dict_has d k \<longleftrightarrow> map_of d k \<noteq> None"

lemma dict_has_iff: "dict_has d k \<longleftrightarrow> k \<in> set (dict_keys d)"
  by (simp add: dict_has_def dict_keys_def map_of_eq_None_iff)

lemma dict_has_code [code]: "dict_has d k = (case map_of d k of None \<Rightarrow> False | Some _ \<Rightarrow> True)"
  by (simp add: dict_has_def split: option.split)

lemma dict_keys_simps [simp]:
  "dict_keys [] = []"
  "dict_keys ((k, v) # d) = k # dict_keys d"
  by (simp_all add: dict_keys_def)

lemma dict_has_simps [simp]:
  "dict_has [] k = False"
  "dict_has ((k', v) # d) k \<longleftrightarrow> k = k' \<or> dict_has d k"
  by (auto simp: dict_has_def)

lemma map_of_Some_in_keys: "map_of d k = Some v \<Longrightarrow> k \<in> set (dict_keys d)"
  by (metis dict_has_def dict_has_iff option.distinct(1))

lemma length_dict_keys [simp]: "length (dict_keys d) = length d"
  by (simp add: dict_keys_def)

section \<open>Decimal rendering of integers\<close>

text \<open>
  \<open>str(n)\<close> as an f-string applies it.  CPython refuses to render an integer of more
  than 4300 digits; the integers the repository renders (the length of a list, an HTTP
  status) are far below, and the model renders every integer.
\<close>

definition digit_char :: "nat \<Rightarrow> char" where
  "digit_char d = ''0123456789'' ! d"

definition digit_val :: "char \<Rightarrow> nat option" where
  "digit_val c = (let n = of_char c :: nat in if 48 \<le> n \<and> n \<le> 57 then Some (n - 48) else None)"

fun str_of_nat :: "nat \<Rightarrow> string" where
  "str_of_nat n = (if n < 10 then [digit_char n] else str_of_nat (n div 10) @ [digit_char (n mod 10)])"

declare str_of_nat.simps [simp del]

definition str_of_int :: "int \<Rightarrow> string" where
  "str_of_int i = (if i < 0 then CHR ''-'' # str_of_nat (nat (- i)) else str_of_nat (nat i))"

text \<open>Reading a digit string back: the accumulator loop of a decimal parser.\<close>

fun nat_of_digits :: "nat \<Rightarrow> string \<Rightarrow> nat option" where
  "nat_of_digits acc [] = Some acc"
| "nat_of_digits acc (c # cs) =
     (case digit_val c of None \<Rightarrow> None | Some d \<Rightarrow> nat_of_digits (10 * acc + d) cs)"

definition nat_of_str :: "string \<Rightarrow> nat option" where
  "nat_of_str s = (if s = [] then None else nat_of_digits 0 s)"

declare digit_char_def [py_defs] digit_val_def [py_defs] str_of_int_def [py_defs] nat_of_str_def [py_defs]

lemma digit_val_digit_char [simp]: "d < 10 \<Longrightarrow> digit_val (digit_char d) = Some d"
proof -
  assume "d < 10"
  then have "d \<in> {0, 1, 2, 3, 4, 5, 6, 7, 8, 9}" by auto
  then show ?thesis by (auto simp: digit_val_def digit_char_def)
qed

lemma str_of_nat_small [simp]: "n < 10 \<Longrightarrow> str_of_nat n = [digit_char n]"
  by (subst str_of_nat.simps) simp

lemma str_of_nat_large: "\<not> n < 10 \<Longrightarrow> str_of_nat n = str_of_nat (n div 10) @ [digit_char (n mod 10)]"
  by (subst str_of_nat.simps) simp

lemma str_of_nat_nonempty [simp]: "str_of_nat n \<noteq> []"
  by (subst str_of_nat.simps) simp

lemma nat_of_digits_append:
  "nat_of_digits acc (xs @ ys) =
     (case nat_of_digits acc xs of None \<Rightarrow> None | Some a \<Rightarrow> nat_of_digits a ys)"
  by (induction xs arbitrary: acc) (auto split: option.splits)

lemma nat_of_digits_str_of_nat: "nat_of_digits 0 (str_of_nat n) = Some n"
proof (induction n rule: str_of_nat.induct)
  case (1 n)
  show ?case
  proof (cases "n < 10")
    case True
    then show ?thesis by simp
  next
    case False
    with "1.IH" have "nat_of_digits 0 (str_of_nat (n div 10)) = Some (n div 10)" by simp
    with False show ?thesis
      by (simp add: str_of_nat_large nat_of_digits_append)
  qed
qed

lemma nat_of_str_str_of_nat [simp]: "nat_of_str (str_of_nat n) = Some n"
  by (simp add: nat_of_str_def nat_of_digits_str_of_nat)

lemma str_of_nat_inj [simp]: "str_of_nat m = str_of_nat n \<longleftrightarrow> m = n"
  by (metis nat_of_str_str_of_nat option.inject)

lemma str_of_nat_digits: "list_all (\<lambda>c. digit_val c \<noteq> None) (str_of_nat n)"
proof (induction n rule: str_of_nat.induct)
  case (1 n)
  show ?case
  proof (cases "n < 10")
    case True
    then show ?thesis by simp
  next
    case False
    with "1.IH" show ?thesis by (simp add: str_of_nat_large)
  qed
qed

section \<open>repr of strings and of lists of strings\<close>

text \<open>
  \<open>repr\<close> of a \<open>str\<close>: single quotes unless the text holds a single quote and no
  double quote; the backslash, the chosen quote and the non-printable characters
  are escaped.  Printable are the code points from 32 to 126 and from 161 to 255
  but 173.
\<close>

definition hex_char :: "nat \<Rightarrow> char" where
  "hex_char d = ''0123456789abcdef'' ! d"

definition py_printable :: "char \<Rightarrow> bool" where
  "py_printable c = (let n = of_char c :: nat in (32 \<le> n \<and> n < 127) \<or> (161 \<le> n \<and> n \<noteq> 173))"

definition py_quote_of :: "string \<Rightarrow> char" where
  "py_quote_of s = (if CHR 0x27 \<in> set s \<and> CHR 0x22 \<notin> set s then CHR 0x22 else CHR 0x27)"

definition py_escape_char :: "char \<Rightarrow> char \<Rightarrow> string" where
  "py_escape_char q c =
     (if c = CHR 0x5C then [CHR 0x5C, CHR 0x5C]
      else if c = q then [CHR 0x5C, q]
      else if c = CHR 0x0A then [CHR 0x5C, CHR ''n'']
      else if c = CHR 0x0D then [CHR 0x5C, CHR ''r'']
      else if c = CHR 0x09 then [CHR 0x5C, CHR ''t'']
      else if py_printable c then [c]
      else [CHR 0x5C, CHR ''x'', hex_char (of_char c div 16), hex_char (of_char c mod 16)])"

definition py_repr_str :: "string \<Rightarrow> string" where
  "py_repr_str s = (let q = py_quote_of s in q # concat (map (py_escape_char q) s) @ [q])"

fun py_join :: "string \<Rightarrow> string list \<Rightarrow> string" where
  "py_join sep [] = []"
| "py_join sep [x] = x"
| "py_join sep (x # y # ys) = x @ sep @ py_join sep (y # ys)"

definition py_repr_str_list :: "string list \<Rightarrow> string" where
  "py_repr_str_list xs = ''['' @ py_join '', '' (map py_repr_str xs) @ '']''"

text \<open>A string that \<open>repr\<close> only wraps in single quotes.\<close>

definition plain_str :: "string \<Rightarrow> bool" where
  "plain_str s = list_all (\<lambda>c. py_printable c \<and> c \<noteq> CHR 0x27 \<and> c \<noteq> CHR 0x5C) s"

lemma concat_map_singleton: "(\<And>x. x \<in> set xs \<Longrightarrow> f x = [x]) \<Longrightarrow> concat (map f xs) = xs"
  by (induction xs) auto

lemma py_repr_str_plain: "plain_str s \<Longrightarrow> py_repr_str s = CHR 0x27 # s @ [CHR 0x27]"
proof -
  assume p: "plain_str s"
  then have q: "py_quote_of s = CHR 0x27"
    by (auto simp: plain_str_def py_quote_of_def list_all_iff)
  have "py_escape_char (CHR 0x27) c = [c]" if "c \<in> set s" for c
  proof -
    from p that have "py_printable c" "c \<noteq> CHR 0x27" "c \<noteq> CHR 0x5C"
      by (auto simp: plain_str_def list_all_iff)
    then show ?thesis
      by (auto simp: py_escape_char_def py_printable_def)
  qed
  then have "concat (map (py_escape_char (CHR 0x27)) s) = s"
    by (rule concat_map_singleton)
  with q show ?thesis by (simp add: py_repr_str_def Let_def)
qed

section \<open>Reading an integer\<close>

text \<open>
  \<open>int(s)\<close> on a string, in base 10: white space at both ends is dropped, a sign may
  come first, and the digits may be grouped by single underscores.  Everything else
  raises \<open>ValueError\<close>; the message shows the string as it was given.  A text of more
  than 4300 digits is refused as well (CPython 3.11 and later); where a text is both
  malformed and too long the model reports it as malformed.
\<close>

definition py_space :: "char \<Rightarrow> bool" where
  "py_space c = (of_char c \<in> {9, 10, 11, 12, 13, 28, 29, 30, 31, 32, 133, 160 :: nat})"

definition py_strip :: "string \<Rightarrow> string" where
  "py_strip s = rev (dropWhile py_space (rev (dropWhile py_space s)))"

fun read_digits :: "nat \<Rightarrow> string \<Rightarrow> nat option" where
  "read_digits acc [] = Some acc"
| "read_digits acc [c] = map_option (\<lambda>d. 10 * acc + d) (digit_val c)"
| "read_digits acc (c # d # cs) =
     (if c = CHR ''_'' then
        (case digit_val d of None \<Rightarrow> None | Some v \<Rightarrow> read_digits (10 * acc + v) cs)
      else
        (case digit_val c of None \<Rightarrow> None | Some v \<Rightarrow> read_digits (10 * acc + v) (d # cs)))"

definition py_nat :: "string \<Rightarrow> nat option" where
  "py_nat s = (case s of [] \<Rightarrow> None | c # cs \<Rightarrow> if c = CHR ''_'' then None else read_digits 0 s)"

definition invalid_literal :: "string \<Rightarrow> py_error" where
  "invalid_literal s = ValueError (''invalid literal for int() with base 10: '' @ py_repr_str s)"

definition max_str_digits :: nat where
  "max_str_digits = 4300"

definition too_many_digits :: "nat \<Rightarrow> py_error" where
  "too_many_digits k =
     ValueError (''Exceeds the limit (4300 digits) for integer string conversion: value has ''
       @ str_of_nat k @ '' digits; use sys.set_int_max_str_digits() to increase the limit'')"

definition digit_count :: "string \<Rightarrow> nat" where
  "digit_count body = length (filter (\<lambda>d. d \<noteq> CHR ''_'') body)"

definition py_int :: "string \<Rightarrow> int result" where
  "py_int s =
     (case py_strip s of
        [] \<Rightarrow> Raise (invalid_literal s)
      | c # cs \<Rightarrow>
          (let body = (if c = CHR ''-'' \<or> c = CHR ''+'' then cs else c # cs) in
           case py_nat body of
             None \<Rightarrow> Raise (invalid_literal s)
           | Some n \<Rightarrow>
               if digit_count body > max_str_digits then Raise (too_many_digits (digit_count body))
               else Return (if c = CHR ''-'' then - int n else int n)))"

declare py_space_def [py_defs] py_strip_def [py_defs] py_nat_def [py_defs] invalid_literal_def [py_defs]
  py_int_def [py_defs] digit_count_def [py_defs] max_str_digits_def [py_defs]

lemma digit_val_underscore [simp]: "digit_val CHR ''_'' = None"
  by (simp add: digit_val_def)

lemma digit_not_space: "digit_val c \<noteq> None \<Longrightarrow> \<not> py_space c"
  by (auto simp: digit_val_def py_space_def Let_def split: if_splits)

lemma read_digits_plain:
  "list_all (\<lambda>c. digit_val c \<noteq> None) s \<Longrightarrow> read_digits acc s = nat_of_digits acc s"
  by (induction acc s rule: read_digits.induct) (auto split: option.splits)

lemma py_strip_id: "s \<noteq> [] \<Longrightarrow> \<not> py_space (hd s) \<Longrightarrow> \<not> py_space (last s) \<Longrightarrow> py_strip s = s"
proof -
  assume s: "s \<noteq> []" and h: "\<not> py_space (hd s)" and l: "\<not> py_space (last s)"
  from s h have "dropWhile py_space s = s" by (cases s) auto
  moreover from s l have "dropWhile py_space (rev s) = rev s"
    by (cases s rule: rev_cases) auto
  ultimately show ?thesis by (simp add: py_strip_def)
qed

lemma py_nat_str_of_nat [simp]: "py_nat (str_of_nat n) = Some n"
  using str_of_nat_digits [of n] nat_of_digits_str_of_nat [of n]
  by (cases "str_of_nat n") (auto simp: py_nat_def read_digits_plain)

lemma str_of_nat_ends:
  "digit_val (hd (str_of_nat n)) \<noteq> None" "digit_val (last (str_of_nat n)) \<noteq> None"
  using str_of_nat_digits [of n] hd_in_set [of "str_of_nat n"] last_in_set [of "str_of_nat n"]
  by (simp_all add: list_all_iff)

lemma py_strip_str_of_int [simp]: "py_strip (str_of_int i) = str_of_int i"
proof (rule py_strip_id)
  have minus: "\<not> py_space CHR ''-''" by (simp add: py_space_def)
  show "str_of_int i \<noteq> []" by (simp add: str_of_int_def)
  show "\<not> py_space (hd (str_of_int i))"
    using digit_not_space [OF str_of_nat_ends(1)] minus by (simp add: str_of_int_def)
  show "\<not> py_space (last (str_of_int i))"
    using digit_not_space [OF str_of_nat_ends(2)] by (simp add: str_of_int_def)
qed

lemma digit_not_sign: "digit_val c \<noteq> None \<Longrightarrow> c \<noteq> CHR ''-'' \<and> c \<noteq> CHR ''+''"
  by (cases "c = CHR ''-''"; cases "c = CHR ''+''"; simp add: digit_val_def)

lemma digit_count_plain: "list_all (\<lambda>c. digit_val c \<noteq> None) s \<Longrightarrow> digit_count s = length s"
  by (induction s) (auto simp: digit_count_def)

lemma py_int_unsigned:
  assumes "py_strip s = c # cs" "c \<noteq> CHR ''-''" "c \<noteq> CHR ''+''"
    and "py_nat (c # cs) = Some n" "digit_count (c # cs) \<le> max_str_digits"
  shows "py_int s = Return (int n)"
  using assms by (simp add: py_int_def)

lemma py_int_minus:
  assumes "py_strip s = CHR ''-'' # cs"
    and "py_nat cs = Some n" "digit_count cs \<le> max_str_digits"
  shows "py_int s = Return (- int n)"
  using assms by (simp add: py_int_def)

text \<open>
  The round trip with the decimal text holds for the integers of at most 4300 digits:
  beyond that \<open>int\<close> refuses the text.
\<close>

lemma py_int_str_of_int:
  assumes "length (str_of_nat (nat \<bar>i\<bar>)) \<le> max_str_digits"
  shows "py_int (str_of_int i) = Return i"
proof (cases "i < 0")
  case True
  then have "py_strip (str_of_int i) = CHR ''-'' # str_of_nat (nat \<bar>i\<bar>)"
    by (simp only: py_strip_str_of_int) (simp add: str_of_int_def abs_if)
  from py_int_minus [OF this py_nat_str_of_nat] assms True show ?thesis
    by (simp add: digit_count_plain [OF str_of_nat_digits])
next
  case False
  then have s: "py_strip (str_of_int i) = str_of_nat (nat \<bar>i\<bar>)"
    by (simp only: py_strip_str_of_int) (simp add: str_of_int_def abs_if)
  obtain c cs where c: "str_of_nat (nat \<bar>i\<bar>) = c # cs"
    by (cases "str_of_nat (nat \<bar>i\<bar>)") auto
  from digit_not_sign [OF str_of_nat_ends(1) [of "nat \<bar>i\<bar>"]] have "c \<noteq> CHR ''-''" "c \<noteq> CHR ''+''"
    unfolding c by simp_all
  moreover have "py_nat (c # cs) = Some (nat \<bar>i\<bar>)"
    using py_nat_str_of_nat [of "nat \<bar>i\<bar>"] unfolding c .
  moreover have "digit_count (c # cs) \<le> max_str_digits"
    using digit_count_plain [OF str_of_nat_digits, of "nat \<bar>i\<bar>"] assms unfolding c by simp
  ultimately show ?thesis
    using py_int_unsigned [OF s [unfolded c]] False by simp
qed

lemma py_int_small: "\<bar>i\<bar> < 10 \<Longrightarrow> py_int (str_of_int i) = Return i"
  by (rule py_int_str_of_int) (simp add: max_str_digits_def)

section \<open>Substrings and the case of letters\<close>

text \<open>
  \<open>sub in s\<close> on strings, and \<open>s.lower()\<close> and \<open>s.upper()\<close> on the letters of ASCII;
  strings are lists of 8-bit characters, and the letters beyond ASCII are left as they
  are.  No letter between 128 and 255 becomes a letter of ASCII in either direction, so
  a test of the result against a text in ASCII is the test Python makes.
\<close>

fun py_in :: "string \<Rightarrow> string \<Rightarrow> bool" where
  "py_in sub [] = (sub = [])"
| "py_in sub (c # cs) = (prefix sub (c # cs) \<or> py_in sub cs)"

definition ascii_lower :: "char \<Rightarrow> char" where
  "ascii_lower c = (let n = of_char c :: nat in if 65 \<le> n \<and> n \<le> 90 then char_of (n + 32) else c)"

definition py_lower :: "string \<Rightarrow> string" where
  "py_lower s = map ascii_lower s"

definition ascii_upper :: "char \<Rightarrow> char" where
  "ascii_upper c = (let n = of_char c :: nat in if 97 \<le> n \<and> n \<le> 122 then char_of (n - 32) else c)"

definition py_upper :: "string \<Rightarrow> string" where
  "py_upper s = map ascii_upper s"

lemma py_in_iff_sublist: "py_in sub s \<longleftrightarrow> sublist sub s"
  by (induction s) (auto simp: sublist_Cons_right)

lemma py_in_append [simp]: "py_in sub (pre @ sub @ post)"
  by (simp add: py_in_iff_sublist)

lemma py_in_prefix [simp]: "py_in sub (sub @ post)"
  using py_in_append [of sub "[]" post] by simp

lemma py_lower_append [simp]: "py_lower (s @ t) = py_lower s @ py_lower t"
  by (simp add: py_lower_def)

lemma py_lower_idem [simp]: "py_lower (py_lower s) = py_lower s"
  by (induction s) (auto simp: py_lower_def ascii_lower_def Let_def)

section \<open>Lists\<close>

lemma list_all_butlast: "list_all P xs \<Longrightarrow> list_all P (butlast xs)"
  by (auto simp: list_all_iff dest: in_set_butlastD)

section \<open>Printed text\<close>

text \<open>
  \<open>print(s)\<close> writes the text \<open>s\<close> and a line break.  The text of one call may hold
  line breaks of its own; \<open>breaks s\<close> counts them.
\<close>

definition newline :: char where
  "newline = CHR 0x0A"

definition breaks :: "string \<Rightarrow> nat" where
  "breaks s = length (filter (\<lambda>c. c = newline) s)"

lemma breaks_simps [simp]:
  "breaks [] = 0" "breaks (c # s) = (if c = newline then 1 else 0) + breaks s"
  "breaks (s @ t) = breaks s + breaks t"
  by (simp_all add: breaks_def)

lemma breaks_le_length: "breaks s \<le> length s"
  by (simp add: breaks_def)

lemma breaks_concat: "breaks (concat xs) = sum_list (map breaks xs)"
  by (induction xs) simp_all

section \<open>The environment\<close>

text \<open>\<open>os.environ\<close>; \<open>os.getenv(name)\<close> is the lookup, \<open>os.getenv(name, d)\<close> is \<open>getenv_or\<close>.\<close>

type_synonym environ = "string \<rightharpoonup> string"

definition getenv_or :: "environ \<Rightarrow> string \<Rightarrow> string \<Rightarrow> string" where
  "getenv_or env name dflt = (case env name of None \<Rightarrow> dflt | Some v \<Rightarrow> v)"

section \<open>Log streams\<close>

text \<open>
  The levels of \<open>logging\<close>, ordered by their numbers; a logger drops the entries below
  its level.  \<open>NOTSET\<close> is no level of an entry: it is the threshold that drops nothing.
\<close>

datatype log_level = NOTSET | DEBUG | INFO | WARNING | ERROR | CRITICAL

fun level_no :: "log_level \<Rightarrow> nat" where
  "level_no NOTSET = 0"
| "level_no DEBUG = 10"
| "level_no INFO = 20"
| "level_no WARNING = 30"
| "level_no ERROR = 40"
| "level_no CRITICAL = 50"

lemma level_no_inj: "level_no a = level_no b \<Longrightarrow> a = b"
  by (cases a; cases b) simp_all

instantiation log_level :: linorder
begin

definition less_eq_log_level :: "log_level \<Rightarrow> log_level \<Rightarrow> bool" where
  "a \<le> b \<longleftrightarrow> level_no a \<le> level_no b"

definition less_log_level :: "log_level \<Rightarrow> log_level \<Rightarrow> bool" where
  "a < b \<longleftrightarrow> level_no a < level_no b"

instance
  by standard (auto simp: less_eq_log_level_def less_log_level_def dest: level_no_inj)

end

type_synonym 'm log = "(log_level \<times> 'm) list"

definition at_level :: "log_level \<Rightarrow> 'm log \<Rightarrow> 'm list" where
  "at_level lv l = map snd (filter (\<lambda>e. fst e = lv) l)"

text \<open>What a logger with the level \<open>threshold\<close> lets through.\<close>

definition visible :: "log_level \<Rightarrow> 'm log \<Rightarrow> 'm log" where
  "visible threshold l = filter (\<lambda>e. threshold \<le> fst e) l"

lemma visible_simps [simp]:
  "visible threshold [] = []"
  "visible threshold ((lv, m) # l) = (if threshold \<le> lv then (lv, m) # visible threshold l else visible threshold l)"
  by (simp_all add: visible_def)

lemma visible_append [simp]: "visible threshold (l @ l') = visible threshold l @ visible threshold l'"
  by (simp add: visible_def)

lemma visible_NOTSET [simp]: "visible NOTSET l = l"
  by (induction l) (auto simp: less_eq_log_level_def)

lemma visible_mono: "a \<le> b \<Longrightarrow> set (visible b l) \<subseteq> set (visible a l)"
  by (auto simp: visible_def)

lemma visible_idem [simp]: "visible a (visible a l) = visible a l"
  by (simp add: visible_def)

lemma at_level_simps [simp]:
  "at_level lv [] = []"
  "at_level lv ((lv', m) # l) = (if lv' = lv then m # at_level lv l else at_level lv l)"
  by (simp_all add: at_level_def)

lemma at_level_append [simp]: "at_level lv (l @ l') = at_level lv l @ at_level lv l'"
  by (simp add: at_level_def)

end
