(* ===== verification/Payload.thy ===== *)
theory Payload
  imports Py_Prelude
begin

text \<open>
  The request of \<^verbatim>\<open>src/event_payload.py\<close>: the dataclass \<open>EventPayload\<close>, its two
  properties, its conversions to and from a dict and a JSON text, the table of example
  payloads, the two helper constructors and the script that prints the examples.

  The record has the fields of the dataclass with the types of their annotations.
  Python does not check the annotations: \<open>cls(**data)\<close> stores whatever the dict holds.
  The generated \<open>__init__\<close> is \<open>init_kwargs\<close>; it returns
  \<^item> \<open>Some (Raise e)\<close> where Python raises (an unexpected keyword, a missing required
    argument),
  \<^item> \<open>Some (Return p)\<close> where Python returns a payload whose fields have the annotated
    types,
  \<^item> \<open>None\<close> where Python returns an object that the typed record cannot hold (a value
    of another type than its field's annotation): the boundary of the model, not an
    exception.

  \<open>json.dumps\<close> and \<open>json.loads\<close> belong to the standard library; \<open>to_json\<close> and
  \<open>from_json\<close> take them as parameters.

  \<open>init_object\<close> is the same constructor without the types: it returns the attributes
  of the object Python builds, for every dict.  \<open>EventPayload_annotations\<close> holds the
  annotations of the fields; the objects that conform to them are those the typed
  record holds.  \<open>payload_main\<close> is the block under \<open>__main__\<close>, which prints the
  examples.
\<close>

section \<open>The dataclass\<close>

record EventPayload =
  prompt :: string
  models :: "string list"
  max_tokens :: int
  temperature :: real
  request_id :: "string option"

definition default_max_tokens :: int where
  "default_max_tokens = 4000"

definition default_temperature :: real where
  "default_temperature = 7 / 10"

definition payload_fields :: "string list" where
  "payload_fields = [''prompt'', ''models'', ''max_tokens'', ''temperature'', ''request_id'']"

definition required_fields :: "string list" where
  "required_fields = [''prompt'', ''models'']"

text \<open>
  The constraints the specification puts on a request and the code never checks: at
  least one model, a positive token limit, a temperature between 0 and 2.
\<close>

definition valid_payload :: "EventPayload \<Rightarrow> bool" where
  "valid_payload p \<longleftrightarrow> models p \<noteq> [] \<and> 0 < max_tokens p \<and> 0 \<le> temperature p \<and> temperature p \<le> 2"

text \<open>The annotations of the five fields, in the order of the class.\<close>

definition EventPayload_annotations :: "(string \<times> py_type) list" where
  "EventPayload_annotations =
     [(''prompt'', TStr), (''models'', TList TStr), (''max_tokens'', TInt), (''temperature'', TFloat),
      (''request_id'', TOptional TStr)]"

section \<open>Properties of the class\<close>

definition primary_model :: "EventPayload \<Rightarrow> string result" where
  "primary_model p = py_first (models p)"

definition fallback_models :: "EventPayload \<Rightarrow> string list" where
  "fallback_models p = (if length (models p) > 1 then drop 1 (models p) else [])"

section \<open>Conversion to and from a dict\<close>

definition to_dict :: "EventPayload \<Rightarrow> pydict" where
  "to_dict p =
    [(''prompt'', PStr (prompt p)),
     (''models'', PList (map PStr (models p))),
     (''max_tokens'', PInt (max_tokens p)),
     (''temperature'', PFloat (temperature p)),
     (''request_id'', of_opt_str (request_id p))]"

text \<open>An optional keyword argument: the default when the keyword is absent.\<close>

definition kwarg_or :: "pydict \<Rightarrow> string \<Rightarrow> 'a \<Rightarrow> (pyval \<Rightarrow> 'a option) \<Rightarrow> 'a option" where
  "kwarg_or kw k dflt rd = (case map_of kw k of None \<Rightarrow> Some dflt | Some v \<Rightarrow> rd v)"

definition typed_payload :: "pydict \<Rightarrow> EventPayload option" where
  "typed_payload kw =
     Option.bind (Option.bind (map_of kw ''prompt'') as_str) (\<lambda>p.
     Option.bind (Option.bind (map_of kw ''models'') as_str_list) (\<lambda>ms.
     Option.bind (kwarg_or kw ''max_tokens'' default_max_tokens as_int) (\<lambda>mt.
     Option.bind (kwarg_or kw ''temperature'' default_temperature as_float) (\<lambda>t.
     Option.bind (kwarg_or kw ''request_id'' None as_opt_str) (\<lambda>r.
       Some \<lparr>prompt = p, models = ms, max_tokens = mt, temperature = t, request_id = r\<rparr>)))))"

definition init_kwargs :: "pydict \<Rightarrow> EventPayload result option" where
  "init_kwargs kw =
     (case filter (\<lambda>k. k \<notin> set payload_fields) (dict_keys kw) of
        k # _ \<Rightarrow> Some (Raise (TypeError (UnexpectedKeyword k)))
      | [] \<Rightarrow>
          (case filter (\<lambda>k. \<not> dict_has kw k) required_fields of
             m # ms \<Rightarrow> Some (Raise (TypeError (MissingArguments (m # ms))))
           | [] \<Rightarrow> map_option Return (typed_payload kw)))"

definition from_dict :: "pydict \<Rightarrow> EventPayload result option" where
  "from_dict data = init_kwargs data"

section \<open>The object behind the record\<close>

text \<open>
  What \<open>cls(**data)\<close> builds, as the dict of the attributes of the new object in the
  order of the fields.  The generated \<open>__init__\<close> refuses a keyword that is no field and
  a call without \<open>prompt\<close> or \<open>models\<close>; it stores every other value as it is given,
  whatever its type, and the default of a field that the dict does not name.
  \<open>field_default\<close> is asked for the three fields that have one.
\<close>

definition field_default :: "string \<Rightarrow> pyval" where
  "field_default k =
     (if k = ''max_tokens'' then PInt default_max_tokens
      else if k = ''temperature'' then PFloat default_temperature
      else PNone)"

definition attributes :: "pydict \<Rightarrow> pydict" where
  "attributes kw =
     map (\<lambda>k. (k, case map_of kw k of Some v \<Rightarrow> v | None \<Rightarrow> field_default k)) payload_fields"

definition init_object :: "pydict \<Rightarrow> pydict result" where
  "init_object kw =
     (case filter (\<lambda>k. k \<notin> set payload_fields) (dict_keys kw) of
        k # _ \<Rightarrow> Raise (TypeError (UnexpectedKeyword k))
      | [] \<Rightarrow>
          (case filter (\<lambda>k. \<not> dict_has kw k) required_fields of
             m # ms \<Rightarrow> Raise (TypeError (MissingArguments (m # ms)))
           | [] \<Rightarrow> Return (attributes kw)))"

section \<open>Conversion to and from JSON\<close>

definition to_json :: "(pyval \<Rightarrow> string) \<Rightarrow> EventPayload \<Rightarrow> string" where
  "to_json dumps p = dumps (PDict (to_dict p))"

definition from_json :: "(string \<Rightarrow> pyval result) \<Rightarrow> string \<Rightarrow> EventPayload result option" where
  "from_json loads json_str =
     (case loads json_str of
        Inl e \<Rightarrow> Some (Raise e)
      | Inr (PDict data) \<Rightarrow> from_dict data
      | Inr _ \<Rightarrow> Some (Raise (TypeError NotAMapping)))"

section \<open>Example payloads and helper constructors\<close>

text \<open>\<open>EventPayload(prompt=..., models=[...])\<close>: the other fields take their defaults.\<close>

definition with_defaults :: "string \<Rightarrow> string list \<Rightarrow> EventPayload" where
  "with_defaults pr ms =
     \<lparr>prompt = pr, models = ms, max_tokens = default_max_tokens,
      temperature = default_temperature, request_id = None\<rparr>"

definition EXAMPLE_PAYLOADS :: "(string \<times> EventPayload) list" where
  "EXAMPLE_PAYLOADS =
    [(''1p_to_3p'', with_defaults ''What is cloud computing''
        [''claude-3-haiku-bedrock'', ''claude-3-5-sonnet'']),
     (''quality_first'', with_defaults ''Your prompt here''
        [''claude-3-5-sonnet'', ''gpt-4o'', ''claude-3-5-sonnet-bedrock'', ''gpt-4o-mini'']),
     (''speed_first'', with_defaults ''Your prompt here''
        [''claude-3-haiku'', ''gpt-4o-mini'', ''claude-3-haiku-bedrock'', ''claude-3-5-sonnet'']),
     (''cost_first'', with_defaults ''Your prompt here''
        [''gpt-4o-mini'', ''claude-3-haiku'', ''claude-3-haiku-bedrock'', ''gpt-4o'']),
     (''anthropic_only'', with_defaults ''Your prompt here''
        [''claude-3-5-sonnet'', ''claude-3-haiku'', ''claude-3-5-sonnet-bedrock'',
         ''claude-3-haiku-bedrock'']),
     (''openai_only'', with_defaults ''Your prompt here''
        [''gpt-4o'', ''gpt-4o-mini'', ''gpt-4-turbo''])]"

declare EXAMPLE_PAYLOADS_def [table_defs]

text \<open>
  \<open>create_payload\<close> passes \<open>prompt\<close> and \<open>models\<close> by keyword and the rest as
  \<open>**kwargs\<close>: a keyword given twice is a \<open>TypeError\<close> before \<open>__init__\<close> runs.
\<close>

definition create_payload :: "string \<Rightarrow> string list \<Rightarrow> pydict \<Rightarrow> EventPayload result option" where
  "create_payload pr ms kwargs =
     (case filter (\<lambda>k. k \<in> set required_fields) (dict_keys kwargs) of
        k # _ \<Rightarrow> Some (Raise (TypeError (MultipleValues k)))
      | [] \<Rightarrow> init_kwargs ((''prompt'', PStr pr) # (''models'', PList (map PStr ms)) # kwargs))"

definition unknown_strategy_message :: "string \<Rightarrow> string" where
  "unknown_strategy_message strategy =
     ''Unknown strategy: '' @ strategy @ ''. Available: '' @ py_repr_str_list (dict_keys EXAMPLE_PAYLOADS)"

definition get_example_payload :: "string \<Rightarrow> string \<Rightarrow> EventPayload result" where
  "get_example_payload strategy pr =
     (case map_of EXAMPLE_PAYLOADS strategy of
        None \<Rightarrow> Raise (ValueError (unknown_strategy_message strategy))
      | Some example \<Rightarrow>
          Return \<lparr>prompt = pr, models = models example, max_tokens = max_tokens example,
                  temperature = temperature example, request_id = None\<rparr>)"

section \<open>The script\<close>

text \<open>
  The block under \<open>__main__\<close>: the loop over the examples and the JSON text of one
  request.  The model returns what the block returns or raises, and the texts printed
  until then, one per call of \<open>print\<close>: the text of the first call ends with a line
  break of its own, and \<open>print()\<close> writes the empty text.
\<close>

fun show_examples :: "(string \<times> EventPayload) list \<Rightarrow> unit result \<times> string list" where
  "show_examples [] = (Return (), [])"
| "show_examples (e # rest) =
     (case primary_model (snd e) of
        Inl err \<Rightarrow> (Raise err, [py_upper (fst e) @ '':''])
      | Inr primary \<Rightarrow>
          (case show_examples rest of
             (r, lines) \<Rightarrow>
               (r, [py_upper (fst e) @ '':'', ''  Primary: '' @ primary,
                    ''  Fallbacks: '' @ py_repr_str_list (fallback_models (snd e)), ''''] @ lines)))"

definition payload_main :: "(pyval \<Rightarrow> string) \<Rightarrow> unit result \<times> string list" where
  "payload_main dumps =
     (case show_examples EXAMPLE_PAYLOADS of
        (Inl err, lines) \<Rightarrow> (Raise err, (''Example Event Payloads:'' @ [newline]) # lines)
      | (Inr u, lines) \<Rightarrow>
          (case get_example_payload ''quality_first'' ''Explain machine learning'' of
             Inl err \<Rightarrow> (Raise err, (''Example Event Payloads:'' @ [newline]) # lines)
           | Inr example \<Rightarrow>
               (Return (),
                (''Example Event Payloads:'' @ [newline]) # lines @ [''JSON Example:'', to_json dumps example])))"

section \<open>Primary and fallback models\<close>

lemma primary_model_Cons [simp]: "models p = k # ks \<Longrightarrow> primary_model p = Return k"
  by (simp add: primary_model_def)

lemma primary_model_Nil [simp]:
  "models p = [] \<Longrightarrow> primary_model p = Raise (IndexError list_index_out_of_range)"
  by (simp add: primary_model_def)

lemma fallback_models_tl: "fallback_models p = tl (models p)"
  by (cases "models p" rule: list.exhaust; cases "tl (models p)") (auto simp: fallback_models_def drop_Suc)

lemma primary_raises_iff: "raises (primary_model p) \<longleftrightarrow> models p = []"
  by (cases "models p") simp_all

section \<open>The dict of a payload\<close>

lemma dict_keys_to_dict [simp]: "dict_keys (to_dict p) = payload_fields"
  by (simp add: to_dict_def payload_fields_def)

lemma dict_wf_to_dict [simp]: "dict_wf (to_dict p)"
  by (simp add: dict_wf_def payload_fields_def)

lemma map_of_to_dict [simp]:
  "map_of (to_dict p) ''prompt'' = Some (PStr (prompt p))"
  "map_of (to_dict p) ''models'' = Some (PList (map PStr (models p)))"
  "map_of (to_dict p) ''max_tokens'' = Some (PInt (max_tokens p))"
  "map_of (to_dict p) ''temperature'' = Some (PFloat (temperature p))"
  "map_of (to_dict p) ''request_id'' = Some (of_opt_str (request_id p))"
  by (simp_all add: to_dict_def)

lemma typed_payload_to_dict [simp]: "typed_payload (to_dict p) = Some p"
  by (simp add: typed_payload_def kwarg_or_def)

lemma no_unexpected_to_dict [simp]:
  "filter (\<lambda>k. k \<notin> set payload_fields) (dict_keys (to_dict p)) = []"
  by simp

lemma no_missing_to_dict [simp]:
  "filter (\<lambda>k. \<not> dict_has (to_dict p) k) required_fields = []"
  by (simp add: required_fields_def dict_has_def)

lemma from_dict_to_dict: "from_dict (to_dict p) = Some (Return p)"
  by (simp add: from_dict_def init_kwargs_def)

lemma to_dict_inj: "to_dict p = to_dict q \<Longrightarrow> p = q"
  by (metis from_dict_to_dict option.inject sum.inject(2))

section \<open>What the generated constructor does\<close>

lemma filter_eq_Cons_first:
  "filter P xs = y # ys \<Longrightarrow> y \<in> set xs \<and> P y"
  by (induction xs) (auto split: if_splits)

lemma init_kwargs_unexpected:
  assumes "filter (\<lambda>k. k \<notin> set payload_fields) (dict_keys kw) = k # ks"
  shows "init_kwargs kw = Some (Raise (TypeError (UnexpectedKeyword k)))"
  using assms by (simp add: init_kwargs_def)

lemma init_kwargs_missing:
  assumes "set (dict_keys kw) \<subseteq> set payload_fields"
    and "filter (\<lambda>k. \<not> dict_has kw k) required_fields = m # ms"
  shows "init_kwargs kw = Some (Raise (TypeError (MissingArguments (m # ms))))"
proof -
  from assms(1) have "filter (\<lambda>k. k \<notin> set payload_fields) (dict_keys kw) = []"
    by (auto simp: filter_empty_conv)
  with assms(2) show ?thesis by (simp add: init_kwargs_def)
qed

lemma init_kwargs_Return_iff:
  "init_kwargs kw = Some (Return p) \<longleftrightarrow>
     set (dict_keys kw) \<subseteq> set payload_fields \<and> typed_payload kw = Some p"
proof -
  have req: "filter (\<lambda>k. \<not> dict_has kw k) required_fields = []" if "typed_payload kw = Some p"
    using that
    by (auto simp: typed_payload_def required_fields_def dict_has_def
             split: Option.bind_splits)
  show ?thesis
    by (auto simp: init_kwargs_def filter_empty_conv req
             split: list.splits dest: filter_eq_Cons_first)
qed

text \<open>A returned payload holds the values of the dict, and the defaults elsewhere.\<close>

lemma typed_payload_fields:
  assumes "typed_payload kw = Some p"
  shows "map_of kw ''prompt'' = Some (PStr (prompt p))"
    and "map_of kw ''models'' = Some (PList (map PStr (models p)))"
    and "map_of kw ''max_tokens'' = None \<and> max_tokens p = default_max_tokens
        \<or> map_of kw ''max_tokens'' = Some (PInt (max_tokens p))"
    and "map_of kw ''temperature'' = None \<and> temperature p = default_temperature
        \<or> map_of kw ''temperature'' = Some (PFloat (temperature p))"
    and "map_of kw ''request_id'' = None \<and> request_id p = None
        \<or> map_of kw ''request_id'' = Some (of_opt_str (request_id p))"
  using assms
  by (auto simp: typed_payload_def kwarg_or_def as_typed_iffs
           split: Option.bind_splits option.splits)

section \<open>The example payloads\<close>

lemma example_keys:
  "dict_keys EXAMPLE_PAYLOADS =
     [''1p_to_3p'', ''quality_first'', ''speed_first'', ''cost_first'', ''anthropic_only'',
      ''openai_only'']"
  by (simp add: EXAMPLE_PAYLOADS_def)

lemma EXAMPLE_PAYLOADS_wf [simp]: "dict_wf EXAMPLE_PAYLOADS"
  by (simp add: dict_wf_def example_keys)

lemma valid_with_defaults [simp]: "valid_payload (with_defaults pr ms) \<longleftrightarrow> ms \<noteq> []"
  by (simp add: valid_payload_def with_defaults_def default_max_tokens_def default_temperature_def)

lemma examples_valid: "list_all (\<lambda>(name, p). valid_payload p) EXAMPLE_PAYLOADS"
  by (simp add: EXAMPLE_PAYLOADS_def)

lemma examples_defaults:
  "list_all (\<lambda>(name, p). max_tokens p = default_max_tokens
       \<and> temperature p = default_temperature \<and> request_id p = None) EXAMPLE_PAYLOADS"
  by (simp add: EXAMPLE_PAYLOADS_def with_defaults_def)

lemma map_of_in_set: "map_of d k = Some v \<Longrightarrow> (k, v) \<in> set d"
  by (rule map_of_SomeD)

lemma example_lookup_valid:
  assumes "map_of EXAMPLE_PAYLOADS strategy = Some example"
  shows "valid_payload example"
  using examples_valid map_of_in_set [OF assms] by (auto simp: list_all_iff)

lemma get_example_payload_known:
  assumes "map_of EXAMPLE_PAYLOADS strategy = Some example"
  shows "get_example_payload strategy pr = Return (example\<lparr>prompt := pr\<rparr>)"
proof -
  from examples_defaults map_of_in_set [OF assms] have "request_id example = None"
    by (auto simp: list_all_iff)
  with assms show ?thesis by (simp add: get_example_payload_def)
qed

lemma get_example_payload_unknown:
  "map_of EXAMPLE_PAYLOADS strategy = None \<Longrightarrow>
     get_example_payload strategy pr = Raise (ValueError (unknown_strategy_message strategy))"
  by (simp add: get_example_payload_def)

section \<open>What a returned payload holds\<close>

lemma from_dict_Return_fields:
  assumes "from_dict kw = Some (Return p)" and "map_of kw k = Some v"
  shows "map_of (to_dict p) k = Some v"
proof -
  from assms(1) have keys: "set (dict_keys kw) \<subseteq> set payload_fields" and typed: "typed_payload kw = Some p"
    by (simp_all add: from_dict_def init_kwargs_Return_iff)
  from assms(2) have "k \<in> set payload_fields"
    using keys map_of_Some_in_keys by fastforce
  with typed_payload_fields [OF typed] assms(2) show ?thesis
    by (auto simp: payload_fields_def)
qed

lemma from_dict_Return_defaults:
  assumes "from_dict kw = Some (Return p)"
  shows "(dict_has kw ''max_tokens'' \<or> max_tokens p = default_max_tokens)
    \<and> (dict_has kw ''temperature'' \<or> temperature p = default_temperature)
    \<and> (dict_has kw ''request_id'' \<or> request_id p = None)"
proof -
  from assms have "typed_payload kw = Some p"
    by (simp add: from_dict_def init_kwargs_Return_iff)
  from typed_payload_fields(3-5) [OF this] show ?thesis
    by (auto simp: dict_has_def)
qed

lemma from_dict_raises_cases:
  "(\<exists>e. from_dict kw = Some (Raise e)) \<longleftrightarrow>
     \<not> set (dict_keys kw) \<subseteq> set payload_fields \<or> \<not> dict_has kw ''prompt'' \<or> \<not> dict_has kw ''models''"
  by (auto simp: from_dict_def init_kwargs_def required_fields_def filter_empty_conv
           split: list.splits if_splits dest: filter_eq_Cons_first)

section \<open>Through JSON\<close>

text \<open>
  \<open>from_json\<close> undoes \<open>to_json\<close> for every codec that reads back the dict it wrote; what
  \<open>json.loads\<close> raises leaves \<open>from_json\<close> as it is, and a JSON text that is no object is a
  \<open>TypeError\<close> of the call \<open>cls(**data)\<close>.
\<close>

lemma from_json_to_json:
  assumes "loads (dumps (PDict (to_dict p))) = Return (PDict (to_dict p))"
  shows "from_json loads (to_json dumps p) = Some (Return p)"
  using assms by (simp add: from_json_def to_json_def from_dict_to_dict)

lemma from_json_invalid:
  "loads json_str = Raise e \<Longrightarrow> from_json loads json_str = Some (Raise e)"
  by (simp add: from_json_def)

lemma from_json_object:
  "loads json_str = Return (PDict data) \<Longrightarrow> from_json loads json_str = from_dict data"
  by (simp add: from_json_def)

lemma from_json_not_object:
  assumes "loads json_str = Return v" and "\<nexists>data. v = PDict data"
  shows "from_json loads json_str = Some (Raise (TypeError NotAMapping))"
  using assms by (cases v) (simp_all add: from_json_def)

section \<open>Annotated types\<close>

lemma conforms_to_dict [simp]: "conforms EventPayload_annotations (to_dict p)"
  by (cases "request_id p")
     (simp_all add: conforms_def EventPayload_annotations_def list_all_iff of_opt_str_def)

lemma typed_payload_conforms:
  "(\<exists>p. typed_payload kw = Some p) \<longleftrightarrow>
     dict_has kw ''prompt'' \<and> dict_has kw ''models'' \<and> conforms EventPayload_annotations kw"
  by (auto simp: typed_payload_def kwarg_or_def conforms_def EventPayload_annotations_def
        dict_has_code has_type_readers has_type_str_list
      simp del: has_type.simps split: Option.bind_splits option.splits)

lemma from_dict_None_iff:
  "from_dict kw = None \<longleftrightarrow>
     set (dict_keys kw) \<subseteq> set payload_fields \<and> dict_has kw ''prompt'' \<and> dict_has kw ''models''
     \<and> \<not> conforms EventPayload_annotations kw"
proof -
  have "from_dict kw = None \<longleftrightarrow> (\<nexists>e. from_dict kw = Some (Raise e)) \<and> (\<nexists>p. from_dict kw = Some (Return p))"
  proof (cases "from_dict kw")
    case (Some a)
    then show ?thesis by (cases a) auto
  qed simp
  moreover have "(\<exists>p. from_dict kw = Some (Return p)) \<longleftrightarrow>
      set (dict_keys kw) \<subseteq> set payload_fields \<and> (\<exists>p. typed_payload kw = Some p)"
    by (auto simp: from_dict_def init_kwargs_Return_iff)
  ultimately show ?thesis
    unfolding typed_payload_conforms from_dict_raises_cases by blast
qed

section \<open>The object and its typed view\<close>

lemma dict_keys_attributes [simp]: "dict_keys (attributes kw) = payload_fields"
  by (simp add: attributes_def dict_keys_def comp_def)

lemma map_of_attributes:
  "k \<in> set payload_fields \<Longrightarrow>
     map_of (attributes kw) k = Some (case map_of kw k of Some v \<Rightarrow> v | None \<Rightarrow> field_default k)"
  by (auto simp: attributes_def payload_fields_def)

lemma attributes_keep:
  assumes "set (dict_keys kw) \<subseteq> set payload_fields"
  shows "map_of kw \<subseteq>\<^sub>m map_of (attributes kw)"
  unfolding map_le_def
proof
  fix k assume "k \<in> dom (map_of kw)"
  then obtain v where v: "map_of kw k = Some v" by auto
  with assms have "k \<in> set payload_fields"
    using map_of_Some_in_keys by fastforce
  with v show "map_of kw k = map_of (attributes kw) k"
    by (simp add: map_of_attributes)
qed

lemma init_object_Return_iff:
  "init_object kw = Return obj \<longleftrightarrow>
     set (dict_keys kw) \<subseteq> set payload_fields \<and> dict_has kw ''prompt'' \<and> dict_has kw ''models''
     \<and> obj = attributes kw"
  by (auto simp: init_object_def required_fields_def filter_empty_conv
           split: list.splits if_splits dest: filter_eq_Cons_first)

lemma init_object_raises: "init_object kw = Raise e \<longleftrightarrow> from_dict kw = Some (Raise e)"
  by (auto simp: init_object_def from_dict_def init_kwargs_def split: list.splits)

lemma typed_payload_attributes:
  assumes "typed_payload kw = Some p"
  shows "attributes kw = to_dict p"
  using typed_payload_fields [OF assms]
  by (auto simp: attributes_def payload_fields_def to_dict_def field_default_def of_opt_str_def)

lemma conforms_attributes:
  assumes "dict_has kw ''prompt''" "dict_has kw ''models''"
  shows "conforms EventPayload_annotations (attributes kw) \<longleftrightarrow> conforms EventPayload_annotations kw"
  using assms
  by (auto simp: conforms_def EventPayload_annotations_def attributes_def payload_fields_def
        field_default_def dict_has_code split: option.splits)

lemma from_dict_attributes:
  assumes "init_object kw = Return obj"
  shows "(\<exists>p. from_dict kw = Some (Return p) \<and> to_dict p = obj) \<longleftrightarrow> conforms EventPayload_annotations obj"
    and "from_dict kw = None \<longleftrightarrow> \<not> conforms EventPayload_annotations obj"
proof -
  from assms have kw: "set (dict_keys kw) \<subseteq> set payload_fields" "dict_has kw ''prompt''"
      "dict_has kw ''models''" and obj: "obj = attributes kw"
    by (simp_all add: init_object_Return_iff)
  from kw show "from_dict kw = None \<longleftrightarrow> \<not> conforms EventPayload_annotations obj"
    by (simp add: from_dict_None_iff obj conforms_attributes)
  from kw typed_payload_conforms [of kw]
  show "(\<exists>p. from_dict kw = Some (Return p) \<and> to_dict p = obj) \<longleftrightarrow> conforms EventPayload_annotations obj"
    by (auto simp: from_dict_def init_kwargs_Return_iff obj conforms_attributes typed_payload_attributes)
qed

section \<open>What the script prints\<close>

lemma show_examples_valid:
  "list_all (\<lambda>(name, p). valid_payload p) es \<Longrightarrow> fst (show_examples es) = Return ()"
  by (induction es) (auto simp: valid_payload_def primary_model_def neq_Nil_conv split: prod.splits)

lemma show_examples_length:
  "fst (show_examples es) = Return () \<Longrightarrow> length (snd (show_examples es)) = 4 * length es"
  by (induction es) (auto split: sum.splits prod.splits)

lemma quality_first_known: "dict_has EXAMPLE_PAYLOADS ''quality_first''"
  by (simp add: dict_has_iff example_keys)

lemma example_known:
  assumes "dict_has EXAMPLE_PAYLOADS strategy"
  obtains example where "map_of EXAMPLE_PAYLOADS strategy = Some example"
    and "get_example_payload strategy pr = Return (example\<lparr>prompt := pr\<rparr>)"
  using assms get_example_payload_known [of strategy _ pr]
  by (auto simp: dict_has_code split: option.splits)

lemma payload_main_prints:
  obtains example where
    "get_example_payload ''quality_first'' ''Explain machine learning'' = Return example"
    "payload_main dumps =
       (Return (), (''Example Event Payloads:'' @ [newline]) # snd (show_examples EXAMPLE_PAYLOADS) @
                   [''JSON Example:'', to_json dumps example])"
proof -
  obtain ex where g: "get_example_payload ''quality_first'' ''Explain machine learning''
      = Return (ex\<lparr>prompt := ''Explain machine learning''\<rparr>)"
    by (rule example_known [OF quality_first_known])
  from show_examples_valid [OF examples_valid]
  obtain lines where "show_examples EXAMPLE_PAYLOADS = (Return (), lines)"
    by (cases "show_examples EXAMPLE_PAYLOADS") auto
  with g that show thesis by (simp add: payload_main_def)
qed

lemma payload_main_returns: "fst (payload_main dumps) = Return ()"
  by (rule payload_main_prints [of dumps]) simp

lemma payload_main_length: "length (snd (payload_main dumps)) = 27"
proof (rule payload_main_prints [of dumps])
  have "length EXAMPLE_PAYLOADS = 6"
    using length_dict_keys [of EXAMPLE_PAYLOADS] unfolding example_keys by simp
  with show_examples_length [OF show_examples_valid [OF examples_valid]]
  have "length (snd (show_examples EXAMPLE_PAYLOADS)) = 24" by simp
  then show "length (snd (payload_main dumps)) = 27" if "payload_main dumps =
       (Return (), (''Example Event Payloads:'' @ [newline]) # snd (show_examples EXAMPLE_PAYLOADS) @
                   [''JSON Example:'', to_json dumps example])" for example
    using that by simp
qed

lemma payload_main_first_example:
  "take 5 (snd (payload_main dumps)) =
     [''Example Event Payloads:'' @ [newline], ''1P_TO_3P:'', ''  Primary: claude-3-haiku-bedrock'',
      ''  Fallbacks: ['claude-3-5-sonnet']'', '''']"
  by code_simp

section \<open>Properties of the request\<close>

text \<open>
  \<^bold>\<open>C26\<close> (roundtrip).  \<open>from_dict\<close> undoes \<open>to_dict\<close> on every payload, and the dict of a
  payload has exactly the five fields of the class, in the order of the source.
\<close>

theorem from_dict_round_trip:
  "from_dict (to_dict p) = Some (Return p)
   \<and> dict_keys (to_dict p) = [''prompt'', ''models'', ''max_tokens'', ''temperature'', ''request_id'']"
  by (simp add: from_dict_to_dict) (simp add: payload_fields_def)

text \<open>
  \<^bold>\<open>C28\<close> (functional).  \<open>fallback_models\<close> is \<open>models[1:]\<close> for every list, so it is empty
  for a list of one model (and the length test of the source changes nothing);
  \<open>primary_model\<close> is \<open>models[0]\<close> and raises \<open>IndexError\<close> on the empty list, which the
  class accepts.
\<close>

theorem primary_fallback_split:
  "fallback_models p = drop 1 (models p)
   \<and> primary_model p =
       (if models p = [] then Raise (IndexError ''list index out of range'') else Return (models p ! 0))"
  by (cases "models p") (simp_all add: fallback_models_tl list_index_out_of_range_def drop_Suc)

text \<open>
  \<^bold>\<open>C34\<close> (error).  The constructor raises exactly on the dicts that hold a key that is
  no field of the class or that lack \<open>prompt\<close> or \<open>models\<close>; it checks nothing else.
\<close>

theorem from_dict_raises_iff:
  "(\<exists>e. from_dict kw = Some (Raise e)) \<longleftrightarrow>
     \<not> set (dict_keys kw) \<subseteq> set payload_fields \<or> \<not> dict_has kw ''prompt'' \<or> \<not> dict_has kw ''models''"
  by (rule from_dict_raises_cases)

theorem from_dict_raises_iff_witness:
  "\<exists>e. from_dict [(''prompt'', PStr ''X''), (''model'', PList [PStr ''gpt-4o''])] = Some (Raise e)"
  using from_dict_raises_iff [of "[(''prompt'', PStr ''X''), (''model'', PList [PStr ''gpt-4o''])]"]
  by (simp add: payload_fields_def)

text \<open>
  \<^bold>\<open>C38\<close> (functional).  A payload that \<open>from_dict\<close> returns holds every value of the dict
  under its field (its own dict extends the one it was built from), and the default of
  the class in every optional field the dict does not name.
\<close>

theorem from_dict_lossless:
  assumes "from_dict kw = Some (Return p)"
  shows "map_of kw \<subseteq>\<^sub>m map_of (to_dict p)
    \<and> (dict_has kw ''max_tokens'' \<or> max_tokens p = 4000)
    \<and> (dict_has kw ''temperature'' \<or> temperature p = 7 / 10)
    \<and> (dict_has kw ''request_id'' \<or> request_id p = None)"
  using from_dict_Return_defaults [OF assms] from_dict_Return_fields [OF assms]
  by (auto simp: map_le_def default_max_tokens_def default_temperature_def)

theorem from_dict_lossless_witness:
  "map_of [(''models'', PList [PStr ''gpt-4o'']), (''prompt'', PStr ''X''), (''max_tokens'', PInt 16)]
     \<subseteq>\<^sub>m map_of (to_dict ((with_defaults ''X'' [''gpt-4o''])\<lparr>max_tokens := 16\<rparr>))
   \<and> temperature ((with_defaults ''X'' [''gpt-4o''])\<lparr>max_tokens := 16\<rparr>) = 7 / 10"
proof -
  have "from_dict [(''models'', PList [PStr ''gpt-4o'']), (''prompt'', PStr ''X''), (''max_tokens'', PInt 16)]
      = Some (Return ((with_defaults ''X'' [''gpt-4o''])\<lparr>max_tokens := 16\<rparr>))"
    by (simp add: from_dict_def init_kwargs_def typed_payload_def kwarg_or_def payload_fields_def
          required_fields_def with_defaults_def)
  from from_dict_lossless [OF this] show ?thesis
    by (simp add: dict_has_def)
qed

text \<open>
  \<^bold>\<open>C39\<close> (error).  \<open>get_example_payload\<close> returns the example of a known strategy
  with the prompt replaced and raises \<open>ValueError\<close> for every other name, with a message
  that lists the six strategies; every example names at least one model and has the
  defaults of the class.
\<close>

theorem get_example_payload_total:
  "get_example_payload strategy pr =
     (case map_of EXAMPLE_PAYLOADS strategy of
        Some example \<Rightarrow> Return (example\<lparr>prompt := pr\<rparr>)
      | None \<Rightarrow> Raise (ValueError (''Unknown strategy: '' @ strategy @
          ''. Available: ['1p_to_3p', 'quality_first', 'speed_first', 'cost_first', 'anthropic_only', 'openai_only']'')))
   \<and> list_all (\<lambda>(name, p). valid_payload p) EXAMPLE_PAYLOADS"
proof -
  have "py_repr_str_list (dict_keys EXAMPLE_PAYLOADS) =
      ''['1p_to_3p', 'quality_first', 'speed_first', 'cost_first', 'anthropic_only', 'openai_only']''"
    unfolding example_keys by code_simp
  then show ?thesis
    by (auto simp: get_example_payload_known get_example_payload_unknown unknown_strategy_message_def
          examples_valid split: option.splits)
qed

text \<open>
  \<open>create_payload\<close> with no further keyword gives the payload with
  the defaults of the class, a further keyword sets its field, and \<open>prompt\<close> or \<open>models\<close>
  among the further keywords is a \<open>TypeError\<close>.
\<close>

theorem create_payload_keywords:
  "create_payload pr ms [] = Some (Return (with_defaults pr ms))
   \<and> create_payload pr ms [(''max_tokens'', PInt n)] = Some (Return ((with_defaults pr ms)\<lparr>max_tokens := n\<rparr>))
   \<and> create_payload pr ms [(''request_id'', PStr r)] = Some (Return ((with_defaults pr ms)\<lparr>request_id := Some r\<rparr>))
   \<and> create_payload pr ms [(''prompt'', v)] = Some (Raise (TypeError (MultipleValues ''prompt'')))
   \<and> create_payload pr ms [(''stream'', v)] = Some (Raise (TypeError (UnexpectedKeyword ''stream'')))"
  by (simp add: create_payload_def init_kwargs_def typed_payload_def kwarg_or_def payload_fields_def
        required_fields_def with_defaults_def dict_has_def)

text \<open>
  \<^bold>\<open>C27\<close> (type).  The annotations of the class are not enforced.  \<open>cls(**data)\<close> raises
  exactly where the typed constructor raises, with the same exception.  Where it
  returns, the object has the five fields of the class and holds every value of the
  dict as it was given, whatever its type; the typed record holds that object exactly
  when its fields have the types of their annotations, and is left undefined (\<open>None\<close>)
  exactly when one of them has another type.
\<close>

theorem annotations_not_enforced:
  "(init_object kw = Raise e \<longleftrightarrow> from_dict kw = Some (Raise e))
   \<and> (init_object kw = Return obj \<longrightarrow>
        map_of kw \<subseteq>\<^sub>m map_of obj \<and> dict_keys obj = payload_fields
        \<and> ((\<exists>p. from_dict kw = Some (Return p) \<and> to_dict p = obj)
              \<longleftrightarrow> conforms EventPayload_annotations obj)
        \<and> (from_dict kw = None \<longleftrightarrow> \<not> conforms EventPayload_annotations obj))"
  using from_dict_attributes [of kw obj]
  by (auto simp: init_object_raises init_object_Return_iff attributes_keep)

theorem annotations_not_enforced_witness:
  "init_object [(''prompt'', PStr ''X''), (''models'', PStr ''gpt-4o'')]
     = Return [(''prompt'', PStr ''X''), (''models'', PStr ''gpt-4o''), (''max_tokens'', PInt 4000),
               (''temperature'', PFloat (7 / 10)), (''request_id'', PNone)]
   \<and> from_dict [(''prompt'', PStr ''X''), (''models'', PStr ''gpt-4o'')] = None"
proof -
  have obj: "init_object [(''prompt'', PStr ''X''), (''models'', PStr ''gpt-4o'')]
     = Return [(''prompt'', PStr ''X''), (''models'', PStr ''gpt-4o''), (''max_tokens'', PInt 4000),
               (''temperature'', PFloat (7 / 10)), (''request_id'', PNone)]"
    by (simp add: init_object_def attributes_def payload_fields_def required_fields_def
          field_default_def default_max_tokens_def default_temperature_def dict_has_def)
  with annotations_not_enforced [of "[(''prompt'', PStr ''X''), (''models'', PStr ''gpt-4o'')]" _
      "[(''prompt'', PStr ''X''), (''models'', PStr ''gpt-4o''), (''max_tokens'', PInt 4000),
        (''temperature'', PFloat (7 / 10)), (''request_id'', PNone)]"]
  show ?thesis
    by (simp add: conforms_def EventPayload_annotations_def)
qed

end
