(* ===== verification/Registry.thy ===== *)
theory Registry
  imports Py_Prelude
begin

text \<open>
  The model registry of \<^verbatim>\<open>src/available_models.py\<close>: the two module-level tables and
  the three functions over them.  The tables are the dict literals of the source, entry
  by entry and in their order; a lookup that raises \<open>ValueError\<close> in the source
  returns \<open>Raise (ValueError msg)\<close> with the message the source formats.
  \<open>list_available_models\<close> prints; the model returns the lines it prints.

  The lemmas show that the tables are well-formed dicts over the same keys, that no two
  keys share a provider identifier or a display name, on which keys each lookup
  succeeds, and what it returns where it does not.
\<close>

section \<open>The tables\<close>

definition AVAILABLE_MODELS :: "(string \<times> string) list" where
  "AVAILABLE_MODELS =
    [(''claude-3-5-sonnet'', ''claude-3-5-sonnet-20241022''),
     (''claude-3-haiku'', ''claude-3-haiku-20240307''),
     (''gpt-4o'', ''gpt-4o''),
     (''gpt-4o-mini'', ''gpt-4o-mini''),
     (''gpt-4-turbo'', ''gpt-4-turbo''),
     (''claude-3-5-sonnet-bedrock'', ''bedrock/us.anthropic.claude-3-5-sonnet-20241022-v2:0''),
     (''claude-3-haiku-bedrock'', ''bedrock/anthropic.claude-3-haiku-20240307-v1:0''),
     (''cohere-command-r-plus'', ''cohere/command-r-plus''),
     (''gemini-1-5-pro'', ''gemini/gemini-1.5-pro'')]"

definition MODEL_NAMES :: "(string \<times> string) list" where
  "MODEL_NAMES =
    [(''claude-3-5-sonnet'', ''Claude 3.5 Sonnet (Direct)''),
     (''claude-3-haiku'', ''Claude 3 Haiku (Direct)''),
     (''gpt-4o'', ''GPT-4o''),
     (''gpt-4o-mini'', ''GPT-4o Mini''),
     (''gpt-4-turbo'', ''GPT-4 Turbo''),
     (''claude-3-5-sonnet-bedrock'', ''Claude 3.5 Sonnet (Bedrock)''),
     (''claude-3-haiku-bedrock'', ''Claude 3 Haiku (Bedrock)''),
     (''cohere-command-r-plus'', ''Cohere Command R+''),
     (''gemini-1-5-pro'', ''Gemini 1.5 Pro'')]"

declare AVAILABLE_MODELS_def [table_defs] MODEL_NAMES_def [table_defs]

section \<open>The lookups\<close>

text \<open>
  \<open>get_model_id\<close> tests \<open>model_key not in AVAILABLE_MODELS\<close> and raises, or returns
  \<open>AVAILABLE_MODELS[model_key]\<close>; both read the same entry, so the model branches on
  the one lookup.
\<close>

definition unknown_model_message :: "string \<Rightarrow> string" where
  "unknown_model_message model_key =
     ''Unknown model: '' @ model_key @ ''. Available: '' @ py_repr_str_list (dict_keys AVAILABLE_MODELS)"

definition get_model_id :: "string \<Rightarrow> string result" where
  "get_model_id model_key =
     (case map_of AVAILABLE_MODELS model_key of
        None \<Rightarrow> Raise (ValueError (unknown_model_message model_key))
      | Some model_id \<Rightarrow> Return model_id)"

definition get_model_name :: "string \<Rightarrow> string" where
  "get_model_name model_key =
     (case map_of MODEL_NAMES model_key of None \<Rightarrow> model_key | Some name \<Rightarrow> name)"

definition list_available_models :: "string list" where
  "list_available_models =
     ''Available Models:'' #
     map (\<lambda>(key, model_id). ''  '' @ key @ '': '' @ get_model_name key) AVAILABLE_MODELS"

text \<open>A key is registered when \<open>AVAILABLE_MODELS\<close> holds it.\<close>

definition registered :: "string \<Rightarrow> bool" where
  "registered model_key = dict_has AVAILABLE_MODELS model_key"

text \<open>The provider identifier of a registered key; the empty string elsewhere.\<close>

definition provider_id :: "string \<Rightarrow> string" where
  "provider_id k = (case map_of AVAILABLE_MODELS k of None \<Rightarrow> [] | Some model_id \<Rightarrow> model_id)"

section \<open>The tables are well formed\<close>

lemma AVAILABLE_MODELS_keys:
  "dict_keys AVAILABLE_MODELS =
    [''claude-3-5-sonnet'', ''claude-3-haiku'', ''gpt-4o'', ''gpt-4o-mini'', ''gpt-4-turbo'',
     ''claude-3-5-sonnet-bedrock'', ''claude-3-haiku-bedrock'', ''cohere-command-r-plus'',
     ''gemini-1-5-pro'']"
  by (simp add: AVAILABLE_MODELS_def)

lemma MODEL_NAMES_keys: "dict_keys MODEL_NAMES = dict_keys AVAILABLE_MODELS"
  by (simp add: AVAILABLE_MODELS_def MODEL_NAMES_def)

lemma AVAILABLE_MODELS_wf [simp]: "dict_wf AVAILABLE_MODELS"
  by (simp add: dict_wf_def AVAILABLE_MODELS_keys)

lemma MODEL_NAMES_wf [simp]: "dict_wf MODEL_NAMES"
  by (simp add: dict_wf_def MODEL_NAMES_keys AVAILABLE_MODELS_keys)

lemma length_AVAILABLE_MODELS [simp]: "length AVAILABLE_MODELS = 9"
  by (simp add: AVAILABLE_MODELS_def)

lemma provider_ids_distinct: "distinct (map snd AVAILABLE_MODELS)"
  by (simp add: AVAILABLE_MODELS_def)

lemma display_names_distinct: "distinct (map snd MODEL_NAMES)"
  by (simp add: MODEL_NAMES_def)

lemma registered_iff: "registered k \<longleftrightarrow> k \<in> set (dict_keys AVAILABLE_MODELS)"
  by (simp add: registered_def dict_has_iff)

lemma registered_cases:
  "registered k \<longleftrightarrow>
     k = ''claude-3-5-sonnet'' \<or> k = ''claude-3-haiku'' \<or> k = ''gpt-4o'' \<or> k = ''gpt-4o-mini'' \<or>
     k = ''gpt-4-turbo'' \<or> k = ''claude-3-5-sonnet-bedrock'' \<or> k = ''claude-3-haiku-bedrock'' \<or>
     k = ''cohere-command-r-plus'' \<or> k = ''gemini-1-5-pro''"
  unfolding registered_iff AVAILABLE_MODELS_keys by simp

lemma has_name_iff_registered: "dict_has MODEL_NAMES k \<longleftrightarrow> registered k"
  by (simp add: registered_iff dict_has_iff MODEL_NAMES_keys)

lemma keys_plain: "list_all plain_str (dict_keys AVAILABLE_MODELS)"
  unfolding AVAILABLE_MODELS_keys by (simp add: plain_str_def py_printable_def)

section \<open>What the lookups return\<close>

lemma registered_obtains_id:
  assumes "registered k"
  obtains model_id where "map_of AVAILABLE_MODELS k = Some model_id"
  using assms by (auto simp: registered_def dict_has_def)

lemma get_model_id_registered:
  "registered k \<Longrightarrow> get_model_id k = Return (the (map_of AVAILABLE_MODELS k))"
  by (auto simp: get_model_id_def elim: registered_obtains_id)

lemma get_model_id_unregistered:
  "\<not> registered k \<Longrightarrow> get_model_id k = Raise (ValueError (unknown_model_message k))"
  by (simp add: get_model_id_def registered_def dict_has_def)

lemma get_model_id_raises_iff: "raises (get_model_id k) \<longleftrightarrow> \<not> registered k"
  by (cases "registered k") (simp_all add: get_model_id_registered get_model_id_unregistered)

lemma get_model_id_Return_registered: "get_model_id k = Return model_id \<Longrightarrow> registered k"
  using get_model_id_raises_iff [of k] by auto

lemma get_model_id_provider_id: "get_model_id k = Return model_id \<Longrightarrow> provider_id k = model_id"
  by (auto simp: get_model_id_def provider_id_def split: option.splits)

lemma get_model_id_Return_in_table:
  "get_model_id k = Return model_id \<longleftrightarrow> (k, model_id) \<in> set AVAILABLE_MODELS"
proof -
  have "distinct (map fst AVAILABLE_MODELS)"
    using AVAILABLE_MODELS_wf by (simp add: dict_wf_def dict_keys_def)
  then have "map_of AVAILABLE_MODELS k = Some model_id \<longleftrightarrow> (k, model_id) \<in> set AVAILABLE_MODELS"
    by simp
  then show ?thesis
    by (auto simp: get_model_id_def split: option.splits)
qed

lemma get_model_id_inj:
  assumes "get_model_id k = Return model_id" and "get_model_id k' = Return model_id"
  shows "k = k'"
proof -
  from assms have "(k, model_id) \<in> set AVAILABLE_MODELS" "(k', model_id) \<in> set AVAILABLE_MODELS"
    by (simp_all add: get_model_id_Return_in_table)
  with provider_ids_distinct show ?thesis
    by (metis distinct_map eq_key_imp_eq_value inj_on_def prod.collapse snd_conv fst_conv)
qed

lemma get_model_name_unregistered: "\<not> registered k \<Longrightarrow> get_model_name k = k"
  using has_name_iff_registered [of k] by (simp add: get_model_name_def dict_has_def)

lemma get_model_name_registered:
  "registered k \<Longrightarrow> map_of MODEL_NAMES k = Some (get_model_name k)"
  using has_name_iff_registered [of k] by (auto simp: get_model_name_def dict_has_def)

lemma unknown_model_message_eq:
  "unknown_model_message k =
     ''Unknown model: '' @ k @ ''. Available: ''
       @ ''['' @ py_join '', '' (map (\<lambda>s. CHR 0x27 # s @ [CHR 0x27]) (dict_keys AVAILABLE_MODELS)) @ '']''"
proof -
  have *: "map py_repr_str (dict_keys AVAILABLE_MODELS)
      = map (\<lambda>s. CHR 0x27 # s @ [CHR 0x27]) (dict_keys AVAILABLE_MODELS)"
    using keys_plain by (intro map_cong refl py_repr_str_plain) (simp add: list_all_iff)
  show ?thesis
    unfolding unknown_model_message_def py_repr_str_list_def * by (rule refl)
qed

lemma length_list_available_models: "length list_available_models = 10"
  by (simp add: list_available_models_def)

section \<open>Properties of the registry\<close>

text \<open>
  The two tables are well-formed dicts (no key twice) over the same
  keys in the same order, so every model that can be called has a display name and
  every display name belongs to a model that can be called; and no two keys name the
  same provider model.
\<close>

theorem registry_tables_consistent:
  "dict_wf AVAILABLE_MODELS \<and> dict_wf MODEL_NAMES
   \<and> dict_keys MODEL_NAMES = dict_keys AVAILABLE_MODELS
   \<and> distinct (map snd AVAILABLE_MODELS)"
  by (simp add: MODEL_NAMES_keys provider_ids_distinct)

text \<open>
  \<^bold>\<open>C29\<close> (error).  \<open>get_model_id\<close> returns the provider identifier of a key of
  \<open>AVAILABLE_MODELS\<close> and raises \<open>ValueError\<close> for every other string; the message names
  the key that was asked for and lists the nine keys of the table in their order, as
  Python prints a list of strings.
\<close>

theorem get_model_id_total:
  "get_model_id k =
     (if k \<in> set (dict_keys AVAILABLE_MODELS) then Return (provider_id k)
      else Raise (ValueError (''Unknown model: '' @ k @
        ''. Available: ['claude-3-5-sonnet', 'claude-3-haiku', 'gpt-4o', 'gpt-4o-mini', 'gpt-4-turbo', 'claude-3-5-sonnet-bedrock', 'claude-3-haiku-bedrock', 'cohere-command-r-plus', 'gemini-1-5-pro']'')))"
proof (cases "registered k")
  case True
  then obtain model_id where "map_of AVAILABLE_MODELS k = Some model_id"
    by (rule registered_obtains_id)
  with True show ?thesis
    by (simp add: registered_iff get_model_id_def provider_id_def)
next
  case False
  then show ?thesis
    by (simp add: get_model_id_unregistered registered_iff unknown_model_message_eq AVAILABLE_MODELS_keys)
qed

text \<open>
  \<open>get_model_name\<close> falls back to the key exactly on the keys that
  are not registered: every registered key has a display name, and that name differs
  from the key.
\<close>

theorem display_name_falls_back_iff: "get_model_name k = k \<longleftrightarrow> \<not> registered k"
proof (cases "registered k")
  case True
  then show ?thesis
    unfolding registered_cases by (auto simp: get_model_name_def MODEL_NAMES_def)
next
  case False
  then show ?thesis by (simp add: get_model_name_unregistered)
qed

text \<open>
  Among registered keys the display name identifies the model:
  two registered keys with the same display name are the same key.  The attempts of a
  response and the log name models by display name.
\<close>

theorem display_names_identify:
  assumes "registered k" and "registered k'" and "get_model_name k = get_model_name k'"
  shows "k = k'"
proof -
  from assms have "(k, get_model_name k) \<in> set MODEL_NAMES" "(k', get_model_name k) \<in> set MODEL_NAMES"
    by (auto dest!: get_model_name_registered map_of_SomeD)
  with display_names_distinct show ?thesis
    by (metis distinct_map eq_key_imp_eq_value inj_on_def prod.collapse snd_conv fst_conv)
qed

theorem display_names_identify_witness:
  "get_model_name ''gpt-4o'' \<noteq> get_model_name ''gpt-4o-mini''"
  using display_names_identify [of "''gpt-4o''" "''gpt-4o-mini''"]
  by (auto simp: registered_cases)

end
