(* ===== verification/Adapter.thy ===== *)
theory Adapter
  imports Registry
begin

text \<open>
  The provider call of \<^verbatim>\<open>src/llm_handler.py\<close>: \<open>SimpleLLMHandler._call_model\<close>, the
  handler's constructor and \<open>_setup_api_keys\<close>.

  \<^bold>\<open>The provider.\<close>  \<open>litellm.completion\<close> is a call into the network.  The model takes it
  as a parameter \<open>completion\<close> of type \<open>'w completion\<close>: a function from the state of
  the outside world and the arguments of the call to the outcome of the call and the
  next state of the world.  The outcome is \<open>Inl msg\<close> when the call raises an exception
  \<open>e\<close> with \<open>str(e) = msg\<close>, and \<open>Inr response\<close> when it returns.  Of the response
  object the record \<open>completion_response\<close> keeps what \<open>_call_model\<close> reads: the
  contents of the messages of \<open>response.choices\<close>, \<open>response.usage\<close>, and what
  \<open>litellm.completion_cost\<close> does on the response.  Nothing is assumed of the provider:
  every theorem holds for every \<open>completion\<close> and every world.

  \<^bold>\<open>The log.\<close>  Each call of \<open>logger\<close> is one entry of the returned log: its level and a
  constructor of \<open>handler_msg\<close> that names the call site and carries the values its
  f-string interpolates.

  \<^bold>\<open>The result.\<close>  \<open>_call_model\<close> returns a dict with the key \<open>success\<close> and either the
  keys of a success or the key \<open>error\<close>: the datatype \<open>call_result\<close>.  It looks the
  model up before its \<open>try\<close>, so the \<open>ValueError\<close> of an unknown key is not caught:
  \<open>call_model\<close> returns \<open>Raise\<close> there, with no log entry and the world untouched.
\<close>

section \<open>The provider interface\<close>

datatype usage_obj =
    NamedTupleUsage pydict
  | MappingUsage pydict
  | OpaqueUsage string

record completion_response =
  choices :: "string option list"
  response_usage :: usage_obj
  completion_cost :: "string + real"

type_synonym outcome = "string + completion_response"

type_synonym 'w completion =
  "'w \<Rightarrow> string \<Rightarrow> (string \<times> string) list \<Rightarrow> int \<Rightarrow> real \<Rightarrow> outcome \<times> 'w"

section \<open>Log messages of the handler\<close>

datatype handler_msg =
    HandlerInitialized nat
  | Trying string
  | Successful string
  | Failed string
  | ProcessingRequest "string option"
  | PromptPreview string
  | ModelOrder "string list"
  | PrimaryModel string
  | FallbackModel nat string
  | SuccessWith string
  | AllFailed string

section \<open>Calling one model\<close>

datatype call_result =
    CallOk "string option" string pydict "real option"
  | CallFailed string

fun call_success :: "call_result \<Rightarrow> bool" where
  "call_success (CallOk content model_used usage cost) = True"
| "call_success (CallFailed error) = False"

fun call_error :: "call_result \<Rightarrow> string" where
  "call_error (CallOk content model_used usage cost) = ''''"
| "call_error (CallFailed error) = error"

text \<open>
  \<open>response.usage._asdict() if hasattr(response.usage, '_asdict') else dict(response.usage)\<close>:
  a named tuple gives its dict, a mapping is copied, anything else makes \<open>dict\<close> raise.
\<close>

fun usage_dict :: "usage_obj \<Rightarrow> string + pydict" where
  "usage_dict (NamedTupleUsage d) = Inr d"
| "usage_dict (MappingUsage d) = Inr d"
| "usage_dict (OpaqueUsage msg) = Inl msg"

text \<open>
  The body of the \<open>try\<close> after the call returned: \<open>choices[0]\<close> raises \<open>IndexError\<close> on
  an empty list, the usage conversion may raise, and an exception of
  \<open>completion_cost\<close> is swallowed and leaves \<open>cost = None\<close>.
\<close>

definition extract_response :: "completion_response \<Rightarrow> string + (string option \<times> pydict \<times> real option)" where
  "extract_response response =
     (case choices response of
        [] \<Rightarrow> Inl list_index_out_of_range
      | content # _ \<Rightarrow>
          (case usage_dict (response_usage response) of
             Inl msg \<Rightarrow> Inl msg
           | Inr usage \<Rightarrow>
               Inr (content, usage,
                    (case completion_cost response of Inl _ \<Rightarrow> None | Inr c \<Rightarrow> Some c))))"

definition failed_message :: "string \<Rightarrow> string \<Rightarrow> string" where
  "failed_message model_name msg = model_name @ '' failed: '' @ msg"

definition call_model ::
  "'w completion \<Rightarrow> 'w \<Rightarrow> string \<Rightarrow> string \<Rightarrow> int \<Rightarrow> real
     \<Rightarrow> call_result result \<times> handler_msg log \<times> 'w" where
  "call_model completion w model_key prompt max_tokens temperature =
     (case get_model_id model_key of
        Inl e \<Rightarrow> (Raise e, [], w)
      | Inr model_id \<Rightarrow>
          (let model_name = get_model_name model_key;
               (outcome, w') = completion w model_id [(''user'', prompt)] max_tokens temperature
           in case (case outcome of Inl msg \<Rightarrow> Inl msg | Inr response \<Rightarrow> extract_response response) of
                Inr (content, usage, cost) \<Rightarrow>
                  (Return (CallOk content model_id usage cost),
                   [(INFO, Trying model_name), (INFO, Successful model_name)], w')
              | Inl msg \<Rightarrow>
                  (Return (CallFailed (failed_message model_name msg)),
                   [(INFO, Trying model_name), (ERROR, Failed (failed_message model_name msg))], w')))"

section \<open>The constructor of the handler\<close>

definition API_KEY_NAMES :: "string list" where
  "API_KEY_NAMES =
    [''OPENAI_API_KEY'', ''ANTHROPIC_API_KEY'', ''COHERE_API_KEY'', ''GOOGLE_API_KEY'',
     ''AWS_ACCESS_KEY_ID'', ''AWS_SECRET_ACCESS_KEY'', ''AWS_SESSION_TOKEN'']"

text \<open>
  The dict \<open>api_keys\<close> is built from \<open>os.getenv\<close> before the loop runs; the loop then
  stores every value that is neither \<open>None\<close> nor empty back under its name.
\<close>

definition api_keys :: "environ \<Rightarrow> (string \<times> string option) list" where
  "api_keys env = map (\<lambda>key. (key, env key)) API_KEY_NAMES"

definition set_if_truthy :: "string \<times> string option \<Rightarrow> environ \<Rightarrow> environ" where
  "set_if_truthy kv env =
     (case snd kv of
        None \<Rightarrow> env
      | Some v \<Rightarrow> if v \<noteq> [] then env(fst kv \<mapsto> v) else env)"

definition setup_api_keys :: "environ \<Rightarrow> environ" where
  "setup_api_keys env = fold set_if_truthy (api_keys env) env"

definition handler_init :: "environ \<Rightarrow> environ \<times> handler_msg log" where
  "handler_init env = (setup_api_keys env, [(INFO, HandlerInitialized (length AVAILABLE_MODELS))])"

section \<open>Providers for closed instances\<close>

text \<open>
  Concrete providers, used where a theorem is applied to a concrete input.
  \<open>scripted\<close> answers from a list of outcomes, one per call, and refuses the connection
  when the list is used up; its world is the rest of the list.  \<open>refusing\<close> refuses
  every connection and leaves the world as it is.  \<open>by_model\<close> answers
  from a table indexed by the provider model identifier and has no state.
  \<open>recording\<close> wraps a provider and keeps the identifiers it was called with.
\<close>

definition scripted :: "outcome list completion" where
  "scripted w model_id messages max_tokens temperature =
     (case w of [] \<Rightarrow> (Inl ''connection refused'', []) | x # xs \<Rightarrow> (x, xs))"

definition refusing :: "'w completion" where
  "refusing w model_id messages max_tokens temperature = (Inl ''connection refused'', w)"

definition by_model :: "(string \<Rightarrow> outcome) \<Rightarrow> unit completion" where
  "by_model table w model_id messages max_tokens temperature = (table model_id, ())"

definition recording :: "'w completion \<Rightarrow> (string list \<times> 'w) completion" where
  "recording completion w model_id messages max_tokens temperature =
     (let (outcome, w') = completion (snd w) model_id messages max_tokens temperature
      in (outcome, (fst w @ [model_id], w')))"

definition ok_response :: "string \<Rightarrow> completion_response" where
  "ok_response text =
     \<lparr>choices = [Some text],
      response_usage = MappingUsage [(''prompt_tokens'', PInt 9), (''completion_tokens'', PInt 12)],
      completion_cost = Inr (1 / 1000)\<rparr>"

section \<open>What a call returns\<close>

lemma call_model_unregistered:
  "\<not> registered k \<Longrightarrow>
     call_model completion w k pr mt t = (Raise (ValueError (unknown_model_message k)), [], w)"
  by (simp add: call_model_def get_model_id_unregistered)

lemma call_model_raised:
  assumes "completion w model_id [(''user'', pr)] mt t = (Inl msg, w')"
    and "get_model_id k = Return model_id"
  shows "call_model completion w k pr mt t =
     (Return (CallFailed (failed_message (get_model_name k) msg)),
      [(INFO, Trying (get_model_name k)), (ERROR, Failed (failed_message (get_model_name k) msg))], w')"
  using assms by (simp add: call_model_def Let_def)

lemma call_model_returned:
  assumes "completion w model_id [(''user'', pr)] mt t = (Inr response, w')"
    and "get_model_id k = Return model_id"
  shows "call_model completion w k pr mt t =
     (case extract_response response of
        Inr (content, usage, cost) \<Rightarrow>
          (Return (CallOk content model_id usage cost),
           [(INFO, Trying (get_model_name k)), (INFO, Successful (get_model_name k))], w')
      | Inl msg \<Rightarrow>
          (Return (CallFailed (failed_message (get_model_name k) msg)),
           [(INFO, Trying (get_model_name k)), (ERROR, Failed (failed_message (get_model_name k) msg))], w'))"
  using assms by (simp add: call_model_def Let_def)

text \<open>The three shapes a call can take, as one case analysis for the proofs below.\<close>

lemma call_model_cases [case_names unregistered failed ok]:
  assumes "\<not> registered k \<Longrightarrow>
      call_model completion w k pr mt t = (Raise (ValueError (unknown_model_message k)), [], w) \<Longrightarrow> P"
    and "\<And>model_id msg w'. get_model_id k = Return model_id \<Longrightarrow>
      call_model completion w k pr mt t =
        (Return (CallFailed (failed_message (get_model_name k) msg)),
         [(INFO, Trying (get_model_name k)), (ERROR, Failed (failed_message (get_model_name k) msg))], w')
      \<Longrightarrow> snd (completion w model_id [(''user'', pr)] mt t) = w' \<Longrightarrow> P"
    and "\<And>model_id content usage cost w'. get_model_id k = Return model_id \<Longrightarrow>
      call_model completion w k pr mt t =
        (Return (CallOk content model_id usage cost),
         [(INFO, Trying (get_model_name k)), (INFO, Successful (get_model_name k))], w')
      \<Longrightarrow> snd (completion w model_id [(''user'', pr)] mt t) = w' \<Longrightarrow> P"
  shows P
proof (cases "registered k")
  case False
  then show ?thesis using assms(1) by (simp add: call_model_unregistered)
next
  case True
  then obtain model_id where id: "get_model_id k = Return model_id"
    by (auto simp: get_model_id_registered)
  obtain outcome w' where c: "completion w model_id [(''user'', pr)] mt t = (outcome, w')"
    by (cases "completion w model_id [(''user'', pr)] mt t")
  show ?thesis
  proof (cases "case outcome of Inl msg \<Rightarrow> Inl msg | Inr response \<Rightarrow> extract_response response")
    case (Inl msg)
    with id c show ?thesis
      by (intro assms(2) [of model_id msg w']) (simp_all add: call_model_def Let_def)
  next
    case (Inr triple)
    obtain content usage cost where "triple = (content, usage, cost)"
      by (cases triple)
    with Inr id c show ?thesis
      by (intro assms(3) [of model_id content usage cost w']) (simp_all add: call_model_def Let_def)
  qed
qed

lemma call_model_raises_iff: "raises (fst (call_model completion w k pr mt t)) \<longleftrightarrow> \<not> registered k"
  by (rule call_model_cases [of k completion w pr mt t])
     (auto simp: get_model_id_raises_iff [symmetric])

lemma call_model_log_length:
  "length (fst (snd (call_model completion w k pr mt t))) = (if registered k then 2 else 0)"
  by (rule call_model_cases [of k completion w pr mt t])
     (auto simp: get_model_id_raises_iff [symmetric])

lemma call_model_failed_nonempty:
  "fst (call_model completion w k pr mt t) = Return (CallFailed err) \<Longrightarrow> err \<noteq> []"
  by (rule call_model_cases [of k completion w pr mt t]) (auto simp: failed_message_def)

lemma call_model_ok_model_used:
  "fst (call_model completion w k pr mt t) = Return (CallOk content model_used usage cost)
     \<Longrightarrow> get_model_id k = Return model_used"
  by (rule call_model_cases [of k completion w pr mt t]) auto

section \<open>A recorded provider\<close>

lemma call_model_recording:
  "call_model (recording completion) (cs, w) k pr mt t =
     (case call_model completion w k pr mt t of
        (r, l, w') \<Rightarrow> (r, l, (if registered k then cs @ [provider_id k] else cs, w')))"
proof (cases "get_model_id k")
  case (Inl e)
  then have "\<not> registered k" using get_model_id_raises_iff [of k] by simp
  with Inl show ?thesis by (simp add: call_model_def)
next
  case (Inr model_id)
  then have "registered k" "provider_id k = model_id"
    by (auto dest: get_model_id_Return_registered get_model_id_provider_id)
  with Inr show ?thesis
    by (simp add: call_model_def recording_def Let_def split: prod.splits sum.splits)
qed

section \<open>The constructor leaves the environment as it is\<close>

lemma set_if_truthy_same: "kv = (key, env key) \<Longrightarrow> set_if_truthy kv env = env"
  by (auto simp: set_if_truthy_def split: option.splits)

lemma fold_set_if_truthy_same: "fold set_if_truthy (map (\<lambda>key. (key, env key)) ks) env = env"
  by (induction ks) (simp_all add: set_if_truthy_same)

lemma setup_api_keys_id: "setup_api_keys env = env"
  by (simp add: setup_api_keys_def api_keys_def fold_set_if_truthy_same)

section \<open>Properties of the provider call\<close>

text \<open>
  \<^bold>\<open>C21\<close> (error).  An exception of the provider does not leave \<open>_call_model\<close>: for a
  registered key, when the call raises with the text \<open>msg\<close>, the result is the failure
  with the error \<open>name failed: msg\<close>, the text of the provider kept verbatim after the
  display name; the same text is logged at level \<open>ERROR\<close> after the entry \<open>Trying\<close>, and
  the world is the one the call left.
\<close>

theorem provider_failure_captured:
  assumes "registered k"
    and "completion w (provider_id k) [(''user'', pr)] mt t = (Inl msg, w')"
  shows "call_model completion w k pr mt t =
     (Return (CallFailed (get_model_name k @ '' failed: '' @ msg)),
      [(INFO, Trying (get_model_name k)), (ERROR, Failed (get_model_name k @ '' failed: '' @ msg))], w')"
  using assms call_model_raised [of completion w "provider_id k" pr mt t msg w' k]
  by (auto simp: get_model_id_registered provider_id_def failed_message_def elim: registered_obtains_id)

theorem provider_failure_captured_witness:
  "call_model scripted [Inl ''429 Too Many Requests''] ''gpt-4o'' ''X'' 4000 (7 / 10) =
     (Return (CallFailed ''GPT-4o failed: 429 Too Many Requests''),
      [(INFO, Trying ''GPT-4o''), (ERROR, Failed ''GPT-4o failed: 429 Too Many Requests'')], [])"
proof -
  have "registered ''gpt-4o''" by (simp add: registered_cases)
  moreover have "scripted [Inl ''429 Too Many Requests''] (provider_id ''gpt-4o'') [(''user'', ''X'')] 4000 (7 / 10)
      = (Inl ''429 Too Many Requests'', [])"
    by (simp add: scripted_def)
  ultimately show ?thesis
    using provider_failure_captured [of "''gpt-4o''" scripted "[Inl ''429 Too Many Requests'']" "''X''" 4000 "7 / 10"]
    by (simp add: get_model_name_def table_defs)
qed

text \<open>
  \<^bold>\<open>C22\<close> (functional).  When the provider answers a registered key with at least one
  choice and a usage that converts to a dict, \<open>_call_model\<close> succeeds with the content
  of the first choice, the provider identifier as \<open>model_used\<close>, the usage as a dict,
  and the cost when its computation returns; when the cost computation raises, the
  call still succeeds, with no cost.
\<close>

theorem provider_success_extracted:
  assumes "registered k"
    and "completion w (provider_id k) [(''user'', pr)] mt t = (Inr response, w')"
    and "choices response = c # cs"
    and "usage_dict (response_usage response) = Inr u"
  shows "call_model completion w k pr mt t =
     (Return (CallOk c (provider_id k) u (case completion_cost response of Inl _ \<Rightarrow> None | Inr x \<Rightarrow> Some x)),
      [(INFO, Trying (get_model_name k)), (INFO, Successful (get_model_name k))], w')"
  using assms call_model_returned [of completion w "provider_id k" pr mt t response w' k]
  by (auto simp: get_model_id_registered provider_id_def extract_response_def elim: registered_obtains_id)

theorem provider_success_extracted_witness:
  "call_model scripted [Inr ((ok_response ''OK'')\<lparr>completion_cost := Inl ''no price for this model''\<rparr>)]
       ''gpt-4o'' ''X'' 4000 (7 / 10) =
     (Return (CallOk (Some ''OK'') ''gpt-4o'' [(''prompt_tokens'', PInt 9), (''completion_tokens'', PInt 12)] None),
      [(INFO, Trying ''GPT-4o''), (INFO, Successful ''GPT-4o'')], [])"
proof -
  let ?r = "(ok_response ''OK'')\<lparr>completion_cost := Inl ''no price for this model''\<rparr>"
  have "registered ''gpt-4o''" by (simp add: registered_cases)
  moreover have "scripted [Inr ?r] (provider_id ''gpt-4o'') [(''user'', ''X'')] 4000 (7 / 10) = (Inr ?r, [])"
    by (simp add: scripted_def)
  moreover have "choices ?r = Some ''OK'' # []"
    and "usage_dict (response_usage ?r) = Inr [(''prompt_tokens'', PInt 9), (''completion_tokens'', PInt 12)]"
    by (simp_all add: ok_response_def)
  ultimately show ?thesis
    using provider_success_extracted [of "''gpt-4o''" scripted "[Inr ?r]" "''X''" 4000 "7 / 10" ?r "[]"]
    by (simp add: get_model_name_def provider_id_def table_defs ok_response_def)
qed

text \<open>
  \<^bold>\<open>C31\<close> (error).  An answer of the provider that \<open>_call_model\<close> cannot read is a failure
  like any other: with no choice the error is the text of the \<open>IndexError\<close>, and with a
  usage that does not convert to a dict it is the text of that exception.
\<close>

theorem malformed_response_fails:
  assumes "registered k"
    and "completion w (provider_id k) [(''user'', pr)] mt t = (Inr response, w')"
    and "choices response = [] \<or> response_usage response = OpaqueUsage m"
  shows "fst (call_model completion w k pr mt t) =
     Return (CallFailed (get_model_name k @ '' failed: '' @
       (if choices response = [] then ''list index out of range'' else m)))"
  using assms call_model_returned [of completion w "provider_id k" pr mt t response w' k]
  by (auto simp: get_model_id_registered provider_id_def extract_response_def failed_message_def
        list_index_out_of_range_def elim: registered_obtains_id split: list.splits)

theorem malformed_response_fails_witness:
  "fst (call_model scripted [Inr ((ok_response ''OK'')\<lparr>choices := []\<rparr>)] ''gpt-4o'' ''X'' 4000 (7 / 10))
     = Return (CallFailed ''GPT-4o failed: list index out of range'')"
proof -
  let ?r = "(ok_response ''OK'')\<lparr>choices := []\<rparr>"
  have "registered ''gpt-4o''" by (simp add: registered_cases)
  moreover have "scripted [Inr ?r] (provider_id ''gpt-4o'') [(''user'', ''X'')] 4000 (7 / 10) = (Inr ?r, [])"
    by (simp add: scripted_def)
  ultimately show ?thesis
    using malformed_response_fails [of "''gpt-4o''" scripted "[Inr ?r]" "''X''" 4000 "7 / 10" ?r "[]"]
    by (simp add: get_model_name_def table_defs)
qed

text \<open>
  \<^bold>\<open>C37\<close> (safety).  \<open>_call_model\<close> calls the provider exactly once for a registered key,
  with the provider identifier of the key, and not at all for any other key; recording
  the calls changes neither the result nor the log.
\<close>

theorem call_model_calls_once:
  "call_model (recording completion) (cs, w) k pr mt t =
     (fst (call_model completion w k pr mt t), fst (snd (call_model completion w k pr mt t)),
      (if registered k then cs @ [provider_id k] else cs, snd (snd (call_model completion w k pr mt t))))"
  by (simp add: call_model_recording split: prod.splits)

text \<open>
  \<^bold>\<open>C40\<close> (functional).  Constructing the handler leaves the environment as it found it:
  \<open>_setup_api_keys\<close> writes back the values it has just read, so it sets no variable
  and changes none.  The constructor logs the number of registered models, nine.
\<close>

theorem handler_init_keeps_environment:
  "handler_init env = (env, [(INFO, HandlerInitialized 9)])"
  by (simp add: handler_init_def setup_api_keys_id)

end
