(* ===== verification/Engine.thy ===== *)
theory Engine
  imports Payload Adapter
begin

text \<open>
  The fallback engine of \<^verbatim>\<open>src/llm_handler.py\<close>: the dataclass \<open>SimpleResponse\<close> and
  \<open>SimpleLLMHandler.process\<close>.

  \<open>process\<close> logs three header lines and then runs a \<open>for\<close> loop over
  \<open>payload.models\<close> with an early \<open>return\<close>.  The loop is \<open>try_models\<close>: a recursion
  over the models still to try, with the index \<open>i\<close> of \<open>enumerate\<close>, the list
  \<open>attempts\<close> built so far and the world as arguments; its base case is the code after
  the loop.  An entry of \<open>attempts\<close> is a dict with the keys \<open>model\<close>, \<open>name\<close>,
  \<open>status\<close> and \<open>error\<close>: the record \<open>attempt\<close>, with \<open>status\<close> the string the
  source stores.  Like \<open>call_model\<close>, \<open>try_models\<close> and \<open>process\<close> return the result
  (\<open>Raise\<close> for the uncaught \<open>ValueError\<close> of an unknown model), the log entries they
  emitted and the world they leave.

  \<open>failures\<close> is not code of the repository: it says that the calls for a list of
  models, made one after the other from a given world, all fail, and gives the
  attempts they record and the world they leave.  The theorems use it to say "the
  first \<open>k\<close> models fail".
\<close>

section \<open>Responses and attempts\<close>

record attempt =
  model :: string
  name :: string
  status :: string
  error :: string

record SimpleResponse =
  success :: bool
  content :: "string option"
  model_used :: "string option"
  cost :: "real option"
  usage :: "pydict option"
  error :: "string option"
  attempts :: "attempt list option"

definition attempt_of :: "string \<Rightarrow> string \<Rightarrow> call_result \<Rightarrow> attempt" where
  "attempt_of model_key model_name result =
     \<lparr>model = model_key, name = model_name,
      status = (if call_success result then ''success'' else ''failed''),
      error = call_error result\<rparr>"

definition all_failed_message :: "EventPayload \<Rightarrow> string" where
  "all_failed_message payload = ''All '' @ str_of_nat (length (models payload)) @ '' models failed''"

definition success_response ::
  "string \<Rightarrow> string option \<Rightarrow> pydict \<Rightarrow> real option \<Rightarrow> attempt list \<Rightarrow> SimpleResponse" where
  "success_response model_key c u x as =
     \<lparr>success = True, content = c, model_used = Some model_key, cost = x, usage = Some u,
      error = None, attempts = Some as\<rparr>"

definition failure_response :: "string \<Rightarrow> attempt list \<Rightarrow> SimpleResponse" where
  "failure_response error_msg as =
     \<lparr>success = False, content = None, model_used = None, cost = None, usage = None,
      error = Some error_msg, attempts = Some as\<rparr>"

section \<open>The loop and the operation\<close>

definition announce :: "nat \<Rightarrow> string \<Rightarrow> log_level \<times> handler_msg" where
  "announce i model_name = (INFO, if i = 0 then PrimaryModel model_name else FallbackModel i model_name)"

fun try_models ::
  "'w completion \<Rightarrow> EventPayload \<Rightarrow> nat \<Rightarrow> string list \<Rightarrow> attempt list \<Rightarrow> 'w
     \<Rightarrow> SimpleResponse result \<times> handler_msg log \<times> 'w" where
  "try_models completion payload i [] as w =
     (Return (failure_response (all_failed_message payload) as),
      [(ERROR, AllFailed (all_failed_message payload))], w)"
| "try_models completion payload i (model_key # rest) as w =
     (let model_name = get_model_name model_key in
      case call_model completion w model_key (prompt payload) (max_tokens payload) (temperature payload) of
        (Inl e, l, w') \<Rightarrow> (Raise e, announce i model_name # l, w')
      | (Inr result, l, w') \<Rightarrow>
          (let as' = as @ [attempt_of model_key model_name result] in
           case result of
             CallOk c model_id u x \<Rightarrow>
               (Return (success_response model_key c u x as'),
                announce i model_name # l @ [(INFO, SuccessWith model_name)], w')
           | CallFailed err \<Rightarrow>
               (case try_models completion payload (Suc i) rest as' w' of
                  (r, l', w'') \<Rightarrow> (r, announce i model_name # l @ l', w''))))"

definition prompt_preview :: "string \<Rightarrow> string" where
  "prompt_preview pr = take 100 pr @ (if length pr > 100 then ''...'' else '''')"

definition header :: "EventPayload \<Rightarrow> handler_msg log" where
  "header payload =
     [(INFO, ProcessingRequest (request_id payload)),
      (INFO, PromptPreview (prompt_preview (prompt payload))),
      (INFO, ModelOrder (models payload))]"

definition process ::
  "'w completion \<Rightarrow> 'w \<Rightarrow> EventPayload \<Rightarrow> SimpleResponse result \<times> handler_msg log \<times> 'w" where
  "process completion w payload =
     (case try_models completion payload 0 (models payload) [] w of
        (r, l, w') \<Rightarrow> (r, header payload @ l, w'))"

section \<open>Runs of failing calls\<close>

definition call_for :: "'w completion \<Rightarrow> EventPayload \<Rightarrow> 'w \<Rightarrow> string
    \<Rightarrow> call_result result \<times> handler_msg log \<times> 'w" where
  "call_for completion payload w k =
     call_model completion w k (prompt payload) (max_tokens payload) (temperature payload)"

fun failures :: "'w completion \<Rightarrow> EventPayload \<Rightarrow> 'w \<Rightarrow> string list \<Rightarrow> (attempt list \<times> 'w) option" where
  "failures completion payload w [] = Some ([], w)"
| "failures completion payload w (k # ks) =
     (case call_for completion payload w k of
        (Inr (CallFailed err), l, w') \<Rightarrow>
          (case failures completion payload w' ks of
             None \<Rightarrow> None
           | Some (as, w'') \<Rightarrow> Some (attempt_of k (get_model_name k) (CallFailed err) # as, w''))
      | _ \<Rightarrow> None)"

definition failed_attempt :: "attempt \<Rightarrow> bool" where
  "failed_attempt a \<longleftrightarrow> status a = ''failed'' \<and> attempt.error a \<noteq> [] \<and> name a = get_model_name (model a)"

definition succeeded_attempt :: "attempt \<Rightarrow> bool" where
  "succeeded_attempt a \<longleftrightarrow> status a = ''success'' \<and> attempt.error a = [] \<and> name a = get_model_name (model a)"

text \<open>The attempt a successful call records, and the log entries of an attempt.\<close>

definition success_attempt :: "string \<Rightarrow> attempt" where
  "success_attempt k = \<lparr>model = k, name = get_model_name k, status = ''success'', error = ''''\<rparr>"

definition attempt_log :: "nat \<Rightarrow> attempt \<Rightarrow> handler_msg log" where
  "attempt_log i a =
     [announce i (name a), (INFO, Trying (name a)),
      (if status a = ''success'' then (INFO, Successful (name a)) else (ERROR, Failed (attempt.error a)))]"

definition attempts_log :: "nat \<Rightarrow> attempt list \<Rightarrow> handler_msg log" where
  "attempts_log i as = concat (map (\<lambda>(j, a). attempt_log j a) (enumerate i as))"

text \<open>
  What every returned response satisfies (\<open>coherent\<close>), and the log that belongs to a
  response (\<open>response_log\<close>): the header, three entries per attempt, and the closing
  entry.
\<close>

definition coherent :: "EventPayload \<Rightarrow> SimpleResponse \<Rightarrow> bool" where
  "coherent payload r =
     (case attempts r of
        None \<Rightarrow> False
      | Some as \<Rightarrow>
          map model as = take (length as) (models payload)
          \<and> list_all failed_attempt (butlast as)
          \<and> (if success r
              then as \<noteq> [] \<and> succeeded_attempt (last as) \<and> model_used r = Some (model (last as))
                   \<and> usage r \<noteq> None \<and> error r = None
              else length as = length (models payload) \<and> list_all failed_attempt as
                   \<and> content r = None \<and> model_used r = None \<and> cost r = None \<and> usage r = None
                   \<and> error r = Some (all_failed_message payload)))"

definition response_log :: "EventPayload \<Rightarrow> SimpleResponse \<Rightarrow> handler_msg log" where
  "response_log payload r =
     (case attempts r of
        None \<Rightarrow> []
      | Some as \<Rightarrow>
          header payload @ attempts_log 0 as @
          [if success r then (INFO, SuccessWith (name (last as)))
           else (ERROR, AllFailed (all_failed_message payload))])"

section \<open>Inputs for closed instances\<close>

text \<open>
  A request for two registered models, a request with a mistyped key between two
  registered ones, and the outcomes, attempts and response of the runs the closed
  instances below evaluate.
\<close>

definition demo_payload :: EventPayload where
  "demo_payload =
     with_defaults ''What is cloud computing'' [''claude-3-haiku-bedrock'', ''claude-3-5-sonnet'']"

definition typo_payload :: EventPayload where
  "typo_payload =
     with_defaults ''What is cloud computing'' [''claude-3-haiku-bedrock'', ''claude-3.5-sonnet'', ''gpt-4o'']"

definition throttled :: outcome where
  "throttled = Inl ''429 Too Many Requests''"

definition demo_script :: "outcome list" where
  "demo_script = [throttled, Inr (ok_response ''OK'')]"

definition demo_usage :: pydict where
  "demo_usage = [(''prompt_tokens'', PInt 9), (''completion_tokens'', PInt 12)]"

definition haiku_failed :: attempt where
  "haiku_failed =
     \<lparr>model = ''claude-3-haiku-bedrock'', name = ''Claude 3 Haiku (Bedrock)'', status = ''failed'',
      error = ''Claude 3 Haiku (Bedrock) failed: 429 Too Many Requests''\<rparr>"

definition demo_response :: SimpleResponse where
  "demo_response =
     \<lparr>success = True, content = Some ''OK'', model_used = Some ''claude-3-5-sonnet'',
      cost = Some (1 / 1000), usage = Some demo_usage, error = None,
      attempts = Some [haiku_failed,
        \<lparr>model = ''claude-3-5-sonnet'', name = ''Claude 3.5 Sonnet (Direct)'', status = ''success'',
         error = []\<rparr>]\<rparr>"

definition refused_attempt :: "string \<Rightarrow> attempt" where
  "refused_attempt k =
     \<lparr>model = k, name = get_model_name k, status = ''failed'',
      error = get_model_name k @ '' failed: connection refused''\<rparr>"

section \<open>One call\<close>

lemma call_for_cases [case_names unregistered failed ok]:
  obtains
    (unregistered) "\<not> registered k"
      "call_for completion payload w k = (Raise (ValueError (unknown_model_message k)), [], w)"
  | (failed) msg w' where "registered k"
      "call_for completion payload w k =
         (Return (CallFailed (failed_message (get_model_name k) msg)),
          [(INFO, Trying (get_model_name k)), (ERROR, Failed (failed_message (get_model_name k) msg))], w')"
  | (ok) model_id c u x w' where "get_model_id k = Return model_id"
      "call_for completion payload w k =
         (Return (CallOk c model_id u x),
          [(INFO, Trying (get_model_name k)), (INFO, Successful (get_model_name k))], w')"
  unfolding call_for_def
  by (rule call_model_cases [of k completion w "prompt payload" "max_tokens payload" "temperature payload"])
     (blast dest: get_model_id_Return_registered)+

lemma call_for_failed_nonempty:
  "call_for completion payload w k = (Return (CallFailed err), l, w') \<Longrightarrow> err \<noteq> [] \<and> registered k"
  by (rule call_for_cases [of k completion payload w]) (auto simp: failed_message_def)

lemma attempt_of_CallOk [simp]: "attempt_of k (get_model_name k) (CallOk c model_id u x) = success_attempt k"
  by (simp add: attempt_of_def success_attempt_def)

lemma call_for_ok_log_eq:
  assumes "call_for completion payload w k = (Return (CallOk c model_id u x), l, w')"
  shows "l = [(INFO, Trying (get_model_name k)), (INFO, Successful (get_model_name k))]"
  using assms by - (rule call_for_cases [of k completion payload w], auto)

lemma call_for_raise_eq:
  assumes "call_for completion payload w k = (Raise e, l, w')"
  shows "\<not> registered k \<and> e = ValueError (unknown_model_message k) \<and> l = [] \<and> w' = w"
  using assms by - (rule call_for_cases [of k completion payload w], auto)

lemma attempts_log_simps [simp]:
  "attempts_log i [] = []"
  "attempts_log i (a # as) = attempt_log i a @ attempts_log (Suc i) as"
  by (simp_all add: attempts_log_def)

lemma attempts_log_append:
  "attempts_log i (as @ bs) = attempts_log i as @ attempts_log (i + length as) bs"
  by (induction as arbitrary: i) simp_all

lemma call_for_failed_log:
  assumes "call_for completion payload w k = (Return (CallFailed err), l, w')"
  shows "announce i (get_model_name k) # l = attempt_log i (attempt_of k (get_model_name k) (CallFailed err))"
  using assms
  by - (rule call_for_cases [of k completion payload w], auto simp: attempt_log_def attempt_of_def)

lemma call_for_ok_log:
  assumes "call_for completion payload w k = (Return (CallOk c model_id u x), l, w')"
  shows "announce i (get_model_name k) # l = attempt_log i (attempt_of k (get_model_name k) (CallOk c model_id u x))"
  using assms
  by - (rule call_for_cases [of k completion payload w], auto simp: attempt_log_def attempt_of_def)

section \<open>Runs of failing calls: what they record\<close>

lemma failures_Nil_iff [simp]: "failures completion payload w [] = Some (as, w') \<longleftrightarrow> as = [] \<and> w' = w"
  by auto

lemma failures_Cons_iff:
  "failures completion payload w (k # ks) = Some (as, w'') \<longleftrightarrow>
     (\<exists>err l w' bs. call_for completion payload w k = (Return (CallFailed err), l, w')
        \<and> failures completion payload w' ks = Some (bs, w'')
        \<and> as = attempt_of k (get_model_name k) (CallFailed err) # bs)"
  by (auto split: prod.splits sum.splits call_result.splits option.splits)

declare failures.simps(2) [simp del]

lemma failures_length: "failures completion payload w ks = Some (as, w') \<Longrightarrow> length as = length ks"
  by (induction ks arbitrary: w as) (auto simp: failures_Cons_iff)

lemma failures_models: "failures completion payload w ks = Some (as, w') \<Longrightarrow> map model as = ks"
  by (induction ks arbitrary: w as) (auto simp: failures_Cons_iff attempt_of_def)

lemma failures_all_failed:
  "failures completion payload w ks = Some (as, w') \<Longrightarrow> list_all failed_attempt as"
  by (induction ks arbitrary: w as)
     (auto simp: failures_Cons_iff attempt_of_def failed_attempt_def dest: call_for_failed_nonempty)

lemma failures_registered:
  "failures completion payload w ks = Some (as, w') \<Longrightarrow> list_all registered ks"
  by (induction ks arbitrary: w as) (auto simp: failures_Cons_iff dest: call_for_failed_nonempty)

lemma failures_append:
  "failures completion payload w (xs @ ys) =
     (case failures completion payload w xs of
        None \<Rightarrow> None
      | Some (as, w') \<Rightarrow>
          (case failures completion payload w' ys of
             None \<Rightarrow> None
           | Some (bs, w'') \<Rightarrow> Some (as @ bs, w'')))"
proof (induction xs arbitrary: w)
  case Nil
  show ?case by (auto split: option.splits)
next
  case (Cons k xs)
  show ?case
    by (rule call_for_cases [of k completion payload w])
       (auto simp: failures.simps(2) Cons.IH split: option.splits)
qed

section \<open>The loop, one model at a time\<close>

lemma try_models_raise:
  assumes "call_for completion payload w k = (Raise e, l, w')"
  shows "try_models completion payload i (k # rest) as w = (Raise e, announce i (get_model_name k) # l, w')"
  using assms by (simp add: call_for_def Let_def)

lemma try_models_ok:
  assumes "call_for completion payload w k = (Return (CallOk c model_id u x), l, w')"
  shows "try_models completion payload i (k # rest) as w =
     (Return (success_response k c u x (as @ [attempt_of k (get_model_name k) (CallOk c model_id u x)])),
      announce i (get_model_name k) # l @ [(INFO, SuccessWith (get_model_name k))], w')"
  using assms by (simp add: call_for_def Let_def)

lemma try_models_failed:
  assumes "call_for completion payload w k = (Return (CallFailed err), l, w')"
  shows "try_models completion payload i (k # rest) as w =
     (case try_models completion payload (Suc i) rest
             (as @ [attempt_of k (get_model_name k) (CallFailed err)]) w' of
        (r, l', w'') \<Rightarrow> (r, announce i (get_model_name k) # l @ l', w''))"
  using assms by (simp add: call_for_def Let_def)

declare try_models.simps(2) [simp del]

lemma try_models_failures:
  assumes "failures completion payload w pre = Some (as, w1)"
  shows "try_models completion payload i (pre @ rest) acc w =
     (case try_models completion payload (i + length pre) rest (acc @ as) w1 of
        (r, l, w2) \<Rightarrow> (r, attempts_log i as @ l, w2))"
  using assms
proof (induction pre arbitrary: i acc w as)
  case Nil
  then show ?case by (simp split: prod.splits)
next
  case (Cons k pre)
  from Cons.prems obtain err l w' bs where
    call: "call_for completion payload w k = (Return (CallFailed err), l, w')" and
    rest: "failures completion payload w' pre = Some (bs, w1)" and
    as: "as = attempt_of k (get_model_name k) (CallFailed err) # bs"
    by (auto simp: failures_Cons_iff)
  have log: "announce i (get_model_name k) # l @ attempts_log (Suc i) bs @ l' = attempts_log i as @ l'" for l'
    using call_for_failed_log [OF call, of i] as by simp
  show ?case
    unfolding append_Cons try_models_failed [OF call]
      Cons.IH [OF rest, of "Suc i" "acc @ [attempt_of k (get_model_name k) (CallFailed err)]"]
    by (simp add: as log split: prod.splits)
qed

section \<open>The three ways a request ends\<close>

lemma process_success:
  assumes "models payload = pre @ k # post"
    and "failures completion payload w pre = Some (as, w1)"
    and "call_for completion payload w1 k = (Return (CallOk c model_id u x), l, w2)"
  shows "process completion w payload =
     (Return (success_response k c u x (as @ [success_attempt k])),
      header payload @ attempts_log 0 (as @ [success_attempt k]) @ [(INFO, SuccessWith (get_model_name k))],
      w2)"
proof -
  have "length as = length pre" using assms(2) by (rule failures_length)
  then show ?thesis
    using call_for_ok_log [OF assms(3), of "length pre"]
    by (simp add: process_def assms(1) try_models_failures [OF assms(2)] try_models_ok [OF assms(3)]
          attempts_log_append)
qed

lemma process_exhausted:
  assumes "failures completion payload w (models payload) = Some (as, w1)"
  shows "process completion w payload =
     (Return (failure_response (all_failed_message payload) as),
      header payload @ attempts_log 0 as @ [(ERROR, AllFailed (all_failed_message payload))], w1)"
  using try_models_failures [OF assms, of 0 "[]" "[]"] by (simp add: process_def)

lemma process_raised:
  assumes "models payload = pre @ k # post"
    and "failures completion payload w pre = Some (as, w1)"
    and "\<not> registered k"
  shows "process completion w payload =
     (Raise (ValueError (unknown_model_message k)),
      header payload @ attempts_log 0 as @ [announce (length pre) (get_model_name k)], w1)"
proof -
  have "call_for completion payload w1 k = (Raise (ValueError (unknown_model_message k)), [], w1)"
    using assms(3) by (simp add: call_for_def call_model_unregistered)
  then show ?thesis
    by (simp add: process_def assms(1) try_models_failures [OF assms(2)] try_models_raise)
qed

lemma failures_after_failure:
  assumes "call_for completion payload w k = (Return (CallFailed err), l, w')"
    and "failures completion payload w' ks = Some (as, w1)"
  shows "failures completion payload w (k # ks)
     = Some (attempt_of k (get_model_name k) (CallFailed err) # as, w1)"
  using assms by (auto simp: failures_Cons_iff)

text \<open>Every list of models falls under exactly one of the three.\<close>

lemma failures_cases [case_names exhausted success raised]:
  obtains
    (exhausted) as w1 where "failures completion payload w ks = Some (as, w1)"
  | (success) pre k post as w1 c model_id u x l w2 where
      "ks = pre @ k # post" "failures completion payload w pre = Some (as, w1)"
      "call_for completion payload w1 k = (Return (CallOk c model_id u x), l, w2)"
  | (raised) pre k post as w1 where
      "ks = pre @ k # post" "failures completion payload w pre = Some (as, w1)" "\<not> registered k"
proof (induction ks arbitrary: w thesis)
  case Nil
  then show ?case by simp
next
  case (Cons k ks)
  show ?case
  proof (rule call_for_cases [of k completion payload w])
    assume "\<not> registered k"
    then show thesis
      using Cons.prems(3) [of "[]" k ks "[]" w] by simp
  next
    fix model_id c u x w'
    assume "call_for completion payload w k =
         (Return (CallOk c model_id u x),
          [(INFO, Trying (get_model_name k)), (INFO, Successful (get_model_name k))], w')"
    then show thesis
      using Cons.prems(2) [of "[]" k ks "[]" w] by simp
  next
    fix msg w'
    assume "call_for completion payload w k =
         (Return (CallFailed (failed_message (get_model_name k) msg)),
          [(INFO, Trying (get_model_name k)), (ERROR, Failed (failed_message (get_model_name k) msg))], w')"
    note step = failures_after_failure [OF this]
    show thesis
      by (rule Cons.IH [of w'])
         (rule Cons.prems(1) [OF step] Cons.prems(2) [OF _ step] Cons.prems(3) [OF _ step]; simp)+
  qed
qed

section \<open>Returned responses\<close>

lemma succeeded_success_attempt [simp]: "succeeded_attempt (success_attempt k)"
  by (simp add: succeeded_attempt_def success_attempt_def)

lemma success_attempt_sel [simp]:
  "model (success_attempt k) = k" "name (success_attempt k) = get_model_name k"
  "status (success_attempt k) = ''success''" "attempt.error (success_attempt k) = []"
  by (simp_all add: success_attempt_def)

lemma process_Return_cases [consumes 1, case_names exhausted success]:
  assumes "fst (process completion w payload) = Return r"
  obtains
    (exhausted) as w1 where "failures completion payload w (models payload) = Some (as, w1)"
      "r = failure_response (all_failed_message payload) as"
      "process completion w payload =
         (Return r, header payload @ attempts_log 0 as @ [(ERROR, AllFailed (all_failed_message payload))], w1)"
  | (success) pre k post as w1 c model_id u x l w2 where
      "models payload = pre @ k # post" "failures completion payload w pre = Some (as, w1)"
      "call_for completion payload w1 k = (Return (CallOk c model_id u x), l, w2)"
      "r = success_response k c u x (as @ [success_attempt k])"
      "process completion w payload =
         (Return r, header payload @ attempts_log 0 (as @ [success_attempt k])
            @ [(INFO, SuccessWith (get_model_name k))], w2)"
proof (rule failures_cases [of completion payload w "models payload"])
  fix as w1
  assume f: "failures completion payload w (models payload) = Some (as, w1)"
  with assms show thesis
    by (intro exhausted [of as w1]) (simp_all add: process_exhausted)
next
  fix pre k post as w1 c model_id u x l w2
  assume "models payload = pre @ k # post" "failures completion payload w pre = Some (as, w1)"
    "call_for completion payload w1 k = (Return (CallOk c model_id u x), l, w2)"
  with assms show thesis
    by (intro success [of pre k post as w1 c model_id u x l w2]) (simp_all add: process_success)
next
  fix pre k post as w1
  assume "models payload = pre @ k # post" "failures completion payload w pre = Some (as, w1)"
    "\<not> registered k"
  with assms show thesis by (simp add: process_raised)
qed

lemmas failures_facts = failures_length failures_models failures_all_failed

lemma process_coherent:
  assumes "fst (process completion w payload) = Return r"
  shows "coherent payload r"
  using assms
proof (cases rule: process_Return_cases)
  case (exhausted as w1)
  then show ?thesis
    using failures_facts [OF exhausted(1)]
    by (simp add: coherent_def failure_response_def list_all_butlast)
next
  case (success pre k post as w1 c model_id u x l w2)
  then show ?thesis
    using failures_facts [OF success(2)]
    by (simp add: coherent_def success_response_def)
qed

lemma process_log:
  assumes "fst (process completion w payload) = Return r"
  shows "fst (snd (process completion w payload)) = response_log payload r"
  using assms
proof (cases rule: process_Return_cases)
  case (exhausted as w1)
  then show ?thesis by (simp add: response_log_def failure_response_def)
next
  case (success pre k post as w1 c model_id u x l w2)
  then show ?thesis by (simp add: response_log_def success_response_def)
qed

lemma process_raises_iff:
  "raises (fst (process completion w payload)) \<longleftrightarrow>
     (\<exists>pre k post as w1. models payload = pre @ k # post
        \<and> failures completion payload w pre = Some (as, w1) \<and> \<not> registered k)"
proof
  assume r: "raises (fst (process completion w payload))"
  show "\<exists>pre k post as w1. models payload = pre @ k # post
        \<and> failures completion payload w pre = Some (as, w1) \<and> \<not> registered k"
  proof (rule failures_cases [of completion payload w "models payload"])
    fix as w1 assume "failures completion payload w (models payload) = Some (as, w1)"
    with r show ?thesis by (simp add: process_exhausted)
  next
    fix pre k post as w1 c model_id u x l w2
    assume "models payload = pre @ k # post" "failures completion payload w pre = Some (as, w1)"
      "call_for completion payload w1 k = (Return (CallOk c model_id u x), l, w2)"
    with r show ?thesis by (simp add: process_success)
  next
    fix pre k post as w1
    assume "models payload = pre @ k # post" "failures completion payload w pre = Some (as, w1)"
      "\<not> registered k"
    then show ?thesis by blast
  qed
next
  assume "\<exists>pre k post as w1. models payload = pre @ k # post
        \<and> failures completion payload w pre = Some (as, w1) \<and> \<not> registered k"
  then show "raises (fst (process completion w payload))"
    by (auto simp: process_raised)
qed

lemma process_registered_returns:
  assumes "list_all registered (models payload)"
  shows "\<not> raises (fst (process completion w payload))"
  using assms by (auto simp: process_raises_iff list_all_iff)

section \<open>The calls a run makes\<close>

lemma call_for_recording:
  "call_for (recording completion) payload (cs, w) k =
     (case call_for completion payload w k of
        (r, l, w') \<Rightarrow> (r, l, (if registered k then cs @ [provider_id k] else cs, w')))"
  by (simp add: call_for_def call_model_recording)

lemma failures_recording:
  "failures (recording completion) payload (cs, w) ks =
     map_option (\<lambda>(as, w'). (as, (cs @ map provider_id ks, w'))) (failures completion payload w ks)"
proof (induction ks arbitrary: cs w)
  case Nil
  show ?case by simp
next
  case (Cons k ks)
  show ?case
    by (rule call_for_cases [of k completion payload w])
       (auto simp: failures.simps(2) call_for_recording Cons.IH split: option.splits)
qed

lemma process_recording:
  "process (recording completion) (cs, w) payload =
     (case process completion w payload of
        (Inr r, l, w') \<Rightarrow> (Inr r, l, (cs @ map provider_id (map model (the (attempts r))), w'))
      | (Inl e, l, w') \<Rightarrow> (Inl e, l, (cs @ map provider_id (takeWhile registered (models payload)), w')))"
proof (rule failures_cases [of completion payload w "models payload"])
  fix as w1
  assume f: "failures completion payload w (models payload) = Some (as, w1)"
  then have "failures (recording completion) payload (cs, w) (models payload)
      = Some (as, (cs @ map provider_id (models payload), w1))"
    by (simp add: failures_recording)
  then show ?thesis
    using failures_models [OF f]
    by (simp add: process_exhausted f failure_response_def)
next
  fix pre k post as w1 c model_id u x l w2
  assume m: "models payload = pre @ k # post" and f: "failures completion payload w pre = Some (as, w1)"
    and c: "call_for completion payload w1 k = (Return (CallOk c model_id u x), l, w2)"
  from c have reg: "registered k"
    by - (rule call_for_cases [of k completion payload w1], auto dest: get_model_id_Return_registered)
  have f': "failures (recording completion) payload (cs, w) pre = Some (as, (cs @ map provider_id pre, w1))"
    using f by (simp add: failures_recording)
  have c': "call_for (recording completion) payload (cs @ map provider_id pre, w1) k
      = (Return (CallOk c model_id u x), l, ((cs @ map provider_id pre) @ [provider_id k], w2))"
    using c reg by (simp add: call_for_recording)
  show ?thesis
    using failures_models [OF f]
    by (simp add: process_success [OF m f c] process_success [OF m f' c'] success_response_def)
next
  fix pre k post as w1
  assume m: "models payload = pre @ k # post" and f: "failures completion payload w pre = Some (as, w1)"
    and n: "\<not> registered k"
  have f': "failures (recording completion) payload (cs, w) pre = Some (as, (cs @ map provider_id pre, w1))"
    using f by (simp add: failures_recording)
  have "takeWhile registered (models payload) = pre"
    using failures_registered [OF f] n by (simp add: m list_all_iff takeWhile_tail)
  then show ?thesis
    by (simp add: process_raised [OF m f n] process_raised [OF m f' n])
qed

section \<open>The closed instances evaluate\<close>

lemmas demo_defs =
  demo_payload_def typo_payload_def throttled_def demo_script_def demo_usage_def haiku_failed_def
  demo_response_def with_defaults_def success_attempt_def success_response_def
  failure_response_def refused_attempt_def get_model_name_def provider_id_def table_defs

lemma demo_models: "models demo_payload = [''claude-3-haiku-bedrock''] @ ''claude-3-5-sonnet'' # []"
  by (simp add: demo_defs)

lemma demo_failures:
  "failures scripted demo_payload demo_script [''claude-3-haiku-bedrock'']
     = Some ([haiku_failed], [Inr (ok_response ''OK'')])"
  by code_simp

lemma demo_call:
  "call_for scripted demo_payload [Inr (ok_response ''OK'')] ''claude-3-5-sonnet''
     = (Return (CallOk (Some ''OK'') ''claude-3-5-sonnet-20241022'' demo_usage (Some (1 / 1000))),
        [(INFO, Trying ''Claude 3.5 Sonnet (Direct)''), (INFO, Successful ''Claude 3.5 Sonnet (Direct)'')],
        [])"
  by code_simp

lemma demo_run: "fst (process scripted demo_script demo_payload) = Return demo_response"
  by code_simp

lemma demo_recorded_run:
  "fst (process (recording scripted) ([], demo_script) demo_payload) = Return demo_response"
  by code_simp

section \<open>A provider that always fails\<close>

lemma call_for_refusing:
  "registered k \<Longrightarrow> call_for refusing payload w k =
     (Return (CallFailed (failed_message (get_model_name k) ''connection refused'')),
      [(INFO, Trying (get_model_name k)),
       (ERROR, Failed (failed_message (get_model_name k) ''connection refused''))], w)"
  by (auto simp: call_for_def call_model_def refusing_def get_model_id_registered Let_def)

lemma failures_refusing:
  "list_all registered ks \<Longrightarrow> failures refusing payload w ks = Some (map refused_attempt ks, w)"
  by (induction ks)
     (simp_all add: failures.simps(2) call_for_refusing attempt_of_def refused_attempt_def failed_message_def)

lemma first_unregistered:
  assumes "\<not> list_all registered ks"
  obtains pre k post where "ks = pre @ k # post" "list_all registered pre" "\<not> registered k"
proof -
  from assms have "\<exists>k\<in>set ks. \<not> registered k" by (simp add: list_all_iff)
  then obtain pre k post where "ks = pre @ k # post" "\<not> registered k" "\<forall>y\<in>set pre. \<not> \<not> registered y"
    by (rule split_list_first_propE)
  then show thesis by (intro that [of pre k post]) (simp_all add: list_all_iff)
qed

section \<open>Requests built from the examples\<close>

lemma examples_registered:
  "list_all (\<lambda>(strategy, p). list_all registered (models p)) EXAMPLE_PAYLOADS"
  by (simp add: table_defs with_defaults_def registered_cases)

lemma example_payload_registered:
  assumes "get_example_payload strategy pr = Return p"
  shows "list_all registered (models p)" and "valid_payload p"
proof -
  from assms obtain example where ex: "map_of EXAMPLE_PAYLOADS strategy = Some example"
    and p: "p = example\<lparr>prompt := pr\<rparr>"
    by (cases "map_of EXAMPLE_PAYLOADS strategy")
       (auto simp: get_example_payload_unknown get_example_payload_known)
  from examples_registered map_of_in_set [OF ex] p show "list_all registered (models p)"
    by (auto simp: list_all_iff)
  from example_lookup_valid [OF ex] p show "valid_payload p"
    by (simp add: valid_payload_def)
qed

section \<open>How much a request costs\<close>

lemma coherent_attempts_le:
  assumes "coherent payload r"
  shows "length (the (attempts r)) \<le> length (models payload)"
proof -
  from assms obtain as where as: "attempts r = Some as" "map model as = take (length as) (models payload)"
    by (auto simp: coherent_def split: option.splits)
  from arg_cong [OF as(2), of length] show ?thesis
    by (simp add: as(1))
qed

lemma length_prompt_preview: "length (prompt_preview pr) \<le> 103"
  by (simp add: prompt_preview_def)

section \<open>Properties of the engine\<close>

text \<open>
  \<^bold>\<open>C1\<close> (functional).  If the models before position \<open>k\<close> of the list all fail, in the
  order of the list and each from the world the call before it left, and the call for
  the model at position \<open>k\<close> succeeds, then \<open>process\<close> returns a success whose
  \<open>model_used\<close> is that model's key, with the content, usage and cost that call
  returned and with one failed attempt per model before it followed by one successful
  attempt; the models after position \<open>k\<close> are not called, so the world is the one the
  successful call left.
\<close>

theorem first_success_wins:
  assumes "models payload = pre @ k # post"
    and "failures completion payload w pre = Some (as, w1)"
    and "call_for completion payload w1 k = (Return (CallOk c model_id u x), l, w2)"
  shows "fst (process completion w payload) = Return (success_response k c u x (as @ [success_attempt k]))
    \<and> map model as = pre \<and> list_all failed_attempt as
    \<and> snd (snd (process completion w payload)) = w2"
  using failures_facts [OF assms(2)] by (simp add: process_success [OF assms])

theorem first_success_wins_witness:
  "fst (process scripted demo_script demo_payload) = Return demo_response
   \<and> map model [haiku_failed] = [''claude-3-haiku-bedrock''] \<and> list_all failed_attempt [haiku_failed]
   \<and> snd (snd (process scripted demo_script demo_payload)) = []"
  using first_success_wins [OF demo_models demo_failures demo_call]
  by (simp add: demo_defs)

text \<open>
  \<^bold>\<open>C2\<close> (functional).  If all models of the list fail, \<open>process\<close> returns
  \<open>success = False\<close> with the error \<open>All N models failed\<close>, \<open>N\<close> the length of the
  list in decimal, no content, model, cost or usage, and one failed attempt per model
  of the list, in the order of the list.
\<close>

theorem all_models_fail:
  assumes "failures completion payload w (models payload) = Some (as, w1)"
  shows "fst (process completion w payload)
      = Return (failure_response (''All '' @ str_of_nat (length (models payload)) @ '' models failed'') as)
    \<and> map model as = models payload \<and> list_all failed_attempt as"
  using failures_facts [OF assms] by (simp add: process_exhausted [OF assms] all_failed_message_def)

theorem all_models_fail_witness:
  "fst (process scripted [] (with_defaults ''X'' [''gpt-4o'']))
     = Return \<lparr>success = False, content = None, model_used = None, cost = None, usage = None,
         error = Some ''All 1 models failed'', attempts = Some [refused_attempt ''gpt-4o'']\<rparr>
   \<and> map model [refused_attempt ''gpt-4o''] = [''gpt-4o'']
   \<and> list_all failed_attempt [refused_attempt ''gpt-4o'']"
proof -
  have "failures scripted (with_defaults ''X'' [''gpt-4o'']) [] (models (with_defaults ''X'' [''gpt-4o'']))
      = Some ([refused_attempt ''gpt-4o''], [])"
    by code_simp
  from all_models_fail [OF this] show ?thesis
    by (simp add: demo_defs py_defs)
qed

text \<open>
  \<^bold>\<open>C3\<close> (error).  A key that is not in \<open>AVAILABLE_MODELS\<close> ends the run with an
  uncaught \<open>ValueError\<close> as soon as it is reached: if the models before it all fail,
  \<open>process\<close> raises \<open>ValueError\<close> with the message of \<open>get_model_id\<close>, makes no call
  for that key or for any model after it, and returns no response, so the attempts
  made so far are lost to the caller; only the log still shows them.
\<close>

theorem unknown_model_escapes:
  assumes "models payload = pre @ k # post"
    and "failures completion payload w pre = Some (as, w1)"
    and "\<not> registered k"
  shows "process completion w payload =
     (Raise (ValueError (unknown_model_message k)),
      header payload @ attempts_log 0 as @ [announce (length pre) k], w1)"
  using assms(3) by (simp add: process_raised [OF assms] get_model_name_unregistered)

theorem unknown_model_escapes_witness:
  "process scripted [throttled, Inr (ok_response ''OK'')] typo_payload =
     (Raise (ValueError (unknown_model_message ''claude-3.5-sonnet'')),
      header typo_payload @ attempts_log 0 [haiku_failed] @ [(INFO, FallbackModel 1 ''claude-3.5-sonnet'')],
      [Inr (ok_response ''OK'')])"
proof -
  have 1: "models typo_payload = [''claude-3-haiku-bedrock''] @ ''claude-3.5-sonnet'' # [''gpt-4o'']"
    by (simp add: demo_defs)
  have 2: "failures scripted typo_payload [throttled, Inr (ok_response ''OK'')] [''claude-3-haiku-bedrock'']
      = Some ([haiku_failed], [Inr (ok_response ''OK'')])"
    by code_simp
  have 3: "\<not> registered ''claude-3.5-sonnet''"
    by (simp add: registered_cases)
  from unknown_model_escapes [OF 1 2 3] show ?thesis
    by (simp add: announce_def)
qed

text \<open>
  \<^bold>\<open>C4\<close> (safety).  The requests on which \<open>process\<close> raises for no provider and no
  world are exactly those whose model keys are all in \<open>AVAILABLE_MODELS\<close>: every
  failure of a provider call becomes a failed attempt, and the one exception that
  leaves \<open>process\<close> is the \<open>ValueError\<close> of an unknown key.
\<close>

theorem never_raises_iff_all_registered:
  "(\<forall>completion (w :: 'w). \<not> raises (fst (process completion w payload)))
     \<longleftrightarrow> list_all registered (models payload)"
proof
  assume never: "\<forall>completion (w :: 'w). \<not> raises (fst (process completion w payload))"
  show "list_all registered (models payload)"
  proof (rule ccontr)
    assume "\<not> list_all registered (models payload)"
    then obtain pre k post where
      "models payload = pre @ k # post" "list_all registered pre" "\<not> registered k"
      by (rule first_unregistered)
    then have "raises (fst (process refusing (undefined :: 'w) payload))"
      by (simp add: process_raised [OF _ failures_refusing])
    with never show False by blast
  qed
next
  assume "list_all registered (models payload)"
  then show "\<forall>completion (w :: 'w). \<not> raises (fst (process completion w payload))"
    by (simp add: process_registered_returns)
qed

text \<open>
  \<^bold>\<open>C6\<close> (invariant).  Every response \<open>process\<close> returns is coherent with its request:
  the attempts are for a prefix of the model list, in order; all attempts but the
  last failed, with a non-empty error text; a success ends with a successful attempt
  for \<open>model_used\<close> and carries a usage and no error; a failure has an attempt for
  every model of the list and carries the error \<open>All N models failed\<close> and nothing
  else.
\<close>

theorem response_coherent:
  assumes "fst (process completion w payload) = Return r"
  shows "coherent payload r"
  using assms by (rule process_coherent)

theorem response_coherent_witness: "coherent demo_payload demo_response"
  using response_coherent [OF demo_run] .

text \<open>
  \<^bold>\<open>C35\<close> (functional).  The log of a run that returns is a function of the request and
  the response: the three header entries, then for each attempt the announcement of
  the model (primary for index 0, fallback with its index otherwise), the entry
  \<open>Trying\<close> and the entry \<open>Successful\<close> or, at level \<open>ERROR\<close>, the entry \<open>Failed\<close>
  with the attempt's error text, then the closing entry.
\<close>

theorem log_mirrors_response:
  assumes "fst (process completion w payload) = Return r"
  shows "fst (snd (process completion w payload)) = response_log payload r"
  using assms by (rule process_log)

theorem log_mirrors_response_witness:
  "fst (snd (process scripted demo_script demo_payload)) =
     [(INFO, ProcessingRequest None),
      (INFO, PromptPreview ''What is cloud computing''),
      (INFO, ModelOrder [''claude-3-haiku-bedrock'', ''claude-3-5-sonnet'']),
      (INFO, PrimaryModel ''Claude 3 Haiku (Bedrock)''),
      (INFO, Trying ''Claude 3 Haiku (Bedrock)''),
      (ERROR, Failed ''Claude 3 Haiku (Bedrock) failed: 429 Too Many Requests''),
      (INFO, FallbackModel 1 ''Claude 3.5 Sonnet (Direct)''),
      (INFO, Trying ''Claude 3.5 Sonnet (Direct)''),
      (INFO, Successful ''Claude 3.5 Sonnet (Direct)''),
      (INFO, SuccessWith ''Claude 3.5 Sonnet (Direct)'')]"
  using log_mirrors_response [OF demo_run]
  by (simp add: response_log_def demo_defs header_def prompt_preview_def attempt_log_def announce_def)

text \<open>
  \<^bold>\<open>C8\<close> (safety).  The provider is called once for each attempt of the response, in
  the order of the attempts and with the provider identifier of the attempt's model,
  and never after the first success; recording the calls does not change the response.
\<close>

theorem calls_follow_attempts:
  assumes "fst (process (recording completion) ([], w) payload) = Return r"
  shows "fst (snd (snd (process (recording completion) ([], w) payload)))
      = map provider_id (map model (the (attempts r)))
    \<and> fst (process completion w payload) = Return r"
  using assms by (auto simp: process_recording [of completion "[]"] split: prod.splits sum.splits)

theorem calls_follow_attempts_witness:
  "fst (snd (snd (process (recording scripted) ([], demo_script) demo_payload)))
      = [''bedrock/anthropic.claude-3-haiku-20240307-v1:0'', ''claude-3-5-sonnet-20241022'']
   \<and> fst (process scripted demo_script demo_payload) = Return demo_response"
  using calls_follow_attempts [OF demo_recorded_run]
  by (simp add: demo_defs)

text \<open>
  \<^bold>\<open>C9\<close> (bounds).  \<open>process\<close> calls the provider at most once per model of the request,
  whether it returns or raises, and the prompt it writes to the log is cut to 100
  characters and the three dots.
\<close>

theorem calls_bounded:
  "length (fst (snd (snd (process (recording completion) ([], w) payload)))) \<le> length (models payload)
   \<and> length (prompt_preview (prompt payload)) \<le> 103"
proof (cases "fst (process completion w payload)")
  case (Inr r)
  from coherent_attempts_le [OF process_coherent [OF Inr]] Inr show ?thesis
    by (auto simp: process_recording [of completion "[]"] length_prompt_preview split: prod.splits)
next
  case (Inl e)
  with length_takeWhile_le [of registered "models payload"] show ?thesis
    by (auto simp: process_recording [of completion "[]"] length_prompt_preview split: prod.splits)
qed

text \<open>
  The error text of an exhausted run names the number of models
  of the request: two requests get the same text exactly when their lists have the
  same length.
\<close>

theorem exhausted_message_counts:
  "all_failed_message p = all_failed_message q \<longleftrightarrow> length (models p) = length (models q)"
  by (simp add: all_failed_message_def)

end
