(* ===== verification/Machine.thy ===== *)
theory Machine
  imports Engine
begin

text \<open>
  The run of \<open>SimpleLLMHandler.process\<close> (\<^verbatim>\<open>src/llm_handler.py\<close>) as a state machine,
  one transition per pass through the loop: \<open>Pending\<close>, then \<open>TryModel i\<close> for the index
  \<open>i\<close> of the model about to be tried, then \<open>Succeeded\<close> or \<open>Exhausted\<close> with the
  response returned, or \<open>Raised\<close> with the exception that left \<open>process\<close>.

  A configuration holds what the loop holds between two passes: the phase, the list
  \<open>attempts\<close>, the log written so far, and the world.  \<open>step\<close> is the transition
  relation, \<open>next_config\<close> the same as a function, \<open>reachable\<close> the configurations of the
  runs that start in \<open>initial w\<close>, and \<open>run\<close> the run itself, with the number of steps
  to take as its fuel.

  The lemmas show that \<open>step\<close> is a function that strictly decreases \<open>steps_left\<close>,
  so that no run goes back or takes more than \<open>fuel payload = length models + 2\<close>
  steps; that \<open>machine_inv\<close> holds in every reachable configuration; and that the one
  final configuration a run reaches holds what \<open>process\<close> returns (\<open>resume\<close> is the
  result of the loop resumed in a configuration, which no step changes).
\<close>

section \<open>Configurations and transitions\<close>

datatype phase =
    Pending
  | TryModel nat
  | Succeeded SimpleResponse
  | Exhausted SimpleResponse
  | Raised py_error

record 'w config =
  phase :: phase
  recorded :: "attempt list"
  emitted :: "handler_msg log"
  world :: 'w

definition initial :: "'w \<Rightarrow> 'w config" where
  "initial w = \<lparr>phase = Pending, recorded = [], emitted = [], world = w\<rparr>"

fun final_phase :: "phase \<Rightarrow> bool" where
  "final_phase Pending = False"
| "final_phase (TryModel i) = False"
| "final_phase (Succeeded r) = True"
| "final_phase (Exhausted r) = True"
| "final_phase (Raised e) = True"

definition final :: "'w config \<Rightarrow> bool" where
  "final c = final_phase (phase c)"

inductive step :: "'w completion \<Rightarrow> EventPayload \<Rightarrow> 'w config \<Rightarrow> 'w config \<Rightarrow> bool"
  for completion :: "'w completion" and payload :: EventPayload
where
  start:
    "phase c = Pending \<Longrightarrow>
     step completion payload c (c\<lparr>phase := TryModel 0, emitted := emitted c @ header payload\<rparr>)"
| exhaust:
    "phase c = TryModel i \<Longrightarrow> \<not> i < length (models payload) \<Longrightarrow>
     step completion payload c
       (c\<lparr>phase := Exhausted (failure_response (all_failed_message payload) (recorded c)),
          emitted := emitted c @ [(ERROR, AllFailed (all_failed_message payload))]\<rparr>)"
| raise:
    "phase c = TryModel i \<Longrightarrow> i < length (models payload) \<Longrightarrow> k = models payload ! i \<Longrightarrow>
     call_for completion payload (world c) k = (Raise e, l, w') \<Longrightarrow>
     step completion payload c
       \<lparr>phase = Raised e, recorded = recorded c,
        emitted = emitted c @ announce i (get_model_name k) # l, world = w'\<rparr>"
| fail:
    "phase c = TryModel i \<Longrightarrow> i < length (models payload) \<Longrightarrow> k = models payload ! i \<Longrightarrow>
     call_for completion payload (world c) k = (Return (CallFailed err), l, w') \<Longrightarrow>
     step completion payload c
       \<lparr>phase = TryModel (Suc i),
        recorded = recorded c @ [attempt_of k (get_model_name k) (CallFailed err)],
        emitted = emitted c @ announce i (get_model_name k) # l, world = w'\<rparr>"
| succeed:
    "phase c = TryModel i \<Longrightarrow> i < length (models payload) \<Longrightarrow> k = models payload ! i \<Longrightarrow>
     call_for completion payload (world c) k = (Return (CallOk reply model_id u x), l, w') \<Longrightarrow>
     step completion payload c
       \<lparr>phase = Succeeded (success_response k reply u x
                 (recorded c @ [attempt_of k (get_model_name k) (CallOk reply model_id u x)])),
        recorded = recorded c @ [attempt_of k (get_model_name k) (CallOk reply model_id u x)],
        emitted = emitted c @ announce i (get_model_name k) # l @ [(INFO, SuccessWith (get_model_name k))],
        world = w'\<rparr>"

inductive_cases step_PendingE: "step completion payload \<lparr>phase = Pending, recorded = as, emitted = l, world = w\<rparr> c'"
inductive_cases step_finalE:
  "step completion payload \<lparr>phase = Succeeded r, recorded = as, emitted = l, world = w\<rparr> c'"
  "step completion payload \<lparr>phase = Exhausted r, recorded = as, emitted = l, world = w\<rparr> c'"
  "step completion payload \<lparr>phase = Raised e, recorded = as, emitted = l, world = w\<rparr> c'"

text \<open>The same transition as a function: \<open>None\<close> in a final configuration.\<close>

definition try_config :: "'w completion \<Rightarrow> EventPayload \<Rightarrow> nat \<Rightarrow> 'w config \<Rightarrow> 'w config" where
  "try_config completion payload i c =
     (let k = models payload ! i; model_name = get_model_name k in
      case call_for completion payload (world c) k of
        (Inl e, l, w') \<Rightarrow>
          \<lparr>phase = Raised e, recorded = recorded c, emitted = emitted c @ announce i model_name # l, world = w'\<rparr>
      | (Inr result, l, w') \<Rightarrow>
          (let as' = recorded c @ [attempt_of k model_name result] in
           case result of
             CallOk reply model_id u x \<Rightarrow>
               \<lparr>phase = Succeeded (success_response k reply u x as'), recorded = as',
                emitted = emitted c @ announce i model_name # l @ [(INFO, SuccessWith model_name)],
                world = w'\<rparr>
           | CallFailed err \<Rightarrow>
               \<lparr>phase = TryModel (Suc i), recorded = as',
                emitted = emitted c @ announce i model_name # l, world = w'\<rparr>))"

definition next_config :: "'w completion \<Rightarrow> EventPayload \<Rightarrow> 'w config \<Rightarrow> 'w config option" where
  "next_config completion payload c =
     (case phase c of
        Pending \<Rightarrow> Some (c\<lparr>phase := TryModel 0, emitted := emitted c @ header payload\<rparr>)
      | TryModel i \<Rightarrow>
          if i < length (models payload) then Some (try_config completion payload i c)
          else Some (c\<lparr>phase := Exhausted (failure_response (all_failed_message payload) (recorded c)),
                       emitted := emitted c @ [(ERROR, AllFailed (all_failed_message payload))]\<rparr>)
      | _ \<Rightarrow> None)"

fun run :: "'w completion \<Rightarrow> EventPayload \<Rightarrow> nat \<Rightarrow> 'w config \<Rightarrow> 'w config" where
  "run completion payload 0 c = c"
| "run completion payload (Suc n) c =
     (case next_config completion payload c of
        None \<Rightarrow> c
      | Some c' \<Rightarrow> run completion payload n c')"

text \<open>The steps of the longest run: one to start, one per model, one to give up.\<close>

definition fuel :: "EventPayload \<Rightarrow> nat" where
  "fuel payload = length (models payload) + 2"

inductive reachable :: "'w completion \<Rightarrow> EventPayload \<Rightarrow> 'w \<Rightarrow> 'w config \<Rightarrow> bool"
  for completion :: "'w completion" and payload :: EventPayload and w :: 'w
where
  init: "reachable completion payload w (initial w)"
| after: "reachable completion payload w c \<Longrightarrow> step completion payload c c' \<Longrightarrow>
     reachable completion payload w c'"

text \<open>What a final configuration hands back to the caller of \<open>process\<close>.\<close>

definition outcome :: "'w config \<Rightarrow> (SimpleResponse result \<times> handler_msg log \<times> 'w) option" where
  "outcome c =
     (case phase c of
        Succeeded r \<Rightarrow> Some (Return r, emitted c, world c)
      | Exhausted r \<Rightarrow> Some (Return r, emitted c, world c)
      | Raised e \<Rightarrow> Some (Raise e, emitted c, world c)
      | _ \<Rightarrow> None)"

text \<open>The number of steps a run can still take from a phase: an upper bound.\<close>

fun steps_left :: "EventPayload \<Rightarrow> phase \<Rightarrow> nat" where
  "steps_left payload Pending = length (models payload) + 2"
| "steps_left payload (TryModel i) = Suc (length (models payload) - i)"
| "steps_left payload (Succeeded r) = 0"
| "steps_left payload (Exhausted r) = 0"
| "steps_left payload (Raised e) = 0"

text \<open>
  What \<open>process\<close> hands back when its loop is resumed in a configuration: the rest of
  the loop, run on the models from the index of the phase on.
\<close>

definition resume :: "'w completion \<Rightarrow> EventPayload \<Rightarrow> 'w config
    \<Rightarrow> SimpleResponse result \<times> handler_msg log \<times> 'w" where
  "resume completion payload c =
     (case phase c of
        Pending \<Rightarrow>
          (case try_models completion payload 0 (models payload) (recorded c) (world c) of
             (r, l, w') \<Rightarrow> (r, emitted c @ header payload @ l, w'))
      | TryModel i \<Rightarrow>
          (case try_models completion payload i (drop i (models payload)) (recorded c) (world c) of
             (r, l, w') \<Rightarrow> (r, emitted c @ l, w'))
      | Succeeded r \<Rightarrow> (Return r, emitted c, world c)
      | Exhausted r \<Rightarrow> (Return r, emitted c, world c)
      | Raised e \<Rightarrow> (Raise e, emitted c, world c))"

text \<open>What holds of the configurations of a run.\<close>

definition machine_inv :: "EventPayload \<Rightarrow> 'w config \<Rightarrow> bool" where
  "machine_inv payload c =
     (case phase c of
        Pending \<Rightarrow> recorded c = [] \<and> emitted c = []
      | TryModel i \<Rightarrow>
          i \<le> length (models payload) \<and> map model (recorded c) = take i (models payload)
          \<and> list_all failed_attempt (recorded c)
          \<and> emitted c = header payload @ attempts_log 0 (recorded c)
      | Succeeded r \<Rightarrow>
          success r \<and> attempts r = Some (recorded c) \<and> coherent payload r
          \<and> emitted c = response_log payload r
      | Exhausted r \<Rightarrow>
          \<not> success r \<and> attempts r = Some (recorded c) \<and> coherent payload r
          \<and> emitted c = response_log payload r
      | Raised e \<Rightarrow>
          length (recorded c) < length (models payload)
          \<and> map model (recorded c) = take (length (recorded c)) (models payload)
          \<and> list_all failed_attempt (recorded c)
          \<and> \<not> registered (models payload ! length (recorded c))
          \<and> e = ValueError (unknown_model_message (models payload ! length (recorded c)))
          \<and> emitted c = header payload @ attempts_log 0 (recorded c)
                @ [announce (length (recorded c)) (models payload ! length (recorded c))])"

section \<open>The relation and the function agree\<close>

lemmas step_intros = step.start step.exhaust step.raise step.fail step.succeed [unfolded attempt_of_CallOk]

lemma step_iff_next_config:
  "step completion payload c c' \<longleftrightarrow> next_config completion payload c = Some c'"
proof
  assume "step completion payload c c'"
  then show "next_config completion payload c = Some c'"
    by cases (simp_all add: next_config_def try_config_def Let_def)
next
  assume *: "next_config completion payload c = Some c'"
  show "step completion payload c c'"
  proof (cases "phase c")
    case Pending
    with * show ?thesis by (auto simp: next_config_def intro: step.start)
  next
    case (TryModel i)
    show ?thesis
    proof (cases "i < length (models payload)")
      case False
      with * TryModel show ?thesis by (auto simp: next_config_def intro: step.exhaust)
    next
      case True
      obtain r l w' where call: "call_for completion payload (world c) (models payload ! i) = (r, l, w')"
        by (cases "call_for completion payload (world c) (models payload ! i)")
      with * TryModel True show ?thesis
        by (cases r; cases "projr r")
           (auto simp: next_config_def try_config_def Let_def intro: step_intros)
    qed
  qed (use * in \<open>simp_all add: next_config_def\<close>)
qed

lemma step_deterministic_aux:
  "step completion payload c c1 \<Longrightarrow> step completion payload c c2 \<Longrightarrow> c1 = c2"
  by (simp add: step_iff_next_config)

lemma next_config_None_iff: "next_config completion payload c = None \<longleftrightarrow> final c"
  by (cases "phase c") (simp_all add: next_config_def final_def)

lemma final_no_step: "final c \<Longrightarrow> \<not> step completion payload c c'"
  using next_config_None_iff [of completion payload c] by (simp add: step_iff_next_config)

lemma not_final_steps: "\<not> final c \<Longrightarrow> \<exists>c'. step completion payload c c'"
  using next_config_None_iff [of completion payload c] by (auto simp: step_iff_next_config)

section \<open>The first transition, and none after the last\<close>

lemma step_initial:
  "step completion payload (initial w) c' \<longleftrightarrow>
     c' = \<lparr>phase = TryModel 0, recorded = [], emitted = header payload, world = w\<rparr>"
  unfolding initial_def by (auto elim!: step_PendingE intro: step.start [of "initial w", unfolded initial_def, simplified])

lemma step_from_final:
  assumes "step completion payload c c'"
  shows "phase c \<noteq> Succeeded r" and "phase c \<noteq> Exhausted r" and "phase c \<noteq> Raised e"
  using assms by (cases c; auto elim: step_finalE)+

section \<open>Every step moves forward\<close>

lemma step_steps_left:
  "step completion payload c c' \<Longrightarrow> steps_left payload (phase c') < steps_left payload (phase c)"
  by (induction rule: step.induct) auto

lemma step_forward:
  assumes "step completion payload c c'"
  shows "(case phase c of
            Pending \<Rightarrow> phase c' = TryModel 0
          | TryModel i \<Rightarrow> phase c' = TryModel (Suc i) \<and> i < length (models payload) \<or> final c'
          | _ \<Rightarrow> False)"
  using assms by (induction rule: step.induct) (auto simp: final_def)

lemma steps_left_0_iff: "steps_left payload ph = 0 \<longleftrightarrow> final_phase ph"
  by (cases ph) simp_all

lemma run_final:
  "steps_left payload (phase c) \<le> n \<Longrightarrow> final (run completion payload n c)"
proof (induction n arbitrary: c)
  case 0
  then show ?case by (simp add: final_def steps_left_0_iff)
next
  case (Suc n)
  show ?case
  proof (cases "next_config completion payload c")
    case None
    then have "final c" by (simp add: next_config_None_iff)
    with None show ?thesis by simp
  next
    case (Some c')
    then have "steps_left payload (phase c') < steps_left payload (phase c)"
      by (simp add: step_iff_next_config [symmetric] step_steps_left)
    with Suc.prems have "steps_left payload (phase c') \<le> n" by simp
    with Some show ?thesis by (simp add: Suc.IH)
  qed
qed

lemma run_final_id: "final c \<Longrightarrow> run completion payload n c = c"
  using next_config_None_iff [of completion payload c] by (cases n) simp_all

section \<open>Runs and reachable configurations\<close>

lemma reachable_run_from:
  "reachable completion payload w c \<Longrightarrow> reachable completion payload w (run completion payload n c)"
proof (induction n arbitrary: c)
  case (Suc n)
  show ?case
  proof (cases "next_config completion payload c")
    case None
    with Suc.prems show ?thesis by simp
  next
    case (Some c')
    then have "step completion payload c c'" by (simp add: step_iff_next_config)
    with Suc.prems have "reachable completion payload w c'" by (rule reachable.after)
    with Some show ?thesis by (simp add: Suc.IH)
  qed
qed simp

lemma reachable_run: "reachable completion payload w (run completion payload n (initial w))"
  by (rule reachable_run_from) (rule reachable.init)

lemma run_Suc_step:
  "step completion payload c c' \<Longrightarrow> run completion payload (Suc n) c = run completion payload n c'"
  by (simp add: step_iff_next_config)

lemma run_step_end:
  "step completion payload (run completion payload n c) c' \<Longrightarrow> run completion payload (Suc n) c = c'"
proof (induction n arbitrary: c)
  case 0
  then show ?case by (simp add: step_iff_next_config)
next
  case (Suc n)
  show ?case
  proof (cases "next_config completion payload c")
    case None
    with Suc.prems show ?thesis
      by (auto simp: next_config_None_iff run_final_id dest: final_no_step)
  next
    case (Some d)
    with Suc.prems have "step completion payload (run completion payload n d) c'" by simp
    from Suc.IH [OF this] Some show ?thesis by simp
  qed
qed

lemma reachable_is_run:
  "reachable completion payload w c \<Longrightarrow> \<exists>n. c = run completion payload n (initial w)"
proof (induction rule: reachable.induct)
  case init
  have "initial w = run completion payload 0 (initial w)" by simp
  then show ?case ..
next
  case (after c c')
  then obtain n where "c = run completion payload n (initial w)" by blast
  with after.hyps(2) have "run completion payload (Suc n) (initial w) = c'"
    by (intro run_step_end) simp
  then show ?case by blast
qed

section \<open>The loop resumed\<close>

lemma resume_initial: "resume completion payload (initial w) = process completion w payload"
  by (simp add: resume_def initial_def process_def)

lemma resume_final: "final c \<Longrightarrow> outcome c = Some (resume completion payload c)"
  by (cases "phase c") (simp_all add: final_def outcome_def resume_def)

lemma drop_at: "i < length xs \<Longrightarrow> drop i xs = xs ! i # drop (Suc i) xs"
  by (simp add: Cons_nth_drop_Suc)

lemma step_resume:
  "step completion payload c c' \<Longrightarrow> resume completion payload c' = resume completion payload c"
proof (induction rule: step.induct)
  case (start c)
  then show ?case by (simp add: resume_def split: prod.splits)
next
  case (exhaust c i)
  then show ?case by (simp add: resume_def)
next
  case (raise c i k e l w')
  then show ?case by (simp add: resume_def drop_at try_models_raise)
next
  case (fail c i k err l w')
  then show ?case by (simp add: resume_def drop_at try_models_failed split: prod.splits)
next
  case (succeed c i k reply model_id u x l w')
  then show ?case by (simp add: resume_def drop_at try_models_ok)
qed

lemma reachable_resume:
  "reachable completion payload w c \<Longrightarrow> resume completion payload c = process completion w payload"
  by (induction rule: reachable.induct) (simp_all add: resume_initial step_resume)

section \<open>The invariant\<close>

lemma machine_inv_initial: "machine_inv payload (initial w)"
  by (simp add: machine_inv_def initial_def)

lemma prefix_length:
  "map f as = take i ms \<Longrightarrow> i \<le> length ms \<Longrightarrow> length as = i"
  by (metis length_map length_take min.absorb2)

lemma model_attempt_of [simp]: "model (attempt_of k model_name result) = k"
  by (simp add: attempt_of_def)

lemma failed_attempt_of:
  "call_for completion payload w k = (Return (CallFailed err), l, w') \<Longrightarrow>
     failed_attempt (attempt_of k (get_model_name k) (CallFailed err))"
  by (drule call_for_failed_nonempty) (simp add: failed_attempt_def attempt_of_def)

lemma coherent_failure:
  assumes "map model as = models payload" and "list_all failed_attempt as"
  shows "coherent payload (failure_response (all_failed_message payload) as)"
proof -
  from assms(1) have "length as = length (models payload)" by (metis length_map)
  with assms show ?thesis
    by (simp add: coherent_def failure_response_def list_all_butlast)
qed

lemma coherent_success:
  assumes "map model as = take i (models payload)" and "i < length (models payload)"
    and "list_all failed_attempt as" and "k = models payload ! i"
  shows "coherent payload (success_response k c u x (as @ [success_attempt k]))"
proof -
  from assms(1) less_imp_le [OF assms(2)] have "length as = i" by (rule prefix_length)
  with assms show ?thesis
    by (simp add: coherent_def success_response_def take_Suc_conv_app_nth)
qed

lemma machine_inv_TryModel:
  assumes "machine_inv payload c" and "phase c = TryModel i"
  shows "i \<le> length (models payload)" and "map model (recorded c) = take i (models payload)"
    and "list_all failed_attempt (recorded c)"
    and "emitted c = header payload @ attempts_log 0 (recorded c)"
    and "length (recorded c) = i"
proof -
  from assms show le: "i \<le> length (models payload)"
    and pre: "map model (recorded c) = take i (models payload)"
    and "list_all failed_attempt (recorded c)" "emitted c = header payload @ attempts_log 0 (recorded c)"
    by (simp_all add: machine_inv_def)
  from pre le show "length (recorded c) = i" by (rule prefix_length)
qed

lemma inv_exhaust:
  assumes "machine_inv payload c" and "phase c = TryModel i" and "\<not> i < length (models payload)"
  shows "machine_inv payload
       (c\<lparr>phase := Exhausted (failure_response (all_failed_message payload) (recorded c)),
          emitted := emitted c @ [(ERROR, AllFailed (all_failed_message payload))]\<rparr>)"
proof -
  note inv = machine_inv_TryModel [OF assms(1,2)]
  from inv(1,2) assms(3) have "map model (recorded c) = models payload" by simp
  with inv(3,4) show ?thesis
    by (simp add: machine_inv_def coherent_failure) (simp add: failure_response_def response_log_def)
qed

lemma inv_raise:
  assumes "machine_inv payload c" and "phase c = TryModel i" and "i < length (models payload)"
    and "call_for completion payload (world c) (models payload ! i) = (Raise e, l, w')"
  shows "machine_inv payload
       \<lparr>phase = Raised e, recorded = recorded c,
        emitted = emitted c @ announce i (get_model_name (models payload ! i)) # l, world = w'\<rparr>"
proof -
  note inv = machine_inv_TryModel [OF assms(1,2)]
  from assms(4) have "\<not> registered (models payload ! i)"
    "e = ValueError (unknown_model_message (models payload ! i))" "l = []"
    by (auto dest: call_for_raise_eq)
  with inv assms(3) show ?thesis
    by (simp add: machine_inv_def get_model_name_unregistered)
qed

lemma inv_fail:
  assumes "machine_inv payload c" and "phase c = TryModel i" and "i < length (models payload)"
    and "call_for completion payload (world c) k = (Return (CallFailed err), l, w')"
    and "k = models payload ! i"
  shows "machine_inv payload
       \<lparr>phase = TryModel (Suc i),
        recorded = recorded c @ [attempt_of k (get_model_name k) (CallFailed err)],
        emitted = emitted c @ announce i (get_model_name k) # l, world = w'\<rparr>"
proof -
  note inv = machine_inv_TryModel [OF assms(1,2)]
  have "emitted c @ announce i (get_model_name k) # l
      = header payload @ attempts_log 0 (recorded c @ [attempt_of k (get_model_name k) (CallFailed err)])"
    using call_for_failed_log [OF assms(4), of i] by (simp add: inv attempts_log_append)
  moreover have "map model (recorded c @ [attempt_of k (get_model_name k) (CallFailed err)])
      = take (Suc i) (models payload)"
    using inv(2) assms(3,5) by (simp add: take_Suc_conv_app_nth)
  ultimately show ?thesis
    using inv(3) assms(3) failed_attempt_of [OF assms(4)]
    unfolding machine_inv_def by simp
qed

lemma inv_succeed:
  assumes "machine_inv payload c" and "phase c = TryModel i" and "i < length (models payload)"
    and "call_for completion payload (world c) k = (Return (CallOk reply model_id u x), l, w')"
    and "k = models payload ! i"
  shows "machine_inv payload
       \<lparr>phase = Succeeded (success_response k reply u x (recorded c @ [success_attempt k])),
        recorded = recorded c @ [success_attempt k],
        emitted = emitted c @ announce i (get_model_name k) # l @ [(INFO, SuccessWith (get_model_name k))],
        world = w'\<rparr>"
proof -
  note inv = machine_inv_TryModel [OF assms(1,2)]
  have "emitted c @ announce i (get_model_name k) # l
      = header payload @ attempts_log 0 (recorded c @ [success_attempt k])"
    using call_for_ok_log [OF assms(4), of i] by (simp add: inv attempts_log_append)
  then have "emitted c @ announce i (get_model_name k) # l @ [(INFO, SuccessWith (get_model_name k))]
      = response_log payload (success_response k reply u x (recorded c @ [success_attempt k]))"
    by (simp add: success_response_def response_log_def)
  moreover have "coherent payload (success_response k reply u x (recorded c @ [success_attempt k]))"
    using inv(2) assms(3) inv(3) assms(5) by (rule coherent_success)
  ultimately show ?thesis
    unfolding machine_inv_def by (simp add: success_response_def)
qed

lemma step_preserves_inv:
  assumes "step completion payload c c'" and "machine_inv payload c"
  shows "machine_inv payload c'"
  using assms
proof (induction rule: step.induct)
  case (start c)
  then show ?case by (simp add: machine_inv_def)
next
  case (exhaust c i)
  then show ?case by (simp add: inv_exhaust)
next
  case (raise c i k e l w')
  then show ?case by (simp add: inv_raise)
next
  case (fail c i k err l w')
  then show ?case by (simp add: inv_fail)
next
  case (succeed c i k reply model_id u x l w')
  then show ?case by (simp add: inv_succeed)
qed

lemma reachable_inv:
  "reachable completion payload w c \<Longrightarrow> machine_inv payload c"
  by (induction rule: reachable.induct) (simp_all add: machine_inv_initial step_preserves_inv)

section \<open>One final configuration\<close>

lemma run_add: "run completion payload (n + m) c = run completion payload m (run completion payload n c)"
proof (induction n arbitrary: c)
  case (Suc n)
  show ?case
  proof (cases "next_config completion payload c")
    case None
    then have "final c" by (simp add: next_config_None_iff)
    with None show ?thesis by (simp add: run_final_id)
  next
    case (Some c')
    with Suc.IH [of c'] show ?thesis by simp
  qed
qed simp

lemma run_final_more:
  assumes "final (run completion payload n c)"
  shows "run completion payload (n + m) c = run completion payload n c"
  using assms by (simp add: run_add run_final_id)

lemma run_enough: "final (run completion payload (fuel payload) (initial w))"
  by (rule run_final) (simp add: initial_def fuel_def)

lemma final_runs_agree:
  assumes "final (run completion payload n c)" and "final (run completion payload m c)"
  shows "run completion payload n c = run completion payload m c"
proof (cases "n \<le> m")
  case True
  then have "m = n + (m - n)" by simp
  with run_final_more [OF assms(1), of "m - n"] show ?thesis by simp
next
  case False
  then have "n = m + (n - m)" by simp
  with run_final_more [OF assms(2), of "n - m"] show ?thesis by simp
qed

lemma reachable_final_is_run:
  assumes "reachable completion payload w c" and "final c"
  shows "c = run completion payload (fuel payload) (initial w)"
proof -
  from assms(1) obtain n where n: "c = run completion payload n (initial w)"
    by (blast dest: reachable_is_run)
  with assms(2) have "final (run completion payload n (initial w))" by simp
  from final_runs_agree [OF this run_enough] n show ?thesis by simp
qed

section \<open>Closed instances\<close>

lemma demo_step:
  "step scripted demo_payload (run scripted demo_payload 1 (initial demo_script))
     (run scripted demo_payload 2 (initial demo_script))"
  unfolding step_iff_next_config by code_simp

lemma demo_phase: "phase (run scripted demo_payload 1 (initial demo_script)) = TryModel 0"
  by code_simp

section \<open>Properties of the state machine\<close>

text \<open>
  \<^bold>\<open>C7\<close> (refinement).  The machine computes what \<open>process\<close> returns: the run from the
  initial configuration, given \<open>fuel payload = length models + 2\<close> steps, ends in a final
  configuration that holds the result, the log and the world of \<open>process\<close>.  The fuel is
  enough for every request: one step to start, one per model, one to give up.
\<close>

theorem run_computes_process:
  "final (run completion payload (fuel payload) (initial w))
   \<and> outcome (run completion payload (fuel payload) (initial w))
       = Some (process completion w payload)"
proof -
  let ?c = "run completion payload (fuel payload) (initial w)"
  have "reachable completion payload w ?c" by (rule reachable_run)
  then have "resume completion payload ?c = process completion w payload" by (rule reachable_resume)
  moreover have "final ?c" by (rule run_enough)
  ultimately show ?thesis using resume_final [of ?c completion payload] by simp
qed

text \<open>
  \<^bold>\<open>C23\<close> (liveness).  Every run ends, and in one place: among the configurations that
  can be reached from the initial one, exactly one is final, the one the run reaches
  after \<open>length models + 2\<close> steps.
\<close>

theorem one_final_configuration:
  "reachable completion payload w c \<and> final c
     \<longleftrightarrow> c = run completion payload (fuel payload) (initial w)"
  by (auto simp: reachable_run run_enough dest: reachable_final_is_run)

text \<open>
  \<^bold>\<open>C10\<close> (invariant).  In every reachable configuration: while model \<open>i\<close> is about to
  be tried, \<open>attempts\<close> holds one failed attempt for each of the first \<open>i\<close> models, in
  order, and the log is the header followed by the entries of those attempts; a
  response is coherent with the request and comes with its own log; an exception is
  the \<open>ValueError\<close> of the first model that is not registered, and all models before it
  have failed.
\<close>

theorem reachable_invariant:
  assumes "reachable completion payload w c"
  shows "machine_inv payload c"
  using assms by (rule reachable_inv)

theorem reachable_invariant_witness:
  "machine_inv demo_payload (run scripted demo_payload 2 (initial demo_script))"
  using reachable_invariant [OF reachable_run [of scripted demo_payload demo_script 2]] .

text \<open>
  The final configurations are exactly those without a successor:
  a run never stops before it has a response or an exception, and never goes on after.
\<close>

theorem final_iff_stuck: "final c \<longleftrightarrow> (\<nexists>c'. step completion payload c c')"
  using final_no_step [of c completion payload] not_final_steps [of c completion payload] by blast

end
