(* ===== verification/Spec.thy ===== *)
theory Spec
  imports Engine
begin

text \<open>
  The contract of the fallback execution engine as the specification of the repository
  states it (sections 3, 4.2 and 4.3), and its relation to \<open>process\<close>.

  The definitions of this theory are not code of the repository.  \<open>AttemptRecord\<close> and
  \<open>GenerationResult\<close> are the records of the specification; the request is the
  \<open>EventPayload\<close> of the code.  An adapter takes the provider identifier, the prompt and
  the two generation parameters and returns the success payload or an error text; it
  also takes and returns the world, like the provider of \<open>Adapter\<close>.  \<open>execute\<close> is the
  algorithm of section 4.2: a key the registry does not resolve is recorded as a failed
  attempt and the run goes on.

  \<open>adapter_of\<close> makes an adapter of a provider (the call and the reading of its answer,
  as \<open>_call_model\<close> does them), and \<open>abs_response\<close> maps a response of the code to a
  result of the specification.  The lemmas show that \<open>process\<close> implements \<open>execute\<close> on
  the requests whose keys are all registered, and that the two differ on every other
  request.
\<close>

section \<open>The contract\<close>

datatype verdict = Success | Failure

record AttemptRecord =
  attempt_model :: string
  displayName :: string
  attempt_verdict :: verdict
  errorDetail :: "string option"

record GenerationResult =
  succeeded :: bool
  result_content :: "string option"
  modelUsed :: "string option"
  result_usage :: "pydict option"
  result_cost :: "real option"
  errorSummary :: "string option"
  history :: "AttemptRecord list"

type_synonym 'w adapter =
  "'w \<Rightarrow> string \<Rightarrow> string \<Rightarrow> int \<Rightarrow> real \<Rightarrow> (string + (string option \<times> pydict \<times> real option)) \<times> 'w"

definition resolve :: "string \<Rightarrow> string option" where
  "resolve k = map_of AVAILABLE_MODELS k"

definition failure_record :: "string \<Rightarrow> string \<Rightarrow> AttemptRecord" where
  "failure_record k detail =
     \<lparr>attempt_model = k, displayName = get_model_name k, attempt_verdict = Failure,
      errorDetail = Some detail\<rparr>"

definition success_record :: "string \<Rightarrow> AttemptRecord" where
  "success_record k =
     \<lparr>attempt_model = k, displayName = get_model_name k, attempt_verdict = Success, errorDetail = None\<rparr>"

definition exhausted_result :: "AttemptRecord list \<Rightarrow> GenerationResult" where
  "exhausted_result hist =
     \<lparr>succeeded = False, result_content = None, modelUsed = None, result_usage = None,
      result_cost = None,
      errorSummary = Some (''All '' @ str_of_nat (length hist) @ '' models failed''),
      history = hist\<rparr>"

fun execute_from ::
  "'w adapter \<Rightarrow> EventPayload \<Rightarrow> string list \<Rightarrow> AttemptRecord list \<Rightarrow> 'w \<Rightarrow> GenerationResult \<times> 'w" where
  "execute_from adapter request [] hist w = (exhausted_result hist, w)"
| "execute_from adapter request (k # ks) hist w =
     (case resolve k of
        None \<Rightarrow> execute_from adapter request ks (hist @ [failure_record k ''UnknownModel'']) w
      | Some model_id \<Rightarrow>
          (case adapter w model_id (prompt request) (max_tokens request) (temperature request) of
             (Inl msg, w') \<Rightarrow> execute_from adapter request ks (hist @ [failure_record k msg]) w'
           | (Inr (c, u, x), w') \<Rightarrow>
               (\<lparr>succeeded = True, result_content = c, modelUsed = Some k, result_usage = Some u,
                 result_cost = x, errorSummary = None, history = hist @ [success_record k]\<rparr>, w')))"

definition execute :: "'w adapter \<Rightarrow> EventPayload \<Rightarrow> 'w \<Rightarrow> GenerationResult \<times> 'w" where
  "execute adapter request w = execute_from adapter request (models request) [] w"

section \<open>From the code to the contract\<close>

definition adapter_of :: "'w completion \<Rightarrow> 'w adapter" where
  "adapter_of completion w model_id pr mt t =
     (case completion w model_id [(''user'', pr)] mt t of
        (Inl msg, w') \<Rightarrow> (Inl msg, w')
      | (Inr response, w') \<Rightarrow> (extract_response response, w'))"

text \<open>
  The error of a failed attempt of the code is the display name, the text \<open>failed:\<close>
  and the message of the provider; the specification keeps the message alone.
\<close>

definition abs_attempt :: "attempt \<Rightarrow> AttemptRecord" where
  "abs_attempt a =
     \<lparr>attempt_model = model a, displayName = name a,
      attempt_verdict = (if status a = ''success'' then Success else Failure),
      errorDetail = (if status a = ''success'' then None
                     else Some (drop (length (name a @ '' failed: '')) (attempt.error a)))\<rparr>"

definition abs_response :: "SimpleResponse \<Rightarrow> GenerationResult" where
  "abs_response r =
     \<lparr>succeeded = success r, result_content = content r, modelUsed = model_used r,
      result_usage = usage r, result_cost = cost r, errorSummary = SimpleResponse.error r,
      history = map abs_attempt (case attempts r of None \<Rightarrow> [] | Some as \<Rightarrow> as)\<rparr>"

section \<open>One model\<close>

lemma resolve_registered: "registered k \<Longrightarrow> resolve k = Some (provider_id k)"
  by (auto simp: resolve_def provider_id_def elim: registered_obtains_id)

lemma resolve_unregistered: "\<not> registered k \<Longrightarrow> resolve k = None"
  by (simp add: resolve_def registered_def dict_has_def)

lemma abs_attempt_failed [simp]:
  "abs_attempt (attempt_of k (get_model_name k) (CallFailed (failed_message (get_model_name k) msg)))
     = failure_record k msg"
  by (simp add: abs_attempt_def attempt_of_def failure_record_def failed_message_def)

lemma abs_attempt_success [simp]: "abs_attempt (success_attempt k) = success_record k"
  by (simp add: abs_attempt_def success_attempt_def success_record_def)

lemma call_for_adapter:
  assumes "registered k"
  shows "call_for completion payload w k =
     (case adapter_of completion w (provider_id k) (prompt payload) (max_tokens payload) (temperature payload) of
        (Inl msg, w') \<Rightarrow>
          (Return (CallFailed (failed_message (get_model_name k) msg)),
           [(INFO, Trying (get_model_name k)), (ERROR, Failed (failed_message (get_model_name k) msg))], w')
      | (Inr (c, u, x), w') \<Rightarrow>
          (Return (CallOk c (provider_id k) u x),
           [(INFO, Trying (get_model_name k)), (INFO, Successful (get_model_name k))], w'))"
proof -
  from assms have "get_model_id k = Return (provider_id k)"
    by (auto simp: get_model_id_registered provider_id_def elim: registered_obtains_id)
  then show ?thesis
    by (simp add: call_for_def call_model_def adapter_of_def Let_def split: prod.splits sum.splits)
qed

section \<open>The loop implements the contract\<close>

lemma abs_failure_response:
  "length as = length (models payload) \<Longrightarrow>
     abs_response (failure_response (all_failed_message payload) as) = exhausted_result (map abs_attempt as)"
  by (simp add: abs_response_def failure_response_def exhausted_result_def all_failed_message_def)

lemma abs_success_response:
  "abs_response (success_response k c u x (as @ [success_attempt k])) =
     \<lparr>succeeded = True, result_content = c, modelUsed = Some k, result_usage = Some u,
      result_cost = x, errorSummary = None, history = map abs_attempt as @ [success_record k]\<rparr>"
  by (simp add: abs_response_def success_response_def)

lemma try_models_refines:
  assumes "list_all registered ks" and "length as + length ks = length (models payload)"
  shows "\<exists>r l w'. try_models completion payload i ks as w = (Return r, l, w')
    \<and> execute_from (adapter_of completion) payload ks (map abs_attempt as) w = (abs_response r, w')"
  using assms
proof (induction ks arbitrary: i as w)
  case Nil
  then show ?case by (simp add: abs_failure_response)
next
  case (Cons k ks)
  then have k: "registered k" by simp
  obtain res w' where a: "adapter_of completion w (provider_id k) (prompt payload) (max_tokens payload)
      (temperature payload) = (res, w')"
    by (cases "adapter_of completion w (provider_id k) (prompt payload) (max_tokens payload) (temperature payload)")
  show ?case
  proof (cases res)
    case (Inl msg)
    let ?a = "attempt_of k (get_model_name k) (CallFailed (failed_message (get_model_name k) msg))"
    from Inl a have call: "call_for completion payload w k =
        (Return (CallFailed (failed_message (get_model_name k) msg)),
         [(INFO, Trying (get_model_name k)), (ERROR, Failed (failed_message (get_model_name k) msg))], w')"
      by (simp add: call_for_adapter [OF k])
    from Cons.prems have "list_all registered ks" "length (as @ [?a]) + length ks = length (models payload)"
      by simp_all
    from Cons.IH [OF this, of "Suc i" w'] Inl a show ?thesis
      by (auto simp: try_models_failed [OF call] resolve_registered [OF k])
  next
    case (Inr triple)
    obtain c u x where "triple = (c, u, x)" by (cases triple)
    with Inr a have call: "call_for completion payload w k =
        (Return (CallOk c (provider_id k) u x),
         [(INFO, Trying (get_model_name k)), (INFO, Successful (get_model_name k))], w')"
      by (simp add: call_for_adapter [OF k])
    from Inr a \<open>triple = (c, u, x)\<close> show ?thesis
      by (simp add: try_models_ok [OF call] resolve_registered [OF k] abs_success_response)
  qed
qed

lemma process_refines:
  assumes "list_all registered (models payload)"
  shows "\<exists>r l w'. process completion w payload = (Return r, l, w')
    \<and> execute (adapter_of completion) payload w = (abs_response r, w')"
  using assms
    try_models_refines [where ks = "models payload" and as = "[]" and i = 0 and w = w
      and completion = completion and payload = payload]
  by (auto simp: process_def execute_def)

section \<open>Where the code leaves the contract\<close>

lemma execute_from_unregistered:
  "\<not> registered k \<Longrightarrow>
     execute_from adapter request (k # ks) hist w =
       execute_from adapter request ks (hist @ [failure_record k ''UnknownModel'']) w"
  by (simp add: resolve_unregistered)

lemma history_grows:
  "\<exists>more. history (fst (execute_from adapter request ks hist w)) = hist @ more \<and> length more \<le> length ks"
proof (induction ks arbitrary: hist w)
  case (Cons k ks)
  show ?case
  proof (cases "resolve k")
    case None
    with Cons [of "hist @ [failure_record k ''UnknownModel'']" w] show ?thesis by auto
  next
    case (Some model_id)
    obtain res w' where a: "adapter w model_id (prompt request) (max_tokens request) (temperature request) = (res, w')"
      by (cases "adapter w model_id (prompt request) (max_tokens request) (temperature request)")
    show ?thesis
    proof (cases res)
      case (Inl msg)
      with Some a Cons [of "hist @ [failure_record k msg]" w'] show ?thesis by auto
    next
      case (Inr triple)
      with Some a show ?thesis by (cases triple) simp
    qed
  qed
qed (simp add: exhausted_result_def)

lemma adapter_of_refusing [simp]:
  "adapter_of refusing w model_id pr mt t = (Inl ''connection refused'', w)"
  by (simp add: adapter_of_def refusing_def)

lemma execute_from_refusing:
  "execute_from (adapter_of refusing) request ks hist w =
     (exhausted_result (hist @ map (\<lambda>k. failure_record k
        (if registered k then ''connection refused'' else ''UnknownModel'')) ks), w)"
proof (induction ks arbitrary: hist)
  case (Cons k ks)
  then show ?case
    by (cases "registered k") (simp_all add: resolve_registered resolve_unregistered)
qed simp

lemma process_refusing_raises:
  assumes "\<not> list_all registered (models payload)"
  shows "raises (fst (process refusing w payload))"
proof -
  from assms obtain pre k post where
    "models payload = pre @ k # post" "list_all registered pre" "\<not> registered k"
    by (rule first_unregistered)
  then show ?thesis by (simp add: process_raised [OF _ failures_refusing])
qed

section \<open>Properties of the contract\<close>

text \<open>
  \<^bold>\<open>C5\<close> (refinement).  On a request whose model keys are all registered, \<open>process\<close>
  implements the algorithm of the specification: it returns, and its response, read as
  a result of the specification, is the result \<open>execute\<close> computes with the adapter made
  of the same provider; both leave the same world, so they make the same calls.
\<close>

theorem process_implements_execute:
  assumes "list_all registered (models payload)"
  shows "map_sum id abs_response (fst (process completion w payload))
       = Return (fst (execute (adapter_of completion) payload w))
    \<and> snd (snd (process completion w payload)) = snd (execute (adapter_of completion) payload w)"
  using process_refines [OF assms, of completion w] by auto

theorem process_implements_execute_witness:
  "map_sum id abs_response (fst (process scripted demo_script demo_payload))
     = Return (fst (execute (adapter_of scripted) demo_payload demo_script))
   \<and> snd (snd (process scripted demo_script demo_payload))
     = snd (execute (adapter_of scripted) demo_payload demo_script)"
proof -
  have "list_all registered (models demo_payload)"
    by (simp add: demo_payload_def with_defaults_def registered_cases)
  then show ?thesis by (rule process_implements_execute)
qed

text \<open>
  \<^bold>\<open>C11\<close> (error).  On every other request the code leaves the contract.  The
  specification records an unknown key as a failed attempt and goes on, so that
  \<open>execute\<close> always returns, with one attempt per model when every call fails; \<open>process\<close>
  raises \<open>ValueError\<close> at the first unknown key.  A provider that refuses every call shows
  the difference on every request that holds an unknown key.
\<close>

theorem process_leaves_contract:
  assumes "\<not> list_all registered (models payload)"
  shows "raises (fst (process refusing w payload))
    \<and> \<not> succeeded (fst (execute (adapter_of refusing) payload w))
    \<and> map attempt_model (history (fst (execute (adapter_of refusing) payload w))) = models payload"
  using process_refusing_raises [OF assms]
  by (simp add: execute_def execute_from_refusing exhausted_result_def failure_record_def comp_def)

theorem process_leaves_contract_witness:
  "raises (fst (process refusing () typo_payload))
   \<and> \<not> succeeded (fst (execute (adapter_of refusing) typo_payload ()))
   \<and> map attempt_model (history (fst (execute (adapter_of refusing) typo_payload ())))
     = [''claude-3-haiku-bedrock'', ''claude-3.5-sonnet'', ''gpt-4o'']"
proof -
  have "\<not> list_all registered (models typo_payload)"
    by (simp add: typo_payload_def with_defaults_def registered_cases)
  from process_leaves_contract [OF this, of "()"] show ?thesis
    by (simp add: typo_payload_def with_defaults_def)
qed

end
