(* ===== verification/Handler_Cli.thy ===== *)
theory Handler_Cli
  imports Engine
begin

text \<open>
  The command line of \<^verbatim>\<open>src/llm_handler.py\<close>: \<open>main\<close> and the report it prints.

  \<open>main\<close> builds the handler, reads \<open>sys.argv\<close> and either prints a listing (\<open>models\<close>,
  \<open>strategies\<close>, an unknown option) or builds the request of a strategy, processes it
  and prints the response.  Its model takes the provider, \<open>sys.argv\<close>, the environment
  and the world, and returns what \<open>main\<close> returns or raises, what it prints, the log,
  the environment the constructor leaves and the world after the calls.

  What \<open>main\<close> prints is a list with one item per call of \<open>print\<close>.  A text without a
  pictograph is the text itself (\<open>Plain\<close>).  The texts that carry one, the cost
  (printed with \<open>:.4f\<close>) and the usage (the \<open>repr\<close> of a dict) are constructors of
  \<open>handler_line\<close> that hold the values the text shows:
  \<^item> \<open>AvailableModelsHeading\<close>, \<open>ExampleStrategiesHeading\<close>, \<open>ResultsHeading\<close>,
    \<open>ResponseHeading\<close>, \<open>HistoryHeading\<close>: the five headings;
  \<^item> \<open>UsingStrategy s\<close>: the strategy taken from the command line;
  \<open>SuccessLine b\<close>: the line \<open>Success:\<close> with its mark;
  \<^item> \<open>CostLine x\<close>, \<open>UsageLine u\<close>: the cost and the usage of the response;
  \<^item> \<open>AttemptLine i name ok\<close>: one attempt of the history, numbered from 1.

  One call may write more than one line: the texts of \<open>ResultsHeading\<close>,
  \<open>ResponseHeading\<close> and \<open>HistoryHeading\<close> begin with a line break (\<open>blank_first\<close>), and a
  text taken from a value (\<open>shown\<close>) may hold line breaks.  \<open>rows\<close> is the number of
  lines one call writes and \<open>rows_written\<close> the number of lines of a list of calls.

  The lemmas show what each branch prints, that the listings call no provider, that no
  exception leaves \<open>main\<close>, and how many calls and lines the report takes.
\<close>

section \<open>Printed items\<close>

datatype handler_line =
    AvailableModelsHeading
  | ExampleStrategiesHeading
  | UsingStrategy string
  | ResultsHeading
  | SuccessLine bool
  | CostLine real
  | UsageLine pydict
  | ResponseHeading
  | HistoryHeading
  | AttemptLine nat string bool
  | Plain string

text \<open>\<open>str\<close> of an optional string, as an f-string or \<open>print\<close> shows it.\<close>

definition py_str_opt :: "string option \<Rightarrow> string" where
  "py_str_opt v = (case v of None \<Rightarrow> ''None'' | Some s \<Rightarrow> s)"

text \<open>
  The lines of one call.  The \<open>repr\<close> of the usage and the cost hold no line break; the
  other texts are shown as they are.
\<close>

fun blank_first :: "handler_line \<Rightarrow> bool" where
  "blank_first ResultsHeading = True"
| "blank_first ResponseHeading = True"
| "blank_first HistoryHeading = True"
| "blank_first item = False"

fun shown :: "handler_line \<Rightarrow> string" where
  "shown (UsingStrategy strategy) = strategy"
| "shown (AttemptLine i shown_name ok) = shown_name"
| "shown (Plain s) = s"
| "shown item = []"

definition rows :: "handler_line \<Rightarrow> nat" where
  "rows item = (if blank_first item then 2 else 1) + breaks (shown item)"

definition rows_written :: "handler_line list \<Rightarrow> nat" where
  "rows_written items = sum_list (map rows items)"

section \<open>The report\<close>

definition model_entry :: "string \<Rightarrow> string" where
  "model_entry key = ''  '' @ key @ '': '' @ get_model_name key"

definition strategy_entry :: "string \<times> EventPayload \<Rightarrow> string" where
  "strategy_entry e = ''  '' @ fst e @ '': '' @ py_repr_str_list (models (snd e))"

text \<open>The loop over \<open>enumerate(response.attempts, 1)\<close>: the error is cut at 80 characters.\<close>

definition attempt_lines :: "nat \<times> attempt \<Rightarrow> handler_line list" where
  "attempt_lines ia =
     AttemptLine (fst ia) (name (snd ia)) (status (snd ia) = ''success'') #
     (if attempt.error (snd ia) \<noteq> []
      then [Plain (''     Error: '' @ take 80 (attempt.error (snd ia)) @ ''...'')] else [])"

definition history_lines :: "attempt list option \<Rightarrow> handler_line list" where
  "history_lines as =
     (case as of
        None \<Rightarrow> []
      | Some xs \<Rightarrow> if xs = [] then [] else HistoryHeading # concat (map attempt_lines (enumerate 1 xs)))"

definition print_results :: "SimpleResponse \<Rightarrow> handler_line list" where
  "print_results response =
     [ResultsHeading, SuccessLine (success response)] @
     (if success response then
        [Plain (''Model Used: '' @ py_str_opt (map_option get_model_name (model_used response)))] @
        (case cost response of None \<Rightarrow> [] | Some x \<Rightarrow> if x \<noteq> 0 then [CostLine x] else []) @
        (case usage response of None \<Rightarrow> [] | Some u \<Rightarrow> if u \<noteq> [] then [UsageLine u] else []) @
        [ResponseHeading, Plain (py_str_opt (content response))]
      else [Plain (''Error: '' @ py_str_opt (SimpleResponse.error response))]) @
     history_lines (attempts response)"

section \<open>The program\<close>

definition example_prompt :: string where
  "example_prompt = ''Explain quantum computing in simple terms.''"

type_synonym 'w main_result = "unit result \<times> handler_line list \<times> handler_msg log \<times> environ \<times> 'w"

text \<open>
  The second half of \<open>main\<close>: the request of the strategy, the lines printed before it
  is processed, the call of \<open>process\<close> and the report.  \<open>get_example_payload\<close> is called
  before the first line is printed.
\<close>

definition run_strategy ::
  "'w completion \<Rightarrow> string \<Rightarrow> handler_line list \<Rightarrow> environ \<times> handler_msg log \<Rightarrow> 'w \<Rightarrow> 'w main_result" where
  "run_strategy completion strategy announced handler w =
     (case get_example_payload strategy example_prompt of
        Inl e \<Rightarrow> (Raise e, [], snd handler, fst handler, w)
      | Inr payload \<Rightarrow>
          (case process completion w payload of
             (Inl e, l, w') \<Rightarrow> (Raise e, announced, snd handler @ l, fst handler, w')
           | (Inr response, l, w') \<Rightarrow>
               (Return (), announced @ print_results response, snd handler @ l, fst handler, w')))"

definition main :: "'w completion \<Rightarrow> string list \<Rightarrow> environ \<Rightarrow> 'w \<Rightarrow> 'w main_result" where
  "main completion argv env w =
     (let handler = handler_init env in
      if length argv > 1 then
        if argv ! 1 = ''models'' then
          (Return (), AvailableModelsHeading # map (Plain \<circ> model_entry) (dict_keys AVAILABLE_MODELS),
           snd handler, fst handler, w)
        else if argv ! 1 = ''strategies'' then
          (Return (), ExampleStrategiesHeading # map (Plain \<circ> strategy_entry) EXAMPLE_PAYLOADS,
           snd handler, fst handler, w)
        else if dict_has EXAMPLE_PAYLOADS (argv ! 1) then
          run_strategy completion (argv ! 1) [UsingStrategy (argv ! 1)] handler w
        else
          (Return (),
           [Plain (''Unknown option: '' @ argv ! 1),
            Plain ''Available options: models, strategies, or strategy name''],
           snd handler, fst handler, w)
      else run_strategy completion ''quality_first'' [] handler w)"

text \<open>The parts of what \<open>main\<close> returns.\<close>

definition returned :: "'w main_result \<Rightarrow> unit result" where
  "returned r = fst r"

definition printed :: "'w main_result \<Rightarrow> handler_line list" where
  "printed r = fst (snd r)"

definition logged :: "'w main_result \<Rightarrow> handler_msg log" where
  "logged r = fst (snd (snd r))"

definition world_after :: "'w main_result \<Rightarrow> 'w" where
  "world_after r = snd (snd (snd (snd r)))"

lemmas main_parts = returned_def printed_def logged_def world_after_def

section \<open>The listings\<close>

lemma main_models:
  "main completion [prog, ''models''] env w =
     (Return (), AvailableModelsHeading # map (Plain \<circ> model_entry) (dict_keys AVAILABLE_MODELS),
      snd (handler_init env), fst (handler_init env), w)"
  by (simp add: main_def Let_def)

lemma main_listing:
  assumes "length argv > 1" "\<not> dict_has EXAMPLE_PAYLOADS (argv ! 1)"
  shows "returned (main completion argv env w) = Return ()"
    and "logged (main completion argv env w) = snd (handler_init env)"
    and "world_after (main completion argv env w) = w"
  using assms by (simp_all add: main_def Let_def main_parts)

lemma model_entries: "map model_entry (dict_keys AVAILABLE_MODELS) = tl list_available_models"
  by (simp add: list_available_models_def model_entry_def dict_keys_def case_prod_unfold)

section \<open>The request of a strategy\<close>

lemma main_strategy:
  "main completion argv env w =
     (if length argv > 1 \<and> (argv ! 1 = ''models'' \<or> argv ! 1 = ''strategies'' \<or> \<not> dict_has EXAMPLE_PAYLOADS (argv ! 1))
      then main completion argv env w
      else run_strategy completion (if length argv > 1 then argv ! 1 else ''quality_first'')
             (if length argv > 1 then [UsingStrategy (argv ! 1)] else []) (handler_init env) w)"
  by (simp add: main_def Let_def)

lemma run_strategy_known:
  assumes "map_of EXAMPLE_PAYLOADS strategy = Some example"
  shows "run_strategy completion strategy announced handler w =
     (case process completion w (example\<lparr>prompt := example_prompt\<rparr>) of
        (Inl e, l, w') \<Rightarrow> (Raise e, announced, snd handler @ l, fst handler, w')
      | (Inr response, l, w') \<Rightarrow>
          (Return (), announced @ print_results response, snd handler @ l, fst handler, w'))"
  by (simp add: run_strategy_def get_example_payload_known [OF assms])

lemma run_strategy_returns:
  assumes "dict_has EXAMPLE_PAYLOADS strategy"
  shows "\<exists>p r. get_example_payload strategy example_prompt = Return p
           \<and> fst (process completion w p) = Return r
           \<and> run_strategy completion strategy announced handler w =
               (Return (), announced @ print_results r,
                snd handler @ fst (snd (process completion w p)), fst handler,
                snd (snd (process completion w p)))"
proof -
  from assms obtain example where ex: "map_of EXAMPLE_PAYLOADS strategy = Some example"
    by (auto simp: dict_has_code split: option.splits)
  let ?p = "example\<lparr>prompt := example_prompt\<rparr>"
  have p: "get_example_payload strategy example_prompt = Return ?p"
    by (rule get_example_payload_known [OF ex])
  from example_payload_registered(1) [OF p] obtain r where r: "fst (process completion w ?p) = Return r"
    using process_registered_returns [of ?p completion w] by (auto simp: not_raises_iff)
  with p show ?thesis
    by (auto simp: run_strategy_def split: prod.splits sum.splits)
qed

lemma run_strategy_returned:
  "dict_has EXAMPLE_PAYLOADS strategy \<Longrightarrow>
     returned (run_strategy completion strategy announced handler w) = Return ()"
  using run_strategy_returns [of strategy completion w announced handler]
  by (auto simp: main_parts)

lemma main_returns: "returned (main completion argv env w) = Return ()"
  using quality_first_known
  by (simp add: main_def Let_def run_strategy_returned) (simp add: main_parts)

section \<open>The calls and the lines of the report\<close>

lemma length_attempt_lines: "length (attempt_lines ia) \<le> 2"
  by (simp add: attempt_lines_def)

lemma length_concat_le:
  assumes "\<And>x. x \<in> set xs \<Longrightarrow> length (f x) \<le> n"
  shows "length (concat (map f xs)) \<le> n * length xs"
  using assms by (induction xs) (auto simp: add_le_mono)

lemma length_history_lines: "length (history_lines (Some as)) \<le> 1 + 2 * length as"
  using length_concat_le [of "enumerate 1 as" attempt_lines 2]
  by (simp add: history_lines_def length_attempt_lines)

lemma plain_error_bound:
  assumes "Plain s \<in> set (history_lines as)"
  shows "length s \<le> 95"
  using assms by (auto simp: history_lines_def attempt_lines_def split: option.splits if_splits)

lemma length_print_results:
  assumes "attempts r = Some as"
  shows "length (print_results r) \<le> 8 + 2 * length as"
  using length_history_lines [of as]
  by (simp add: print_results_def assms split: option.splits)

lemma rows_written_simps [simp]:
  "rows_written [] = 0" "rows_written (item # items) = rows item + rows_written items"
  "rows_written (xs @ ys) = rows_written xs + rows_written ys"
  by (simp_all add: rows_written_def)

lemma rows_written_eq:
  "rows_written items
     = length items + length (filter blank_first items) + breaks (concat (map shown items))"
  by (induction items) (simp_all add: rows_def)

lemma blank_first_attempt_lines [simp]: "filter blank_first (attempt_lines ia) = []"
  by (simp add: attempt_lines_def)

lemma blank_first_history: "length (filter blank_first (history_lines as)) \<le> 1"
  by (simp add: history_lines_def filter_concat comp_def split: option.splits)

lemma blank_first_print_results: "length (filter blank_first (print_results r)) \<le> 3"
  using blank_first_history [of "attempts r"]
  by (simp add: print_results_def split: option.splits)

section \<open>Closed instances\<close>

lemma demo_report:
  "print_results demo_response =
     [ResultsHeading, SuccessLine True, Plain ''Model Used: Claude 3.5 Sonnet (Direct)'',
      CostLine (1 / 1000), UsageLine demo_usage, ResponseHeading, Plain ''OK'', HistoryHeading,
      AttemptLine 1 ''Claude 3 Haiku (Bedrock)'' False,
      Plain ''     Error: Claude 3 Haiku (Bedrock) failed: 429 Too Many Requests...'',
      AttemptLine 2 ''Claude 3.5 Sonnet (Direct)'' True]"
  by code_simp

section \<open>Properties of the program\<close>

text \<open>
  \<^bold>\<open>C17\<close> (safety).  No exception leaves \<open>main\<close>, whatever the arguments, the environment
  and the provider: every strategy it accepts names registered models only.  With an
  argument that is no strategy (\<open>models\<close>, \<open>strategies\<close>, an unknown option) it calls no
  provider and logs only the line of the constructor.
\<close>

theorem main_always_returns:
  "returned (main completion argv env w) = Return ()
   \<and> (length argv > 1 \<and> \<not> dict_has EXAMPLE_PAYLOADS (argv ! 1) \<longrightarrow>
        world_after (main completion argv env w) = w
        \<and> logged (main completion argv env w) = [(INFO, HandlerInitialized 9)])"
  using main_listing(2,3) [of argv completion env w]
  by (simp add: main_returns handler_init_def AVAILABLE_MODELS_def)

theorem main_always_returns_witness:
  "returned (main refusing [''llm_handler.py'', ''fastest''] Map.empty ()) = Return ()
   \<and> logged (main refusing [''llm_handler.py'', ''fastest''] Map.empty ()) = [(INFO, HandlerInitialized 9)]"
  using main_always_returns [of refusing "[''llm_handler.py'', ''fastest'']" Map.empty "()"]
  by (simp add: dict_has_iff example_keys)

text \<open>
  \<^bold>\<open>C18\<close> (functional).  With a strategy as its argument, or with no argument and the
  strategy \<open>quality_first\<close>, \<open>main\<close> processes the request of \<open>get_example_payload\<close> for
  that strategy and the fixed prompt, once: it prints the report of the response
  \<open>process\<close> returns, after the line that names the strategy when one was given; the log
  is the line of the constructor followed by the log of \<open>process\<close>, and the world is the
  one \<open>process\<close> leaves.
\<close>

theorem main_processes_strategy:
  assumes "strategy = (if length argv > 1 then argv ! 1 else ''quality_first'')"
    and "dict_has EXAMPLE_PAYLOADS strategy"
  shows "\<exists>p r. get_example_payload strategy example_prompt = Return p
      \<and> fst (process completion w p) = Return r
      \<and> printed (main completion argv env w)
          = (if length argv > 1 then [UsingStrategy strategy] else []) @ print_results r
      \<and> logged (main completion argv env w) = snd (handler_init env) @ fst (snd (process completion w p))
      \<and> world_after (main completion argv env w) = snd (snd (process completion w p))"
proof -
  from assms have "strategy \<noteq> ''models''" "strategy \<noteq> ''strategies''"
    by (auto simp: dict_has_iff example_keys)
  with assms have "main completion argv env w =
      run_strategy completion strategy (if length argv > 1 then [UsingStrategy strategy] else [])
        (handler_init env) w"
    by (cases "length argv > 1") (simp_all add: main_def Let_def)
  with run_strategy_returns [OF assms(2), of completion w
      "if length argv > 1 then [UsingStrategy strategy] else []" "handler_init env"]
  show ?thesis
    by (auto simp: main_parts)
qed

theorem main_processes_strategy_witness:
  "\<exists>p r. get_example_payload ''1p_to_3p'' example_prompt = Return p
      \<and> fst (process scripted demo_script p) = Return r
      \<and> printed (main scripted [''llm_handler.py'', ''1p_to_3p''] Map.empty demo_script)
          = [UsingStrategy ''1p_to_3p''] @ print_results r
      \<and> logged (main scripted [''llm_handler.py'', ''1p_to_3p''] Map.empty demo_script)
          = snd (handler_init Map.empty) @ fst (snd (process scripted demo_script p))
      \<and> world_after (main scripted [''llm_handler.py'', ''1p_to_3p''] Map.empty demo_script)
          = snd (snd (process scripted demo_script p))"
  using main_processes_strategy [of "''1p_to_3p''" "[''llm_handler.py'', ''1p_to_3p'']" scripted demo_script Map.empty]
  by (simp add: dict_has_iff example_keys)

text \<open>
  The two listings of the models agree: after its heading,
  \<open>main\<close> with the argument \<open>models\<close> prints the lines that \<open>list_available_models\<close> of
  \<^verbatim>\<open>available_models.py\<close> prints after its own, one per registered model in the order of
  the table.
\<close>

theorem listings_agree:
  "printed (main completion [prog, ''models''] env w)
     = AvailableModelsHeading # map Plain (tl list_available_models)
   \<and> length (tl list_available_models) = length AVAILABLE_MODELS"
  by (simp add: main_models printed_def model_entries [symmetric] del: map_map)
     (simp add: model_entry_def)

text \<open>
  \<^bold>\<open>C33\<close> (bounds).  The report of a response that \<open>process\<close> returns takes at most eight
  calls of \<open>print\<close> and two per model of the request.  It takes more lines than calls:
  three headings begin with a line break and the content and the errors are shown as
  they are, so the lines are at most eleven and two per model, plus the line breaks
  in the texts shown.  No text of the attempt history that shows an error is longer
  than 95 characters: the error is cut at 80.
\<close>

theorem report_bounded:
  assumes "fst (process completion w payload) = Return r"
  shows "length (print_results r) \<le> 8 + 2 * length (models payload)
    \<and> rows_written (print_results r)
        \<le> 11 + 2 * length (models payload) + breaks (concat (map shown (print_results r)))
    \<and> (\<forall>s. Plain s \<in> set (history_lines (attempts r)) \<longrightarrow> length s \<le> 95)"
proof -
  from process_coherent [OF assms] obtain as where as: "attempts r = Some as"
    by (auto simp: coherent_def split: option.splits)
  from coherent_attempts_le [OF process_coherent [OF assms]] length_print_results [OF as]
  have calls: "length (print_results r) \<le> 8 + 2 * length (models payload)" by (simp add: as)
  with blank_first_print_results [of r] show ?thesis
    by (auto simp: rows_written_eq dest: plain_error_bound)
qed

theorem report_bounded_witness:
  "length (print_results demo_response) \<le> 8 + 2 * length (models demo_payload)
   \<and> rows_written (print_results demo_response)
        \<le> 11 + 2 * length (models demo_payload) + breaks (concat (map shown (print_results demo_response)))
   \<and> length ''     Error: Claude 3 Haiku (Bedrock) failed: 429 Too Many Requests...'' \<le> 95"
proof -
  have "Plain ''     Error: Claude 3 Haiku (Bedrock) failed: 429 Too Many Requests...''
      \<in> set (history_lines (attempts demo_response))"
    by code_simp
  with report_bounded [OF demo_run] show ?thesis by blast
qed

lemma demo_report_rows:
  "length (print_results demo_response) = 11 \<and> rows_written (print_results demo_response) = 14"
  unfolding demo_report by (simp add: rows_def newline_def)

end
