(* ===== verification/Bedrock.thy ===== *)
theory Bedrock
  imports Py_Prelude
begin

text \<open>
  The client of \<^verbatim>\<open>src/bedrock-fallback.py\<close>: the dataclass \<open>ClaudeResponse\<close> and the class
  \<open>ClaudeFallbackClient\<close>, which asks the Anthropic API first and Amazon Bedrock when
  that call raises.

  \<^bold>\<open>The outside world.\<close>  The three library calls are parameters that take and return
  the state of the world: \<open>session.post\<close> (\<open>'w http_post\<close>), the creation of the two AWS
  clients with the identity check (\<open>'w aws\<close>) and \<open>bedrock_client.invoke_model\<close> followed
  by the reading and parsing of the body (\<open>'w invoke_model\<close>).  The HTTP retry policy
  acts inside \<open>session.post\<close>; the record \<open>Retry\<close> keeps its configuration, and the
  theory \<open>Session\<close> gives the \<open>session.post\<close> it makes of single exchanges.

  \<^bold>\<open>Exceptions.\<close>  The code of this file observes two things of an exception: whether
  it is a \<open>RequestException\<close> (the one class an \<open>except\<close> clause names) and its text
  \<open>str(e)\<close>.  The type \<open>raised\<close> holds these two.  The texts of the exceptions of the
  interpreter (subscripts of JSON values) are those of CPython 3.11 and later.

  \<^bold>\<open>Results.\<close>  Every method returns its result or the exception it raises, the log
  entries it wrote, and the world it leaves.
\<close>

section \<open>Exceptions and JSON values\<close>

datatype exn_kind = RequestException | OtherException

type_synonym raised = "exn_kind \<times> string"

type_synonym 'a may_raise = "raised + 'a"

definition Exception_of :: "string \<Rightarrow> raised" where
  "Exception_of msg = (OtherException, msg)"

fun type_name :: "pyval \<Rightarrow> string" where
  "type_name PNone = ''NoneType''"
| "type_name (PBool b) = ''bool''"
| "type_name (PInt i) = ''int''"
| "type_name (PFloat x) = ''float''"
| "type_name (PStr s) = ''str''"
| "type_name (PList xs) = ''list''"
| "type_name (PDict d) = ''dict''"

definition not_subscriptable :: "pyval \<Rightarrow> raised" where
  "not_subscriptable v = Exception_of (CHR 0x27 # type_name v @ CHR 0x27 # '' object is not subscriptable'')"

text \<open>\<open>v[k]\<close> for a string \<open>k\<close> and \<open>v[i]\<close> for an index \<open>i\<close>, on a value read from JSON.\<close>

fun getitem_key :: "pyval \<Rightarrow> string \<Rightarrow> pyval may_raise" where
  "getitem_key (PDict d) k =
     (case map_of d k of None \<Rightarrow> Inl (Exception_of (py_repr_str k)) | Some v \<Rightarrow> Inr v)"
| "getitem_key (PList xs) k = Inl (Exception_of ''list indices must be integers or slices, not str'')"
| "getitem_key (PStr s) k = Inl (Exception_of (''string indices must be integers, not 'str'' @ [CHR 0x27]))"
| "getitem_key v k = Inl (not_subscriptable v)"

fun getitem_index :: "pyval \<Rightarrow> nat \<Rightarrow> pyval may_raise" where
  "getitem_index (PList xs) i =
     (if i < length xs then Inr (xs ! i) else Inl (Exception_of ''list index out of range''))"
| "getitem_index (PStr s) i =
     (if i < length s then Inr (PStr [s ! i]) else Inl (Exception_of ''string index out of range''))"
| "getitem_index (PDict d) i = Inl (Exception_of (str_of_nat i))"
| "getitem_index v i = Inl (not_subscriptable v)"

text \<open>\<open>data['content'][0]['text']\<close> and \<open>data.get('usage', {})\<close>.\<close>

definition content_text :: "pyval \<Rightarrow> pyval may_raise" where
  "content_text data =
     (case getitem_key data ''content'' of
        Inl e \<Rightarrow> Inl e
      | Inr blocks \<Rightarrow>
          (case getitem_index blocks 0 of
             Inl e \<Rightarrow> Inl e
           | Inr block \<Rightarrow> getitem_key block ''text''))"

definition get_usage :: "pyval \<Rightarrow> pyval may_raise" where
  "get_usage data =
     (case data of
        PDict d \<Rightarrow> Inr (case map_of d ''usage'' of None \<Rightarrow> PDict [] | Some v \<Rightarrow> v)
      | _ \<Rightarrow> Inl (Exception_of (CHR 0x27 # type_name data @ CHR 0x27 # '' object has no attribute 'get'' @ [CHR 0x27])))"

section \<open>The interfaces to the outside\<close>

record http_response =
  status_code :: int
  response_text :: string
  json :: "pyval may_raise"

datatype http_outcome = Responded http_response | PostRaised raised

type_synonym 'w http_post =
  "'w \<Rightarrow> string \<Rightarrow> (string \<times> pyval) list \<Rightarrow> pyval \<Rightarrow> int \<Rightarrow> http_outcome \<times> 'w"

type_synonym 'w invoke_model =
  "'w \<Rightarrow> string \<Rightarrow> pyval \<Rightarrow> string \<Rightarrow> pyval may_raise \<times> 'w"

datatype aws_probe = NoClient string | NoIdentity string | Identity "string option"

type_synonym 'w aws = "'w \<Rightarrow> string \<Rightarrow> aws_probe \<times> 'w"

datatype bedrock_msg =
    CredentialsValid string
  | CredentialsIssue string
  | FallbackMayNotWork
  | AttemptingAnthropic
  | AnthropicSuccessful
  | AnthropicThrottled
  | AnthropicError int
  | RequestFailed string
  | CallingBedrock
  | BedrockSuccessful
  | BedrockFailed string
  | AnthropicFailed string
  | DetectedThrottling
  | DetectedFailure
  | BothFailed string

section \<open>The response and the client\<close>

record ClaudeResponse =
  content :: pyval
  model_used :: string
  source :: string
  usage :: pyval

record Retry =
  retry_total :: nat
  backoff_factor :: nat
  status_forcelist :: "int list"

record ClaudeFallbackClient =
  anthropic_api_key :: "string option"
  aws_region :: string
  bedrock_client :: bool
  session_retry :: Retry
  anthropic_url :: string

definition retry_strategy :: Retry where
  "retry_strategy = \<lparr>retry_total = 3, backoff_factor = 1, status_forcelist = [429, 500, 502, 503, 504]\<rparr>"

definition default_region :: string where
  "default_region = ''us-east-1''"

text \<open>
  \<open>__init__\<close>: the attribute \<open>bedrock_client\<close> is set unless the creation of the client
  itself raises; a failure of the identity check leaves it set.
\<close>

definition client_init ::
  "'w aws \<Rightarrow> 'w \<Rightarrow> string option \<Rightarrow> string \<Rightarrow> ClaudeFallbackClient \<times> bedrock_msg log \<times> 'w" where
  "client_init aws w api_key region =
     (case aws w region of
        (probe, w') \<Rightarrow>
          (\<lparr>anthropic_api_key = api_key, aws_region = region,
            bedrock_client = (case probe of NoClient msg \<Rightarrow> False | _ \<Rightarrow> True),
            session_retry = retry_strategy,
            anthropic_url = ''https://api.anthropic.com/v1/messages''\<rparr>,
           (case probe of
              Identity account \<Rightarrow>
                [(INFO, CredentialsValid (case account of None \<Rightarrow> ''Unknown'' | Some a \<Rightarrow> a))]
            | NoClient msg \<Rightarrow> [(WARNING, CredentialsIssue msg), (WARNING, FallbackMayNotWork)]
            | NoIdentity msg \<Rightarrow> [(WARNING, CredentialsIssue msg), (WARNING, FallbackMayNotWork)]),
           w'))"

section \<open>The call to the Anthropic API\<close>

definition anthropic_model :: string where
  "anthropic_model = ''claude-3-5-sonnet-20241022''"

definition anthropic_headers :: "ClaudeFallbackClient \<Rightarrow> (string \<times> pyval) list" where
  "anthropic_headers client =
     [(''Content-Type'', PStr ''application/json''),
      (''x-api-key'', of_opt_str (anthropic_api_key client)),
      (''anthropic-version'', PStr ''2023-06-01'')]"

definition user_messages :: "string \<Rightarrow> pyval" where
  "user_messages prompt = PList [PDict [(''role'', PStr ''user''), (''content'', PStr prompt)]]"

definition anthropic_payload :: "string \<Rightarrow> int \<Rightarrow> pyval" where
  "anthropic_payload prompt max_tokens =
     PDict [(''model'', PStr anthropic_model), (''max_tokens'', PInt max_tokens),
            (''messages'', user_messages prompt)]"

text \<open>
  What the branch for status 200 does with the parsed body.  An exception of
  \<open>response.json()\<close> that is a \<open>RequestException\<close> is caught by the \<open>except\<close> clause of
  the method and wrapped; every other exception of this branch leaves the method as
  it is.
\<close>

definition read_anthropic ::
  "http_response \<Rightarrow> ClaudeResponse may_raise \<times> bedrock_msg log" where
  "read_anthropic response =
     (case json response of
        Inl (RequestException, msg) \<Rightarrow>
          (Inl (Exception_of (''Request failed: '' @ msg)), [(ERROR, RequestFailed msg)])
      | Inl (OtherException, msg) \<Rightarrow> (Inl (OtherException, msg), [])
      | Inr data \<Rightarrow>
          (case content_text data of
             Inl e \<Rightarrow> (Inl e, [])
           | Inr c \<Rightarrow>
               (case get_usage data of
                  Inl e \<Rightarrow> (Inl e, [])
                | Inr u \<Rightarrow>
                    (Inr \<lparr>content = c, model_used = anthropic_model, source = ''anthropic'', usage = u\<rparr>,
                     [(INFO, AnthropicSuccessful)]))))"

definition call_anthropic_direct ::
  "'w http_post \<Rightarrow> ClaudeFallbackClient \<Rightarrow> 'w \<Rightarrow> string \<Rightarrow> int
     \<Rightarrow> ClaudeResponse may_raise \<times> bedrock_msg log \<times> 'w" where
  "call_anthropic_direct post client w prompt max_tokens =
     (case post w (anthropic_url client) (anthropic_headers client) (anthropic_payload prompt max_tokens) 60 of
        (PostRaised (RequestException, msg), w') \<Rightarrow>
          (Inl (Exception_of (''Request failed: '' @ msg)),
           [(INFO, AttemptingAnthropic), (ERROR, RequestFailed msg)], w')
      | (PostRaised (OtherException, msg), w') \<Rightarrow>
          (Inl (OtherException, msg), [(INFO, AttemptingAnthropic)], w')
      | (Responded response, w') \<Rightarrow>
          if status_code response = 200 then
            (case read_anthropic response of (r, l) \<Rightarrow> (r, (INFO, AttemptingAnthropic) # l, w'))
          else if status_code response = 429 then
            (Inl (Exception_of (''Throttled: '' @ response_text response)),
             [(INFO, AttemptingAnthropic), (WARNING, AnthropicThrottled)], w')
          else
            (Inl (Exception_of (''API Error '' @ str_of_int (status_code response) @ '': '' @ response_text response)),
             [(INFO, AttemptingAnthropic), (ERROR, AnthropicError (status_code response))], w'))"

section \<open>The call to Bedrock\<close>

definition bedrock_model :: string where
  "bedrock_model = ''us.anthropic.claude-3-5-sonnet-20241022-v2:0''"

definition bedrock_body :: "string \<Rightarrow> int \<Rightarrow> pyval" where
  "bedrock_body prompt max_tokens =
     PDict [(''anthropic_version'', PStr ''bedrock-2023-05-31''), (''max_tokens'', PInt max_tokens),
            (''messages'', user_messages prompt)]"

definition no_bedrock_client :: string where
  "no_bedrock_client = CHR 0x27 # ''ClaudeFallbackClient'' @ CHR 0x27 # '' object has no attribute ''
     @ CHR 0x27 # ''bedrock_client'' @ [CHR 0x27]"

definition bedrock_failed :: "string \<Rightarrow> 'w \<Rightarrow> ClaudeResponse may_raise \<times> bedrock_msg log \<times> 'w" where
  "bedrock_failed msg w =
     (Inl (Exception_of (''Bedrock fallback failed: '' @ msg)),
      [(INFO, CallingBedrock), (ERROR, BedrockFailed msg)], w)"

definition call_bedrock_fallback ::
  "'w invoke_model \<Rightarrow> ClaudeFallbackClient \<Rightarrow> 'w \<Rightarrow> string \<Rightarrow> int
     \<Rightarrow> ClaudeResponse may_raise \<times> bedrock_msg log \<times> 'w" where
  "call_bedrock_fallback invoke client w prompt max_tokens =
     (if \<not> bedrock_client client then bedrock_failed no_bedrock_client w
      else
        case invoke w bedrock_model (bedrock_body prompt max_tokens) ''application/json'' of
          (Inl e, w') \<Rightarrow> bedrock_failed (snd e) w'
        | (Inr response_body, w') \<Rightarrow>
            (case content_text response_body of
               Inl e \<Rightarrow> bedrock_failed (snd e) w'
             | Inr c \<Rightarrow>
                 (case get_usage response_body of
                    Inl e \<Rightarrow> bedrock_failed (snd e) w'
                  | Inr u \<Rightarrow>
                      (Inr \<lparr>content = c, model_used = bedrock_model, source = ''bedrock'', usage = u\<rparr>,
                       [(INFO, CallingBedrock), (INFO, BedrockSuccessful)], w'))))"

section \<open>The fallback\<close>

definition is_throttling :: "string \<Rightarrow> bool" where
  "is_throttling msg \<longleftrightarrow> py_in ''429'' msg \<or> py_in ''throttl'' (py_lower msg)"

definition both_failed :: "string \<Rightarrow> string \<Rightarrow> string" where
  "both_failed anthropic_error bedrock_error =
     ''Both services failed. Anthropic: '' @ anthropic_error @ ''. Bedrock: '' @ bedrock_error"

definition generate_response ::
  "'w http_post \<Rightarrow> 'w invoke_model \<Rightarrow> ClaudeFallbackClient \<Rightarrow> 'w \<Rightarrow> string \<Rightarrow> int
     \<Rightarrow> ClaudeResponse may_raise \<times> bedrock_msg log \<times> 'w" where
  "generate_response post invoke client w prompt max_tokens =
     (case call_anthropic_direct post client w prompt max_tokens of
        (Inr r, l, w') \<Rightarrow> (Inr r, l, w')
      | (Inl anthropic_error, l, w') \<Rightarrow>
          (let l1 = l @ [(WARNING, AnthropicFailed (snd anthropic_error)),
                         (INFO, if is_throttling (snd anthropic_error) then DetectedThrottling
                                else DetectedFailure)]
           in case call_bedrock_fallback invoke client w' prompt max_tokens of
                (Inr r, l2, w'') \<Rightarrow> (Inr r, l1 @ l2, w'')
              | (Inl bedrock_error, l2, w'') \<Rightarrow>
                  (Inl (Exception_of (both_failed (snd anthropic_error) (snd bedrock_error))),
                   l1 @ l2 @ [(ERROR, BothFailed (both_failed (snd anthropic_error) (snd bedrock_error)))],
                   w'')))"

section \<open>Interfaces for closed instances\<close>

text \<open>
  An HTTP session and a Bedrock client that answer from lists, one entry per call; the
  world is the pair of what is left of the two lists.  A session with no entry left
  refuses the connection, a client with no entry left reports an expired token.
\<close>

definition scripted_post :: "(http_outcome list \<times> 'b) http_post" where
  "scripted_post w url headers payload timeout =
     (case fst w of
        [] \<Rightarrow> (PostRaised (RequestException, ''connection refused''), w)
      | x # xs \<Rightarrow> (x, (xs, snd w)))"

definition scripted_invoke :: "('a \<times> pyval may_raise list) invoke_model" where
  "scripted_invoke w model_id body content_type =
     (case snd w of
        [] \<Rightarrow> (Inl (Exception_of ''ExpiredTokenException''), w)
      | x # xs \<Rightarrow> (x, (fst w, xs)))"

definition message_body :: "string \<Rightarrow> pyval" where
  "message_body reply =
     PDict [(''content'', PList [PDict [(''type'', PStr ''text''), (''text'', PStr reply)]]),
            (''usage'', PDict [(''input_tokens'', PInt 9), (''output_tokens'', PInt 12)])]"

definition http_ok :: "string \<Rightarrow> http_outcome" where
  "http_ok reply =
     Responded \<lparr>status_code = 200, response_text = ''{...}'', json = Inr (message_body reply)\<rparr>"

definition http_status :: "int \<Rightarrow> string \<Rightarrow> http_outcome" where
  "http_status code body =
     Responded \<lparr>status_code = code, response_text = body,
       json = Inl (RequestException, ''Expecting value: line 1 column 1 (char 0)'')\<rparr>"

definition no_aws :: "'w aws" where
  "no_aws w region = (NoClient ''Unable to locate credentials'', w)"

definition demo_client :: ClaudeFallbackClient where
  "demo_client =
     \<lparr>anthropic_api_key = Some ''sk-test'', aws_region = default_region, bedrock_client = True,
      session_retry = retry_strategy, anthropic_url = ''https://api.anthropic.com/v1/messages''\<rparr>"

section \<open>Reading an answer\<close>

lemma getitem_key_Inr_dict: "getitem_key v k = Inr x \<Longrightarrow> \<exists>d. v = PDict d"
  by (cases v) simp_all

lemma content_text_Inr_dict: "content_text data = Inr c \<Longrightarrow> \<exists>d. data = PDict d"
  by (auto simp: content_text_def split: sum.splits dest: getitem_key_Inr_dict)

lemma get_usage_after_content:
  assumes "content_text data = Inr c"
  obtains u where "get_usage data = Inr u"
  using content_text_Inr_dict [OF assms] by (auto simp: get_usage_def)

lemma content_text_message_body [simp]: "content_text (message_body reply) = Inr (PStr reply)"
  by (simp add: content_text_def message_body_def)

lemma get_usage_message_body [simp]:
  "get_usage (message_body reply) = Inr (PDict [(''input_tokens'', PInt 9), (''output_tokens'', PInt 12)])"
  by (simp add: get_usage_def message_body_def)

section \<open>What the two calls return\<close>

lemma read_anthropic_Inr:
  assumes "fst (read_anthropic response) = Inr r"
  shows "source r = ''anthropic''" and "model_used r = anthropic_model"
    and "snd (read_anthropic response) = [(INFO, AnthropicSuccessful)]"
  using assms
  by (auto simp: read_anthropic_def split: sum.splits exn_kind.splits prod.splits)

lemma read_anthropic_Inl: "fst (read_anthropic response) = Inl e \<Longrightarrow> fst e = OtherException"
  by (auto simp: read_anthropic_def Exception_of_def not_subscriptable_def content_text_def get_usage_def
           split: sum.splits exn_kind.splits prod.splits pyval.splits option.splits if_splits
           elim!: getitem_key.elims getitem_index.elims)

lemma call_anthropic_direct_cases [case_names post_failed post_raised answered throttled rejected]:
  obtains
    (post_failed) msg w' where
      "post w (anthropic_url client) (anthropic_headers client) (anthropic_payload prompt max_tokens) 60
         = (PostRaised (RequestException, msg), w')"
      "call_anthropic_direct post client w prompt max_tokens =
         (Inl (Exception_of (''Request failed: '' @ msg)),
          [(INFO, AttemptingAnthropic), (ERROR, RequestFailed msg)], w')"
  | (post_raised) msg w' where
      "post w (anthropic_url client) (anthropic_headers client) (anthropic_payload prompt max_tokens) 60
         = (PostRaised (OtherException, msg), w')"
      "call_anthropic_direct post client w prompt max_tokens =
         (Inl (OtherException, msg), [(INFO, AttemptingAnthropic)], w')"
  | (answered) response w' where
      "post w (anthropic_url client) (anthropic_headers client) (anthropic_payload prompt max_tokens) 60
         = (Responded response, w')" "status_code response = 200"
      "call_anthropic_direct post client w prompt max_tokens =
         (fst (read_anthropic response), (INFO, AttemptingAnthropic) # snd (read_anthropic response), w')"
  | (throttled) response w' where
      "post w (anthropic_url client) (anthropic_headers client) (anthropic_payload prompt max_tokens) 60
         = (Responded response, w')" "status_code response = 429"
      "call_anthropic_direct post client w prompt max_tokens =
         (Inl (Exception_of (''Throttled: '' @ response_text response)),
          [(INFO, AttemptingAnthropic), (WARNING, AnthropicThrottled)], w')"
  | (rejected) response w' where
      "post w (anthropic_url client) (anthropic_headers client) (anthropic_payload prompt max_tokens) 60
         = (Responded response, w')" "status_code response \<noteq> 200" "status_code response \<noteq> 429"
      "call_anthropic_direct post client w prompt max_tokens =
         (Inl (Exception_of (''API Error '' @ str_of_int (status_code response) @ '': '' @ response_text response)),
          [(INFO, AttemptingAnthropic), (ERROR, AnthropicError (status_code response))], w')"
proof -
  obtain out w' where p: "post w (anthropic_url client) (anthropic_headers client)
      (anthropic_payload prompt max_tokens) 60 = (out, w')"
    by (cases "post w (anthropic_url client) (anthropic_headers client) (anthropic_payload prompt max_tokens) 60")
  show thesis
  proof (cases out)
    case (PostRaised e)
    with p show ?thesis
      by (cases e; cases "fst e")
         (auto simp: call_anthropic_direct_def intro: post_failed post_raised)
  next
    case (Responded response)
    with p show ?thesis
      by (cases "status_code response = 200"; cases "status_code response = 429")
         (auto simp: call_anthropic_direct_def split: prod.splits intro: answered throttled rejected)
  qed
qed

lemma call_anthropic_direct_Inr:
  assumes "call_anthropic_direct post client w prompt max_tokens = (Inr r, l, w')"
  shows "source r = ''anthropic''" and "model_used r = anthropic_model"
    and "l = [(INFO, AttemptingAnthropic), (INFO, AnthropicSuccessful)]"
proof -
  have "source r = ''anthropic'' \<and> model_used r = anthropic_model
      \<and> l = [(INFO, AttemptingAnthropic), (INFO, AnthropicSuccessful)]"
    using assms
    by - (rule call_anthropic_direct_cases [of post w client prompt max_tokens],
          auto dest: read_anthropic_Inr simp: prod_eq_iff)
  then show "source r = ''anthropic''" "model_used r = anthropic_model"
    "l = [(INFO, AttemptingAnthropic), (INFO, AnthropicSuccessful)]"
    by simp_all
qed

lemma call_anthropic_direct_Inl:
  assumes "call_anthropic_direct post client w prompt max_tokens = (Inl e, l, w')"
  shows "fst e = OtherException"
  using assms
  by - (rule call_anthropic_direct_cases [of post w client prompt max_tokens],
        auto simp: Exception_of_def prod_eq_iff dest: read_anthropic_Inl)

lemma bedrock_failed_eq:
  "bedrock_failed msg w = (r, l, w') \<longleftrightarrow>
     r = Inl (Exception_of (''Bedrock fallback failed: '' @ msg))
     \<and> l = [(INFO, CallingBedrock), (ERROR, BedrockFailed msg)] \<and> w' = w"
  by (auto simp: bedrock_failed_def)

lemma call_bedrock_fallback_Inr:
  assumes "call_bedrock_fallback invoke client w prompt max_tokens = (Inr r, l, w')"
  shows "source r = ''bedrock''" and "model_used r = bedrock_model"
    and "l = [(INFO, CallingBedrock), (INFO, BedrockSuccessful)]" and "bedrock_client client"
  using assms
  by (auto simp: call_bedrock_fallback_def bedrock_failed_eq split: if_splits prod.splits sum.splits)

lemma call_bedrock_fallback_Inl:
  assumes "call_bedrock_fallback invoke client w prompt max_tokens = (Inl e, l, w')"
  obtains msg where "e = Exception_of (''Bedrock fallback failed: '' @ msg)"
    and "l = [(INFO, CallingBedrock), (ERROR, BedrockFailed msg)]"
  using assms
  by (auto simp: call_bedrock_fallback_def bedrock_failed_eq split: if_splits prod.splits sum.splits)

lemma call_bedrock_fallback_no_client:
  "\<not> bedrock_client client \<Longrightarrow>
     call_bedrock_fallback invoke client w prompt max_tokens = bedrock_failed no_bedrock_client w"
  by (simp add: call_bedrock_fallback_def)

section \<open>The three ways the fallback ends\<close>

definition switch_log :: "string \<Rightarrow> bedrock_msg log" where
  "switch_log msg =
     [(WARNING, AnthropicFailed msg),
      (INFO, if is_throttling msg then DetectedThrottling else DetectedFailure)]"

lemma generate_direct:
  assumes "call_anthropic_direct post client w prompt max_tokens = (Inr r, l, w')"
  shows "generate_response post invoke client w prompt max_tokens = (Inr r, l, w')"
  using assms by (simp add: generate_response_def)

lemma generate_fallback:
  assumes "call_anthropic_direct post client w prompt max_tokens = (Inl e, l, w')"
    and "call_bedrock_fallback invoke client w' prompt max_tokens = (Inr r, l2, w'')"
  shows "generate_response post invoke client w prompt max_tokens =
     (Inr r, l @ switch_log (snd e) @ l2, w'')"
  using assms by (simp add: generate_response_def switch_log_def)

lemma generate_both_failed:
  assumes "call_anthropic_direct post client w prompt max_tokens = (Inl e, l, w')"
    and "call_bedrock_fallback invoke client w' prompt max_tokens = (Inl e2, l2, w'')"
  shows "generate_response post invoke client w prompt max_tokens =
     (Inl (Exception_of (both_failed (snd e) (snd e2))),
      l @ switch_log (snd e) @ l2 @ [(ERROR, BothFailed (both_failed (snd e) (snd e2)))], w'')"
  using assms by (simp add: generate_response_def switch_log_def)

lemma generate_response_cases [case_names direct fallback both_failed]:
  obtains
    (direct) r l w' where "call_anthropic_direct post client w prompt max_tokens = (Inr r, l, w')"
      "generate_response post invoke client w prompt max_tokens = (Inr r, l, w')"
  | (fallback) e l w' r l2 w'' where
      "call_anthropic_direct post client w prompt max_tokens = (Inl e, l, w')"
      "call_bedrock_fallback invoke client w' prompt max_tokens = (Inr r, l2, w'')"
      "generate_response post invoke client w prompt max_tokens = (Inr r, l @ switch_log (snd e) @ l2, w'')"
  | (both_failed) e l w' e2 l2 w'' where
      "call_anthropic_direct post client w prompt max_tokens = (Inl e, l, w')"
      "call_bedrock_fallback invoke client w' prompt max_tokens = (Inl e2, l2, w'')"
      "generate_response post invoke client w prompt max_tokens =
         (Inl (Exception_of (both_failed (snd e) (snd e2))),
          l @ switch_log (snd e) @ l2 @ [(ERROR, BothFailed (both_failed (snd e) (snd e2)))], w'')"
proof -
  obtain a l w' where a: "call_anthropic_direct post client w prompt max_tokens = (a, l, w')"
    by (cases "call_anthropic_direct post client w prompt max_tokens")
  show thesis
  proof (cases a)
    case (Inr r)
    with a show ?thesis by (intro direct [of r l w']) (simp_all add: generate_direct)
  next
    case (Inl e)
    obtain b l2 w'' where b: "call_bedrock_fallback invoke client w' prompt max_tokens = (b, l2, w'')"
      by (cases "call_bedrock_fallback invoke client w' prompt max_tokens")
    from a b Inl show ?thesis
      by (cases b) (auto intro: fallback both_failed simp: generate_fallback generate_both_failed)
  qed
qed

section \<open>The closed instances evaluate\<close>

lemmas bedrock_demo_defs =
  scripted_post_def scripted_invoke_def http_ok_def http_status_def demo_client_def default_region_def
  retry_strategy_def anthropic_model_def bedrock_model_def Exception_of_def

lemma demo_direct:
  "call_anthropic_direct scripted_post demo_client ([http_ok ''OK''], []) ''X'' 4000 =
     (Inr \<lparr>content = PStr ''OK'', model_used = anthropic_model, source = ''anthropic'',
           usage = PDict [(''input_tokens'', PInt 9), (''output_tokens'', PInt 12)]\<rparr>,
      [(INFO, AttemptingAnthropic), (INFO, AnthropicSuccessful)], ([], []))"
  by (simp add: call_anthropic_direct_def read_anthropic_def bedrock_demo_defs)

lemma demo_throttled:
  "call_anthropic_direct scripted_post demo_client ([http_status 429 ''rate limited''], bs) ''X'' 4000 =
     (Inl (OtherException, ''Throttled: rate limited''),
      [(INFO, AttemptingAnthropic), (WARNING, AnthropicThrottled)], ([], bs))"
  by (simp add: call_anthropic_direct_def bedrock_demo_defs)

lemma demo_bedrock:
  "call_bedrock_fallback scripted_invoke demo_client ([], [Inr (message_body ''OK'')]) ''X'' 4000 =
     (Inr \<lparr>content = PStr ''OK'', model_used = bedrock_model, source = ''bedrock'',
           usage = PDict [(''input_tokens'', PInt 9), (''output_tokens'', PInt 12)]\<rparr>,
      [(INFO, CallingBedrock), (INFO, BedrockSuccessful)], ([], []))"
  by (simp add: call_bedrock_fallback_def bedrock_demo_defs)

lemma demo_bedrock_failed:
  "call_bedrock_fallback scripted_invoke demo_client ([], []) ''X'' 4000 =
     (Inl (OtherException, ''Bedrock fallback failed: ExpiredTokenException''),
      [(INFO, CallingBedrock), (ERROR, BedrockFailed ''ExpiredTokenException'')], ([], []))"
  by (simp add: call_bedrock_fallback_def bedrock_failed_def bedrock_demo_defs)

lemma is_throttling_Throttled [simp]: "is_throttling (''Throttled: '' @ body)"
proof -
  have "py_lower ''Throttled: '' = ''throttl'' @ ''ed: ''"
    by code_simp
  then have "py_lower (''Throttled: '' @ body) = ''throttl'' @ ''ed: '' @ py_lower body"
    by (simp only: py_lower_append append_assoc)
  then show ?thesis
    unfolding is_throttling_def by (simp only: py_in_prefix simp_thms)
qed

lemma demo_rejected:
  "call_anthropic_direct scripted_post demo_client ([http_status 500 ''request 4291 failed''], bs) ''X'' 4000 =
     (Inl (OtherException, ''API Error 500: request 4291 failed''),
      [(INFO, AttemptingAnthropic), (ERROR, AnthropicError 500)], ([], bs))"
  by (simp add: call_anthropic_direct_def bedrock_demo_defs py_defs)
     (simp add: str_of_nat.simps py_defs)

lemma generate_response_switch:
  assumes "call_anthropic_direct post client w prompt max_tokens = (Inl e, l, w')"
  shows "set (switch_log (snd e)) \<subseteq> set (fst (snd (generate_response post invoke client w prompt max_tokens)))"
  using assms
  by - (rule generate_response_cases [of post client w prompt max_tokens invoke], auto)

lemma throttling_logged:
  assumes "call_anthropic_direct post client w prompt max_tokens = (Inl e, l, w')"
    and "is_throttling (snd e)"
  shows "(INFO, DetectedThrottling) \<in> set (fst (snd (generate_response post invoke client w prompt max_tokens)))"
  using generate_response_switch [OF assms(1), of invoke] assms(2) by (simp add: switch_log_def)

section \<open>Properties of the client\<close>

text \<open>
  \<^bold>\<open>C36\<close> (functional).  When the call to the Anthropic API returns a response,
  \<open>generate_response\<close> returns that response, with the log and the world of that call:
  Bedrock is not asked, whatever its client would do.  The response names
  \<open>anthropic\<close> as its source and the model the request was sent for.
\<close>

theorem anthropic_answer_returned:
  assumes "call_anthropic_direct post client w prompt max_tokens = (Inr r, l, w')"
  shows "generate_response post invoke client w prompt max_tokens = (Inr r, l, w')
    \<and> source r = ''anthropic'' \<and> model_used r = ''claude-3-5-sonnet-20241022''"
  using call_anthropic_direct_Inr(1,2) [OF assms]
  by (simp add: generate_direct [OF assms] anthropic_model_def)

theorem anthropic_answer_returned_witness:
  "generate_response scripted_post scripted_invoke demo_client ([http_ok ''OK''], []) ''X'' 4000 =
     (Inr \<lparr>content = PStr ''OK'', model_used = ''claude-3-5-sonnet-20241022'', source = ''anthropic'',
           usage = PDict [(''input_tokens'', PInt 9), (''output_tokens'', PInt 12)]\<rparr>,
      [(INFO, AttemptingAnthropic), (INFO, AnthropicSuccessful)], ([], []))"
  using anthropic_answer_returned [OF demo_direct, of scripted_invoke]
  by (simp add: anthropic_model_def)

text \<open>
  \<^bold>\<open>C12\<close> (functional).  When the call to the Anthropic API raises, for whatever reason,
  and the call to Bedrock then returns a response, \<open>generate_response\<close> returns the
  response of Bedrock, with \<open>bedrock\<close> as its source and the inference profile as its
  model.  Between the logs of the two calls it logs the text of the first exception
  and whether it took it for throttling.  Bedrock is called in the world the first call
  left.
\<close>

theorem falls_back_to_bedrock:
  assumes "call_anthropic_direct post client w prompt max_tokens = (Inl e, l, w')"
    and "call_bedrock_fallback invoke client w' prompt max_tokens = (Inr r, l2, w'')"
  shows "generate_response post invoke client w prompt max_tokens =
       (Inr r,
        l @ [(WARNING, AnthropicFailed (snd e)),
             (INFO, if is_throttling (snd e) then DetectedThrottling else DetectedFailure)] @ l2,
        w'')
    \<and> source r = ''bedrock'' \<and> model_used r = ''us.anthropic.claude-3-5-sonnet-20241022-v2:0''"
  using call_bedrock_fallback_Inr(1,2) [OF assms(2)]
  by (simp add: generate_fallback [OF assms] switch_log_def bedrock_model_def)

theorem falls_back_to_bedrock_witness:
  "generate_response scripted_post scripted_invoke demo_client
       ([http_status 429 ''rate limited''], [Inr (message_body ''OK'')]) ''X'' 4000 =
     (Inr \<lparr>content = PStr ''OK'', model_used = ''us.anthropic.claude-3-5-sonnet-20241022-v2:0'',
           source = ''bedrock'', usage = PDict [(''input_tokens'', PInt 9), (''output_tokens'', PInt 12)]\<rparr>,
      [(INFO, AttemptingAnthropic), (WARNING, AnthropicThrottled),
       (WARNING, AnthropicFailed ''Throttled: rate limited''), (INFO, DetectedThrottling),
       (INFO, CallingBedrock), (INFO, BedrockSuccessful)],
      ([], []))"
  using falls_back_to_bedrock [OF demo_throttled demo_bedrock]
    is_throttling_Throttled [of "''rate limited''"]
  by (simp add: bedrock_model_def)

text \<open>
  \<^bold>\<open>C13\<close> (error).  When both calls raise, \<open>generate_response\<close> raises an \<open>Exception\<close>
  whose text names both failures: \<open>Both services failed. Anthropic: a. Bedrock: b\<close>,
  with \<open>a\<close> the text of the first exception and \<open>b\<close> that of the second, which starts
  with \<open>Bedrock fallback failed:\<close>; the same text is the last entry of the log, at
  level \<open>ERROR\<close>.
\<close>

theorem both_services_fail:
  assumes "call_anthropic_direct post client w prompt max_tokens = (Inl e, l, w')"
    and "call_bedrock_fallback invoke client w' prompt max_tokens = (Inl e2, l2, w'')"
  shows "fst (generate_response post invoke client w prompt max_tokens) =
       Inl (OtherException, ''Both services failed. Anthropic: '' @ snd e @ ''. Bedrock: '' @ snd e2)
    \<and> prefix ''Bedrock fallback failed: '' (snd e2)
    \<and> last (fst (snd (generate_response post invoke client w prompt max_tokens))) =
        (ERROR, BothFailed (''Both services failed. Anthropic: '' @ snd e @ ''. Bedrock: '' @ snd e2))"
  using assms(2)
  by (rule call_bedrock_fallback_Inl)
     (simp add: generate_both_failed [OF assms] both_failed_def Exception_of_def)

theorem both_services_fail_witness:
  "fst (generate_response scripted_post scripted_invoke demo_client
         ([http_status 429 ''rate limited''], []) ''X'' 4000) =
     Inl (OtherException,
       ''Both services failed. Anthropic: Throttled: rate limited. Bedrock: Bedrock fallback failed: ExpiredTokenException'')"
  using both_services_fail [OF demo_throttled demo_bedrock_failed] by simp

text \<open>
  \<^bold>\<open>C14\<close> (safety).  \<open>generate_response\<close> ends in one of three ways, and in no other: a
  response of the Anthropic API for its model, a response of Bedrock for the inference
  profile, or an \<open>Exception\<close> whose text starts with \<open>Both services failed\<close>.  No
  exception of the session, of the parsing or of the AWS client leaves it as it is.
\<close>

theorem generate_response_outcomes:
  "(case fst (generate_response post invoke client w prompt max_tokens) of
      Inr r \<Rightarrow> (source r, model_used r) \<in>
                 {(''anthropic'', ''claude-3-5-sonnet-20241022''),
                  (''bedrock'', ''us.anthropic.claude-3-5-sonnet-20241022-v2:0'')}
    | Inl e \<Rightarrow> fst e = OtherException \<and> prefix ''Both services failed. Anthropic: '' (snd e))"
proof (rule generate_response_cases [of post client w prompt max_tokens invoke])
  fix r l w'
  assume "call_anthropic_direct post client w prompt max_tokens = (Inr r, l, w')"
    "generate_response post invoke client w prompt max_tokens = (Inr r, l, w')"
  then show ?thesis
    by (auto dest: call_anthropic_direct_Inr simp: anthropic_model_def)
next
  fix e l w' r l2 w''
  assume "call_bedrock_fallback invoke client w' prompt max_tokens = (Inr r, l2, w'')"
    "generate_response post invoke client w prompt max_tokens = (Inr r, l @ switch_log (snd e) @ l2, w'')"
  then show ?thesis
    by (auto dest: call_bedrock_fallback_Inr simp: bedrock_model_def)
next
  fix e l w' e2 l2 w''
  assume "generate_response post invoke client w prompt max_tokens =
      (Inl (Exception_of (both_failed (snd e) (snd e2))),
       l @ switch_log (snd e) @ l2 @ [(ERROR, BothFailed (both_failed (snd e) (snd e2)))], w'')"
  then show ?thesis
    by (simp add: Exception_of_def both_failed_def)
qed

text \<open>
  \<^bold>\<open>C24\<close> (functional).  An answer with status 429 makes the direct call raise
  \<open>Throttled:\<close> followed by the body, and \<open>generate_response\<close> then logs that it detected
  throttling.  The detection reads the text of the exception, not the status: an answer
  with status 500 whose body holds the digits \<open>429\<close> is logged as throttling as well.
  In both cases the next step is the same call to Bedrock.
\<close>

theorem throttling_detected_from_text:
  assumes "post w (anthropic_url client) (anthropic_headers client) (anthropic_payload prompt max_tokens) 60
      = (Responded response, w')"
    and "status_code response = 429"
  shows "fst (call_anthropic_direct post client w prompt max_tokens)
       = Inl (OtherException, ''Throttled: '' @ response_text response)
    \<and> (INFO, DetectedThrottling) \<in> set (fst (snd (generate_response post invoke client w prompt max_tokens)))
    \<and> (INFO, DetectedThrottling) \<in> set (fst (snd (generate_response scripted_post invoke demo_client
          ([http_status 500 ''request 4291 failed''], bs) ''X'' 4000)))"
proof -
  have call: "call_anthropic_direct post client w prompt max_tokens =
      (Inl (OtherException, ''Throttled: '' @ response_text response),
       [(INFO, AttemptingAnthropic), (WARNING, AnthropicThrottled)], w')"
    using assms by (simp add: call_anthropic_direct_def Exception_of_def)
  have "is_throttling (snd (OtherException, ''Throttled: '' @ response_text response))"
    by (simp only: snd_conv is_throttling_Throttled)
  note 1 = throttling_logged [OF call this, of invoke]
  have "is_throttling (snd (OtherException, ''API Error 500: request 4291 failed''))"
    by code_simp
  note 2 = throttling_logged [OF demo_rejected this, of invoke bs]
  from 1 2 show ?thesis by (simp add: call)
qed

theorem throttling_detected_from_text_witness:
  "fst (call_anthropic_direct scripted_post demo_client
          ([http_status 429 ''rate limited''], [] :: pyval may_raise list) ''X'' 4000)
       = Inl (OtherException, ''Throttled: rate limited'')
    \<and> (INFO, DetectedThrottling) \<in> set (fst (snd (generate_response scripted_post scripted_invoke demo_client
          ([http_status 429 ''rate limited''], []) ''X'' 4000)))
    \<and> (INFO, DetectedThrottling) \<in> set (fst (snd (generate_response scripted_post scripted_invoke demo_client
          ([http_status 500 ''request 4291 failed''], []) ''X'' 4000)))"
proof -
  let ?r = "\<lparr>status_code = 429, response_text = ''rate limited'',
      json = Inl (RequestException, ''Expecting value: line 1 column 1 (char 0)'')\<rparr>"
  have "scripted_post ([http_status 429 ''rate limited''], [] :: pyval may_raise list)
      (anthropic_url demo_client) (anthropic_headers demo_client) (anthropic_payload ''X'' 4000) 60
      = (Responded ?r, ([], []))"
    by (simp add: scripted_post_def http_status_def)
  from throttling_detected_from_text [of scripted_post _ demo_client "''X''" 4000 ?r _ scripted_invoke "[]", OF this]
  show ?thesis by simp
qed

text \<open>
  \<^bold>\<open>C25\<close> (error).  When the creation of the Bedrock client raises in the constructor,
  the constructor logs two warnings and returns a client without the attribute
  \<open>bedrock_client\<close>.  Every later fallback then fails before any call to AWS, with the
  text of the \<open>AttributeError\<close>, and leaves the world as it is.
\<close>

theorem fallback_without_client:
  assumes "aws w0 region = (NoClient msg, w1)"
  shows "fst (snd (client_init aws w0 api_key region))
       = [(WARNING, CredentialsIssue msg), (WARNING, FallbackMayNotWork)]
    \<and> call_bedrock_fallback invoke (fst (client_init aws w0 api_key region)) w prompt max_tokens =
       (Inl (OtherException,
          ''Bedrock fallback failed: 'ClaudeFallbackClient' object has no attribute 'bedrock_client'' @ [CHR 0x27]),
        [(INFO, CallingBedrock),
         (ERROR, BedrockFailed (CHR 0x27 # ''ClaudeFallbackClient' object has no attribute 'bedrock_client'' @ [CHR 0x27]))],
        w)"
  using assms
  by (simp add: client_init_def call_bedrock_fallback_def bedrock_failed_def no_bedrock_client_def
        Exception_of_def)

theorem fallback_without_client_witness:
  "fst (snd (client_init no_aws () (Some ''sk-test'') ''us-east-1''))
       = [(WARNING, CredentialsIssue ''Unable to locate credentials''), (WARNING, FallbackMayNotWork)]
    \<and> call_bedrock_fallback (\<lambda>w model_id body content_type. (Inr (message_body ''OK''), w))
         (fst (client_init no_aws () (Some ''sk-test'') ''us-east-1'')) () ''X'' 4000 =
       (Inl (OtherException,
          ''Bedrock fallback failed: 'ClaudeFallbackClient' object has no attribute 'bedrock_client'' @ [CHR 0x27]),
        [(INFO, CallingBedrock),
         (ERROR, BedrockFailed (CHR 0x27 # ''ClaudeFallbackClient' object has no attribute 'bedrock_client'' @ [CHR 0x27]))],
        ())"
  by (rule fallback_without_client [of no_aws "()" "''us-east-1''" "''Unable to locate credentials''" "()"])
     (simp add: no_aws_def)

end
