(* ===== verification/Session.thy ===== *)
theory Session
  imports Bedrock
begin

text \<open>
  The HTTP session of \<open>ClaudeFallbackClient\<close> (\<^verbatim>\<open>src/bedrock-fallback.py\<close>, the constructor):
  a \<open>requests.Session\<close> with an \<open>HTTPAdapter\<close> mounted whose \<open>max_retries\<close> is
  \<open>Retry(total=3, backoff_factor=1, status_forcelist=[429, 500, 502, 503, 504])\<close>.

  \<open>session.post\<close> is then the retry loop of \<open>urllib3\<close> around single exchanges with the
  server.  The loop is modelled from the documentation of \<open>urllib3.util.Retry\<close>:
  \<^item> an error raised before the request was sent (\<open>ConnectFailed\<close>) is retried, whatever
    the method, while retries are left;
  \<^item> an error raised after the request was sent (\<open>ReadFailed\<close>) is retried only for a
    method of \<open>allowed_methods\<close>, and raised as it is otherwise;
  \<^item> an answer is retried when the method is in \<open>allowed_methods\<close> and the status is
    in \<open>status_forcelist\<close>, or the answer has a \<open>Retry-After\<close> header and one of the
    statuses 413, 429 and 503; every other answer is returned;
  \<^item> \<open>allowed_methods\<close> is left at its default by the constructor: the methods that are
    idempotent, which \<open>POST\<close> is not;
  \<^item> \<open>total=3\<close> allows three retries, four exchanges in all; when they are used up
    the loop raises, and \<open>requests\<close> turns what it raises into a \<open>RequestException\<close>.

  One exchange is the parameter \<open>'w transport\<close>.  The time the loop sleeps between two
  exchanges (\<open>backoff_factor\<close>) is not modelled.  The texts of the exceptions raised
  after the last retry are those of \<open>urllib3\<close> without the name of the connection pool.

  The lemmas show that for \<open>POST\<close>, the one method the client uses, no answer is
  retried, so that the list of statuses has no effect; that a request makes at most
  four exchanges; and what \<open>call_anthropic_direct\<close> does over such a session.
\<close>

section \<open>One exchange and the retry policy\<close>

datatype exchange =
    Answered http_response bool
  | ConnectFailed string
  | ReadFailed string

type_synonym 'w transport =
  "'w \<Rightarrow> string \<Rightarrow> string \<Rightarrow> (string \<times> pyval) list \<Rightarrow> pyval \<Rightarrow> int \<Rightarrow> exchange \<times> 'w"

definition DEFAULT_ALLOWED_METHODS :: "string list" where
  "DEFAULT_ALLOWED_METHODS = [''DELETE'', ''GET'', ''HEAD'', ''OPTIONS'', ''PUT'', ''TRACE'']"

definition RETRY_AFTER_STATUS_CODES :: "int list" where
  "RETRY_AFTER_STATUS_CODES = [413, 429, 503]"

definition is_method_retryable :: "string \<Rightarrow> bool" where
  "is_method_retryable method \<longleftrightarrow> py_upper method \<in> set DEFAULT_ALLOWED_METHODS"

text \<open>\<open>Retry.is_retry\<close>, with the retries that are left for \<open>self.total\<close>.\<close>

definition is_retry :: "int list \<Rightarrow> nat \<Rightarrow> string \<Rightarrow> int \<Rightarrow> bool \<Rightarrow> bool" where
  "is_retry forcelist left method status has_retry_after \<longleftrightarrow>
     is_method_retryable method
     \<and> (status \<in> set forcelist
        \<or> (left > 0 \<and> has_retry_after \<and> status \<in> set RETRY_AFTER_STATUS_CODES))"

definition max_retries_exceeded :: "string \<Rightarrow> string \<Rightarrow> raised" where
  "max_retries_exceeded url reason =
     (RequestException, ''Max retries exceeded with url: '' @ url @ '' (Caused by '' @ reason @ '')'')"

definition too_many_responses :: "int \<Rightarrow> string" where
  "too_many_responses status = ''ResponseError('too many '' @ str_of_int status @ '' error responses')''"

section \<open>The retry loop\<close>

fun send ::
  "'w transport \<Rightarrow> int list \<Rightarrow> string \<Rightarrow> nat \<Rightarrow> 'w \<Rightarrow> string \<Rightarrow> (string \<times> pyval) list \<Rightarrow> pyval \<Rightarrow> int
     \<Rightarrow> http_outcome \<times> 'w" where
  "send transport forcelist method left w url headers body timeout =
     (case transport w method url headers body timeout of
        (Answered response has_retry_after, w') \<Rightarrow>
          if is_retry forcelist left method (status_code response) has_retry_after then
            (case left of
               0 \<Rightarrow> (PostRaised (max_retries_exceeded url (too_many_responses (status_code response))), w')
             | Suc n \<Rightarrow> send transport forcelist method n w' url headers body timeout)
          else (Responded response, w')
      | (ConnectFailed reason, w') \<Rightarrow>
          (case left of
             0 \<Rightarrow> (PostRaised (max_retries_exceeded url reason), w')
           | Suc n \<Rightarrow> send transport forcelist method n w' url headers body timeout)
      | (ReadFailed reason, w') \<Rightarrow>
          if is_method_retryable method then
            (case left of
               0 \<Rightarrow> (PostRaised (max_retries_exceeded url reason), w')
             | Suc n \<Rightarrow> send transport forcelist method n w' url headers body timeout)
          else (PostRaised (RequestException, reason), w'))"

declare send.simps [simp del]

text \<open>\<open>session.post\<close> of a session with the adapter of the constructor mounted.\<close>

definition session_post :: "'w transport \<Rightarrow> Retry \<Rightarrow> 'w http_post" where
  "session_post transport retry w url headers body timeout =
     send transport (status_forcelist retry) ''POST'' (retry_total retry) w url headers body timeout"

section \<open>Transports for closed instances\<close>

text \<open>
  A transport that answers from a list, one entry per exchange, and refuses the
  connection when the list is used up; and a transport that counts the exchanges made
  through another.
\<close>

definition scripted_transport :: "exchange list transport" where
  "scripted_transport w method url headers body timeout =
     (case w of [] \<Rightarrow> (ConnectFailed ''NewConnectionError'', []) | x # xs \<Rightarrow> (x, xs))"

definition counting :: "'w transport \<Rightarrow> (nat \<times> 'w) transport" where
  "counting transport w method url headers body timeout =
     (case transport (snd w) method url headers body timeout of (x, w') \<Rightarrow> (x, (Suc (fst w), w')))"

definition status_answer :: "int \<Rightarrow> string \<Rightarrow> exchange" where
  "status_answer code body =
     Answered \<lparr>status_code = code, response_text = body,
       json = Inl (RequestException, ''Expecting value: line 1 column 1 (char 0)'')\<rparr> False"

text \<open>A post without a retry policy: one exchange, its answer or its error.\<close>

definition single_post :: "'w transport \<Rightarrow> 'w http_post" where
  "single_post transport w url headers body timeout =
     (case transport w ''POST'' url headers body timeout of
        (Answered response has_retry_after, w') \<Rightarrow> (Responded response, w')
      | (ConnectFailed reason, w') \<Rightarrow> (PostRaised (RequestException, reason), w')
      | (ReadFailed reason, w') \<Rightarrow> (PostRaised (RequestException, reason), w'))"

definition connect_failed :: "exchange \<Rightarrow> bool" where
  "connect_failed x = (case x of ConnectFailed reason \<Rightarrow> True | _ \<Rightarrow> False)"

section \<open>The policy on POST\<close>

lemma POST_not_retryable [simp]: "\<not> is_method_retryable ''POST''"
  by code_simp

lemma GET_retryable: "is_method_retryable ''get''"
  by code_simp

lemma not_retry_POST [simp]: "\<not> is_retry forcelist left ''POST'' status has_retry_after"
  by (simp add: is_retry_def)

lemma is_retry_GET: "is_retry (status_forcelist retry_strategy) left ''GET'' 429 has_retry_after"
  by (simp add: is_retry_def retry_strategy_def) code_simp

lemma send_POST_answered:
  assumes "transport w ''POST'' url headers body timeout = (Answered response has_retry_after, w')"
  shows "send transport forcelist ''POST'' left w url headers body timeout = (Responded response, w')"
  using assms by (simp add: send.simps)

lemma send_POST_read_failed:
  assumes "transport w ''POST'' url headers body timeout = (ReadFailed reason, w')"
  shows "send transport forcelist ''POST'' left w url headers body timeout
     = (PostRaised (RequestException, reason), w')"
  using assms by (simp add: send.simps)

lemma send_connect_failed:
  assumes "transport w method url headers body timeout = (ConnectFailed reason, w')"
  shows "send transport forcelist method 0 w url headers body timeout
           = (PostRaised (max_retries_exceeded url reason), w')"
    and "send transport forcelist method (Suc n) w url headers body timeout
           = send transport forcelist method n w' url headers body timeout"
  using assms by (simp_all add: send.simps)

lemma session_post_single:
  assumes "\<not> connect_failed (fst (transport w ''POST'' url headers body timeout))"
  shows "session_post transport retry w url headers body timeout
     = single_post transport w url headers body timeout"
  using assms
  by (cases "transport w ''POST'' url headers body timeout"; cases "fst (transport w ''POST'' url headers body timeout)")
     (simp_all add: session_post_def single_post_def connect_failed_def send_POST_answered
        send_POST_read_failed)

section \<open>The number of exchanges\<close>

lemma send_counting:
  "send (counting transport) forcelist method left (n, w) url headers body timeout =
     (fst (send transport forcelist method left w url headers body timeout),
      fst (snd (send (counting transport) forcelist method left (n, w) url headers body timeout)),
      snd (send transport forcelist method left w url headers body timeout))
   \<and> n < fst (snd (send (counting transport) forcelist method left (n, w) url headers body timeout))
   \<and> fst (snd (send (counting transport) forcelist method left (n, w) url headers body timeout)) \<le> n + left + 1"
proof (induction left arbitrary: n w)
  case 0
  show ?case
    by (simp add: send.simps [of _ _ _ 0] counting_def split: prod.splits exchange.splits)
next
  case (Suc left)
  obtain x w' where x: "transport w method url headers body timeout = (x, w')"
    by (cases "transport w method url headers body timeout")
  from Suc [of "Suc n" w'] x show ?case
    by (cases x) (auto simp: send.simps [of _ _ _ "Suc left"] counting_def)
qed

lemma send_one_exchange:
  assumes "\<not> connect_failed (fst (transport w ''POST'' url headers body timeout))"
  shows "fst (snd (send (counting transport) forcelist ''POST'' left (n, w) url headers body timeout)) = Suc n"
  using assms
  by (cases "transport w ''POST'' url headers body timeout"; cases "fst (transport w ''POST'' url headers body timeout)")
     (simp_all add: send.simps [of "counting transport"] counting_def connect_failed_def)

section \<open>The direct call over the session\<close>

lemma direct_throttled_at_once:
  assumes "transport w ''POST'' (anthropic_url client) (anthropic_headers client)
             (anthropic_payload prompt max_tokens) 60 = (Answered response has_retry_after, w')"
    and "status_code response = 429"
  shows "call_anthropic_direct (session_post transport (session_retry client)) client w prompt max_tokens
     = (Inl (Exception_of (''Throttled: '' @ response_text response)),
        [(INFO, AttemptingAnthropic), (WARNING, AnthropicThrottled)], w')"
  using assms by (simp add: call_anthropic_direct_def session_post_def send_POST_answered)

lemma fallback_after_one_exchange:
  assumes "transport w ''POST'' (anthropic_url client) (anthropic_headers client)
             (anthropic_payload prompt max_tokens) 60 = (Answered response has_retry_after, w')"
    and "status_code response = 429"
    and "call_bedrock_fallback invoke client w' prompt max_tokens = (Inr r, l2, w'')"
  shows "generate_response (session_post transport (session_retry client)) invoke client w prompt max_tokens
     = (Inr r,
        [(INFO, AttemptingAnthropic), (WARNING, AnthropicThrottled)]
          @ switch_log (''Throttled: '' @ response_text response) @ l2,
        w'')"
proof -
  have "call_anthropic_direct (session_post transport (session_retry client)) client w prompt max_tokens
     = (Inl (Exception_of (''Throttled: '' @ response_text response)),
        [(INFO, AttemptingAnthropic), (WARNING, AnthropicThrottled)], w')"
    using assms(1,2) by (rule direct_throttled_at_once)
  from generate_fallback [OF this assms(3)] show ?thesis
    by (simp add: Exception_of_def)
qed

lemma demo_connect_refused:
  "session_post scripted_transport retry_strategy [] ''https://api.anthropic.com/v1/messages'' [] PNone 60
     = (PostRaised (RequestException,
          ''Max retries exceeded with url: https://api.anthropic.com/v1/messages (Caused by NewConnectionError)''),
        [])"
  by code_simp

section \<open>Properties of the session\<close>

text \<open>
  \<^bold>\<open>C15\<close> (equivalence).  With the policy the constructor mounts, \<open>session.post\<close> is a
  post without a policy unless the connection fails: whatever the list of statuses and
  the number of retries, an answer is returned and a read error is raised after one
  exchange.  The statuses 429 and 5xx of the list are never retried, because the
  client only posts and the policy retries a status for idempotent methods only.
\<close>

theorem retry_policy_inert:
  assumes "\<not> connect_failed (fst (transport w ''POST'' url headers body timeout))"
  shows "session_post transport retry w url headers body timeout
       = single_post transport w url headers body timeout
    \<and> fst (snd (session_post (counting transport) retry (0, w) url headers body timeout)) = 1"
  using assms
    session_post_single [of transport w url headers body timeout retry]
    send_one_exchange [of transport w url headers body timeout "status_forcelist retry" "retry_total retry" 0]
  by (simp add: session_post_def)

theorem retry_policy_inert_witness:
  "session_post scripted_transport retry_strategy
       [status_answer 429 ''rate limited'', status_answer 200 ''{}''] ''https://api.anthropic.com/v1/messages'' [] PNone 60
     = (Responded \<lparr>status_code = 429, response_text = ''rate limited'',
          json = Inl (RequestException, ''Expecting value: line 1 column 1 (char 0)'')\<rparr>,
        [status_answer 200 ''{}''])"
  using retry_policy_inert [of scripted_transport
      "[status_answer 429 ''rate limited'', status_answer 200 ''{}'']"
      "''https://api.anthropic.com/v1/messages''" "[]" PNone 60 retry_strategy]
  by (simp add: scripted_transport_def status_answer_def connect_failed_def single_post_def)

text \<open>
  \<^bold>\<open>C16\<close> (bounds).  A call of \<open>session.post\<close> makes at least one exchange and at most
  four, the first and the three retries of \<open>total=3\<close>; counting the exchanges changes
  neither what the call returns nor the world it leaves.
\<close>

theorem exchanges_bounded:
  "1 \<le> fst (snd (session_post (counting transport) retry_strategy (0, w) url headers body timeout))
   \<and> fst (snd (session_post (counting transport) retry_strategy (0, w) url headers body timeout)) \<le> 4
   \<and> fst (session_post (counting transport) retry_strategy (0, w) url headers body timeout)
       = fst (session_post transport retry_strategy w url headers body timeout)
   \<and> snd (snd (session_post (counting transport) retry_strategy (0, w) url headers body timeout))
       = snd (session_post transport retry_strategy w url headers body timeout)"
  using send_counting [of transport "status_forcelist retry_strategy" "''POST''" 3 0 w url headers body timeout]
  by (simp add: session_post_def retry_strategy_def prod_eq_iff)

end
