(* ===== verification/Bedrock_Cli.thy ===== *)
theory Bedrock_Cli
  imports Bedrock
begin

text \<open>
  The command line of \<^verbatim>\<open>src/bedrock-fallback.py\<close>: \<open>main\<close> (here \<open>fallback_main\<close>).

  \<open>main\<close> reads four environment variables, sets the level of the root logger, and,
  when an API key is set, builds the client, asks for one answer and prints it; an
  exception of \<open>generate_response\<close> is printed, not raised.  \<open>int(...)\<close> and the lookup
  of the level are outside the \<open>try\<close> block and come before the test of the key: what
  they raise leaves \<open>main\<close>.

  The model takes the three interfaces of the client, the environment and the world,
  and returns what \<open>main\<close> returns or raises, what it prints (one item per call of
  \<open>print\<close>), the log entries that pass the level of the root logger, and the world
  after the calls.

  The names of the levels are those of the module \<open>logging\<close>: \<open>level_of_name\<close> is
  \<open>getattr(logging, name)\<close> followed by \<open>setLevel\<close>.  Two other attributes of the
  module have a name that \<open>upper\<close> leaves as it is: \<open>BASIC_FORMAT\<close>, a string that is
  the name of no level (\<open>ValueError\<close>), and \<open>_STYLES\<close>, a dict (\<open>TypeError\<close>).  Every
  other name is no attribute of the module (\<open>AttributeError\<close>).
\<close>

section \<open>The level of the root logger\<close>

definition LEVEL_NAMES :: "(string \<times> log_level) list" where
  "LEVEL_NAMES =
     [(''CRITICAL'', CRITICAL), (''FATAL'', CRITICAL), (''ERROR'', ERROR), (''WARNING'', WARNING),
      (''WARN'', WARNING), (''INFO'', INFO), (''DEBUG'', DEBUG), (''NOTSET'', NOTSET)]"

definition no_attribute :: "string \<Rightarrow> py_error" where
  "no_attribute name = AttributeError (''module 'logging' has no attribute '' @ CHR 0x27 # name @ [CHR 0x27])"

definition level_of_name :: "string \<Rightarrow> log_level result" where
  "level_of_name name =
     (case map_of LEVEL_NAMES name of
        Some level \<Rightarrow> Return level
      | None \<Rightarrow>
          if name = ''BASIC_FORMAT''
          then Raise (ValueError (''Unknown level: '%(levelname)s:%(name)s:%(message)s'' @ [CHR 0x27]))
          else if name = ''_STYLES'' then Raise (TypeError NotALevel)
          else Raise (no_attribute name))"

section \<open>Printed items\<close>

text \<open>
  As for the handler, there is one item per call of \<open>print\<close>: a text without a
  pictograph is the text itself; the others, and the texts that show a value read
  from JSON, are constructors that hold what is shown.  The texts of \<open>DetailsHeading\<close>
  and \<open>ResponseHeading\<close> begin with a line break.
\<close>

datatype client_line =
    PleaseSetKey
  | EditEnvFile
  | Generating
  | UsingRegion string
  | MaxTokens int
  | DetailsHeading
  | UsageLine pyval
  | ResponseHeading
  | ContentLine pyval
  | ErrorLine string
  | Plain string

definition details :: "ClaudeResponse \<Rightarrow> client_line list" where
  "details response =
     [DetailsHeading, Plain (''Source: '' @ source response), Plain (''Model: '' @ model_used response)] @
     (if py_truthy (usage response) then [UsageLine (usage response)] else []) @
     [ResponseHeading, ContentLine (content response)]"

section \<open>The program\<close>

definition main_prompt :: string where
  "main_prompt = ''Explain quantum computing in simple terms.''"

type_synonym 'w client_result = "unit result \<times> client_line list \<times> bedrock_msg log \<times> 'w"

text \<open>The part of \<open>main\<close> after the test of the key: the client, the call and the report.\<close>

definition answer ::
  "'w aws \<Rightarrow> 'w http_post \<Rightarrow> 'w invoke_model \<Rightarrow> string \<Rightarrow> string \<Rightarrow> int \<Rightarrow> log_level \<Rightarrow> 'w
     \<Rightarrow> 'w client_result" where
  "answer aws post invoke anthropic_key region max_tokens level w =
     (case client_init aws w (Some anthropic_key) region of
        (client, l0, w0) \<Rightarrow>
          (case generate_response post invoke client w0 main_prompt max_tokens of
             (Inr response, l, w1) \<Rightarrow>
               (Return (), [Generating, UsingRegion region, MaxTokens max_tokens] @ details response,
                visible level (l0 @ l), w1)
           | (Inl e, l, w1) \<Rightarrow>
               (Return (), [Generating, UsingRegion region, MaxTokens max_tokens, ErrorLine (snd e)],
                visible level (l0 @ l), w1)))"

definition fallback_main ::
  "'w aws \<Rightarrow> 'w http_post \<Rightarrow> 'w invoke_model \<Rightarrow> environ \<Rightarrow> 'w \<Rightarrow> 'w client_result" where
  "fallback_main aws post invoke env w =
     (let anthropic_key = env ''ANTHROPIC_API_KEY'';
          region = getenv_or env ''AWS_REGION'' ''us-east-1''
      in case py_int (getenv_or env ''MAX_TOKENS'' ''4000'') of
           Inl e \<Rightarrow> (Raise e, [], [], w)
         | Inr max_tokens \<Rightarrow>
             (case level_of_name (py_upper (getenv_or env ''LOG_LEVEL'' ''INFO'')) of
                Inl e \<Rightarrow> (Raise e, [], [], w)
              | Inr level \<Rightarrow>
                  (case anthropic_key of
                     None \<Rightarrow> (Return (), [PleaseSetKey, EditEnvFile], [], w)
                   | Some k \<Rightarrow>
                       if k = [] then (Return (), [PleaseSetKey, EditEnvFile], [], w)
                       else answer aws post invoke k region max_tokens level w)))"

section \<open>An environment for closed instances\<close>

definition demo_env :: environ where
  "demo_env = map_of [(''ANTHROPIC_API_KEY'', ''sk-test''), (''MAX_TOKENS'', ''256''), (''LOG_LEVEL'', ''warning'')]"

section \<open>The two readers\<close>

lemma py_int_default [simp]: "py_int ''4000'' = Return 4000"
  by code_simp

lemma level_default [simp]: "level_of_name (py_upper ''INFO'') = Return INFO"
  by code_simp

lemma level_of_name_Return_iff:
  "level_of_name name = Return level \<longleftrightarrow> map_of LEVEL_NAMES name = Some level"
  by (auto simp: level_of_name_def no_attribute_def split: option.splits)

lemma level_of_name_raises_iff: "raises (level_of_name name) \<longleftrightarrow> name \<notin> set (dict_keys LEVEL_NAMES)"
  by (simp add: level_of_name_def dict_keys_def map_of_eq_None_iff [symmetric] split: option.splits)

section \<open>When the program raises\<close>

lemma fallback_main_raises_iff:
  "raises (fst (fallback_main aws post invoke env w)) \<longleftrightarrow>
     raises (py_int (getenv_or env ''MAX_TOKENS'' ''4000''))
     \<or> raises (level_of_name (py_upper (getenv_or env ''LOG_LEVEL'' ''INFO'')))"
  by (auto simp: fallback_main_def answer_def Let_def split: sum.splits option.splits prod.splits)

lemma fallback_main_raise_silent:
  assumes "raises (fst (fallback_main aws post invoke env w))"
  shows "snd (fallback_main aws post invoke env w) = ([], [], w)"
  using assms
  by (auto simp: fallback_main_def answer_def Let_def split: sum.splits option.splits prod.splits if_splits)

section \<open>Without a key\<close>

lemma fallback_main_no_key:
  assumes "env ''ANTHROPIC_API_KEY'' = None \<or> env ''ANTHROPIC_API_KEY'' = Some []"
    and "\<not> raises (fst (fallback_main aws post invoke env w))"
  shows "fallback_main aws post invoke env w = (Return (), [PleaseSetKey, EditEnvFile], [], w)"
  using assms
  by (auto simp: fallback_main_def Let_def split: sum.splits option.splits)

section \<open>With a key\<close>

lemma fallback_main_answer:
  assumes "env ''ANTHROPIC_API_KEY'' = Some k" "k \<noteq> []"
    and "py_int (getenv_or env ''MAX_TOKENS'' ''4000'') = Return max_tokens"
    and "level_of_name (py_upper (getenv_or env ''LOG_LEVEL'' ''INFO'')) = Return level"
  shows "fallback_main aws post invoke env w =
     answer aws post invoke k (getenv_or env ''AWS_REGION'' ''us-east-1'') max_tokens level w"
  using assms by (simp add: fallback_main_def)

lemma answer_returns: "fst (answer aws post invoke k region max_tokens level w) = Return ()"
  by (auto simp: answer_def split: prod.splits sum.splits)

lemma answer_cases:
  obtains
    (answered) client l0 w0 r l w1 where
      "client_init aws w (Some k) region = (client, l0, w0)"
      "generate_response post invoke client w0 main_prompt n = (Inr r, l, w1)"
      "answer aws post invoke k region n level w =
         (Return (), [Generating, UsingRegion region, MaxTokens n] @ details r, visible level (l0 @ l), w1)"
  | (failed) client l0 w0 e l w1 where
      "client_init aws w (Some k) region = (client, l0, w0)"
      "generate_response post invoke client w0 main_prompt n = (Inl e, l, w1)"
      "answer aws post invoke k region n level w =
         (Return (), [Generating, UsingRegion region, MaxTokens n, ErrorLine (snd e)], visible level (l0 @ l), w1)"
proof -
  obtain client l0 w0 where c: "client_init aws w (Some k) region = (client, l0, w0)"
    by (cases "client_init aws w (Some k) region")
  obtain a l w1 where g: "generate_response post invoke client w0 main_prompt n = (a, l, w1)"
    by (cases "generate_response post invoke client w0 main_prompt n")
  show thesis
    using c g by (cases a) (auto intro: answered failed simp: answer_def)
qed

lemma generate_response_raised:
  assumes "generate_response post invoke client w prompt max_tokens = (Inl e, l, w')"
  shows "prefix ''Both services failed. Anthropic: '' (snd e)"
  using assms
  by - (rule generate_response_cases [of post client w prompt max_tokens invoke],
        auto simp: Exception_of_def both_failed_def)

lemma set_visible: "set (visible level l) = {e \<in> set l. level \<le> fst e}"
  by (auto simp: visible_def)

section \<open>The closed instances evaluate\<close>

lemma demo_env_settings:
  "py_int (getenv_or demo_env ''MAX_TOKENS'' ''4000'') = Return 256"
  "level_of_name (py_upper (getenv_or demo_env ''LOG_LEVEL'' ''INFO'')) = Return WARNING"
  "demo_env ''ANTHROPIC_API_KEY'' = Some ''sk-test''"
  "getenv_or demo_env ''AWS_REGION'' ''us-east-1'' = ''us-east-1''"
  by (code_simp, code_simp, simp add: demo_env_def, simp add: demo_env_def getenv_or_def)

lemma demo_failure_run:
  "fallback_main no_aws scripted_post scripted_invoke demo_env
       ([http_status 429 ''rate limited''], [] :: pyval may_raise list) =
     (Return (),
      [Generating, UsingRegion ''us-east-1'', MaxTokens 256,
       ErrorLine (''Both services failed. Anthropic: Throttled: rate limited. Bedrock: Bedrock fallback failed: ''
         @ no_bedrock_client)],
      [(WARNING, CredentialsIssue ''Unable to locate credentials''), (WARNING, FallbackMayNotWork),
       (WARNING, AnthropicThrottled), (WARNING, AnthropicFailed ''Throttled: rate limited''),
       (ERROR, BedrockFailed no_bedrock_client),
       (ERROR, BothFailed (''Both services failed. Anthropic: Throttled: rate limited. Bedrock: Bedrock fallback failed: ''
         @ no_bedrock_client))],
      ([], []))"
  by code_simp

lemma demo_quiet_run:
  "fallback_main no_aws scripted_post scripted_invoke
       (map_of [(''ANTHROPIC_API_KEY'', ''sk-test''), (''LOG_LEVEL'', ''error'')])
       ([http_ok ''OK''], [] :: pyval may_raise list) =
     (Return (),
      [Generating, UsingRegion ''us-east-1'', MaxTokens 4000, DetailsHeading, Plain ''Source: anthropic'',
       Plain ''Model: claude-3-5-sonnet-20241022'',
       UsageLine (PDict [(''input_tokens'', PInt 9), (''output_tokens'', PInt 12)]),
       ResponseHeading, ContentLine (PStr ''OK'')],
      [], ([], []))"
  by code_simp

section \<open>Properties of the program\<close>

text \<open>
  \<^bold>\<open>C19\<close> (error).  \<open>main\<close> raises exactly when \<open>MAX_TOKENS\<close> is not the text of an integer
  or \<open>LOG_LEVEL\<close>, in upper case, is not the name of a level.  Both are read before the
  key is tested and outside the \<open>try\<close> block: the exception leaves \<open>main\<close> with nothing
  printed, nothing logged and no call made, also when no key is set.
\<close>

theorem settings_read_first:
  "(raises (fst (fallback_main aws post invoke env w)) \<longleftrightarrow>
      raises (py_int (getenv_or env ''MAX_TOKENS'' ''4000''))
      \<or> py_upper (getenv_or env ''LOG_LEVEL'' ''INFO'') \<notin> set (dict_keys LEVEL_NAMES))
   \<and> (raises (fst (fallback_main aws post invoke env w)) \<longrightarrow>
        snd (fallback_main aws post invoke env w) = ([], [], w))"
  using fallback_main_raise_silent [of aws post invoke env w]
  by (simp add: fallback_main_raises_iff level_of_name_raises_iff)

theorem settings_read_first_witness:
  "fallback_main no_aws scripted_post scripted_invoke (map_of [(''MAX_TOKENS'', ''4k'')])
       ([] :: http_outcome list, [] :: pyval may_raise list) =
     (Raise (ValueError (''invalid literal for int() with base 10: '4k'' @ [CHR 0x27])), [], [], ([], []))"
proof -
  have "raises (py_int (getenv_or (map_of [(''MAX_TOKENS'', ''4k'')]) ''MAX_TOKENS'' ''4000''))"
    by code_simp
  with settings_read_first [of no_aws scripted_post scripted_invoke "map_of [(''MAX_TOKENS'', ''4k'')]"
      "([] :: http_outcome list, [] :: pyval may_raise list)"]
  have "snd (fallback_main no_aws scripted_post scripted_invoke (map_of [(''MAX_TOKENS'', ''4k'')])
       ([] :: http_outcome list, [] :: pyval may_raise list)) = ([], [], ([], []))"
    by simp
  moreover have "fst (fallback_main no_aws scripted_post scripted_invoke (map_of [(''MAX_TOKENS'', ''4k'')])
       ([] :: http_outcome list, [] :: pyval may_raise list))
     = Raise (ValueError (''invalid literal for int() with base 10: '4k'' @ [CHR 0x27]))"
    by code_simp
  ultimately show ?thesis by (simp add: prod_eq_iff)
qed

text \<open>
  \<^bold>\<open>C32\<close> (roundtrip).  The decimal text of an integer of at most 4300 digits, set as
  \<open>MAX_TOKENS\<close>, is read back as that integer, whatever its sign: with a key and a
  level, \<open>main\<close> asks for an answer of that many tokens.  \<open>main\<close> does not test that the
  number is positive.
\<close>

theorem max_tokens_round_trip:
  assumes "env ''MAX_TOKENS'' = Some (str_of_int n)"
    and "length (str_of_nat (nat \<bar>n\<bar>)) \<le> max_str_digits"
    and "level_of_name (py_upper (getenv_or env ''LOG_LEVEL'' ''INFO'')) = Return level"
    and "env ''ANTHROPIC_API_KEY'' = Some k" and "k \<noteq> []"
  shows "fallback_main aws post invoke env w =
     answer aws post invoke k (getenv_or env ''AWS_REGION'' ''us-east-1'') n level w"
  using assms by (simp add: fallback_main_def getenv_or_def py_int_str_of_int)

theorem max_tokens_round_trip_witness:
  "fallback_main no_aws scripted_post scripted_invoke
       (map_of [(''MAX_TOKENS'', ''-5''), (''ANTHROPIC_API_KEY'', ''sk-test'')])
       ([] :: http_outcome list, [] :: pyval may_raise list) =
     answer no_aws scripted_post scripted_invoke ''sk-test'' ''us-east-1'' (- 5) INFO ([], [])"
proof -
  have "str_of_int (- 5) = ''-5''" by code_simp
  with max_tokens_round_trip [of "map_of [(''MAX_TOKENS'', ''-5''), (''ANTHROPIC_API_KEY'', ''sk-test'')]"
      "- 5" INFO "''sk-test''" no_aws scripted_post scripted_invoke
      "([] :: http_outcome list, [] :: pyval may_raise list)"]
  show ?thesis by (simp add: getenv_or_def max_str_digits_def)
qed

text \<open>
  \<^bold>\<open>C20\<close> (safety).  With a key and valid settings \<open>main\<close> returns, whatever the session,
  the Bedrock client and the AWS probe do: after the three opening lines it prints
  either the details of the response or one line with the text of the exception, which
  names both failures; and the log holds only entries at or above the level set by
  \<open>LOG_LEVEL\<close>.
\<close>

theorem failure_printed_not_raised:
  assumes "py_int (getenv_or env ''MAX_TOKENS'' ''4000'') = Return n"
    and "level_of_name (py_upper (getenv_or env ''LOG_LEVEL'' ''INFO'')) = Return level"
    and "env ''ANTHROPIC_API_KEY'' = Some k" and "k \<noteq> []"
  shows "fst (fallback_main aws post invoke env w) = Return ()
    \<and> take 3 (fst (snd (fallback_main aws post invoke env w)))
        = [Generating, UsingRegion (getenv_or env ''AWS_REGION'' ''us-east-1''), MaxTokens n]
    \<and> ((\<exists>r. drop 3 (fst (snd (fallback_main aws post invoke env w))) = details r)
        \<or> (\<exists>msg. drop 3 (fst (snd (fallback_main aws post invoke env w)))
              = [ErrorLine (''Both services failed. Anthropic: '' @ msg)]))
    \<and> list_all (\<lambda>e. level \<le> fst e) (fst (snd (snd (fallback_main aws post invoke env w))))"
  unfolding fallback_main_answer [OF assms(3,4,1,2)]
  by (rule answer_cases [of aws w k "getenv_or env ''AWS_REGION'' ''us-east-1''" post invoke n level])
     (auto simp: list_all_iff set_visible dest!: generate_response_raised elim: prefixE)

theorem failure_printed_not_raised_witness:
  "fst (fallback_main no_aws scripted_post scripted_invoke demo_env
          ([http_status 429 ''rate limited''], [] :: pyval may_raise list)) = Return ()
   \<and> take 3 (fst (snd (fallback_main no_aws scripted_post scripted_invoke demo_env
          ([http_status 429 ''rate limited''], [] :: pyval may_raise list))))
        = [Generating, UsingRegion ''us-east-1'', MaxTokens 256]
   \<and> list_all (\<lambda>e. WARNING \<le> fst e)
        (fst (snd (snd (fallback_main no_aws scripted_post scripted_invoke demo_env
          ([http_status 429 ''rate limited''], [] :: pyval may_raise list)))))"
  using failure_printed_not_raised [OF demo_env_settings(1,2,3), of no_aws scripted_post scripted_invoke
      "([http_status 429 ''rate limited''], [] :: pyval may_raise list)"]
  by (simp add: demo_env_settings(4))

end
