(* ===== verification/Spec2Isabelle.thy ===== *)
theory Spec2Isabelle
  imports Machine Spec Handler_Cli Session Bedrock_Cli
begin

text \<open>
  \<^bold>\<open>A verification development for the LLM fallback dispatcher.\<close>

  The repository sends a prompt to a language-model provider and, when the call fails,
  tries the next model of an ordered list until one succeeds or the list is exhausted.
  It holds two programs.  The first is the handler of \<^verbatim>\<open>src/llm_handler.py\<close>, which
  reads its models from the registry of \<^verbatim>\<open>src/available_models.py\<close> and its requests
  from \<^verbatim>\<open>src/event_payload.py\<close> and calls the providers through one library function.
  The second is the client of \<^verbatim>\<open>src/bedrock-fallback.py\<close>, which asks the Anthropic API
  and falls back to Amazon Bedrock; it shares no code with the first.

  \<^bold>\<open>How the code is read.\<close>  A dataclass is a record, a dict literal an association
  list in the order of the source, a Python \<open>int\<close> an \<open>int\<close>, a \<open>float\<close> a \<open>real\<close>, a
  \<open>str\<close> a list of 8-bit characters.  A function that raises returns \<open>Raise e\<close> in a sum
  type; every \<open>raise\<close>, every failing subscript and every \<open>except\<close> clause of the
  source is a branch of a definition.  A call that leaves the program (the provider,
  the HTTP session, the AWS clients) is a parameter that takes the state of the world
  and returns its answer with the new state, so that the order and the number of the
  calls can be stated.  The calls to \<open>logger\<close> are returned as a list of entries, each a
  level and a constructor that names the message and holds the values formatted into
  it.  All definitions are executable.

  \<^bold>\<open>The theories.\<close>

  \<^descr>[\<open>Py_Prelude\<close>] What the other theories share: exceptions as values (\<open>py_error\<close>,
  \<open>'a result\<close>), values read from JSON (\<open>pyval\<close>) and their typed readers, the
  annotations of the dataclasses (\<open>py_type\<close>, \<open>has_type\<close>, \<open>conforms\<close>), truth values
  (\<open>py_truthy\<close>), dicts (\<open>dict_keys\<close>, \<open>dict_wf\<close>, \<open>dict_has\<close>), the decimal text of a
  number (\<open>str_of_nat\<close>, \<open>str_of_int\<close>) with its inverse, the built-in \<open>int\<close> on a
  string (\<open>py_int\<close>: white space, sign, digits grouped by underscores), \<open>repr\<close> of
  strings and of lists of strings, the substring test, \<open>lower\<close> and \<open>upper\<close>, the
  line breaks of a printed text (\<open>breaks\<close>), the environment, and log streams with the
  six levels of \<open>logging\<close> in their order
  (\<open>log_level\<close> is a linear order) and the filter \<open>visible\<close> of a logger's level.  Its
  lemmas are the round trips of the decimal text (\<open>nat_of_str_str_of_nat\<close>,
  \<open>py_int_str_of_int\<close>), the \<open>repr\<close> of a plain string, and the simplification rules of
  the readers.

  \<^descr>[\<open>Registry\<close>] \<^verbatim>\<open>src/available_models.py\<close>: the tables \<open>AVAILABLE_MODELS\<close> and
  \<open>MODEL_NAMES\<close> and the functions \<open>get_model_id\<close>, \<open>get_model_name\<close> and
  \<open>list_available_models\<close>.  The lemmas show that the tables are dicts over the same
  keys with distinct provider identifiers and distinct display names, that
  \<open>get_model_id\<close> raises exactly on the keys outside the table and with which text,
  and that \<open>get_model_name\<close> falls back to the key exactly there.

  \<^descr>[\<open>Payload\<close>] \<^verbatim>\<open>src/event_payload.py\<close>: the dataclass \<open>EventPayload\<close>, its properties
  \<open>primary_model\<close> and \<open>fallback_models\<close>, \<open>to_dict\<close>, \<open>from_dict\<close> with the generated
  constructor \<open>init_kwargs\<close>, \<open>to_json\<close> and \<open>from_json\<close> over a codec given as a
  parameter, the table \<open>EXAMPLE_PAYLOADS\<close>, \<open>create_payload\<close> and
  \<open>get_example_payload\<close>, and the block under \<open>__main__\<close> (\<open>payload_main\<close>).  The
  constructor is modelled twice.  \<open>init_object\<close> is \<open>cls(**data)\<close> as Python runs it: it
  returns the attributes of the new object, which hold the values of the dict
  unchecked.  The record is that object with its fields typed by the annotations of
  the class (\<open>EventPayload_annotations\<close>), and \<open>init_kwargs\<close> the constructor of the
  record: it raises where \<open>init_object\<close> raises, returns the record of the object
  where the object conforms to the annotations, and is \<open>None\<close> where it does not.
  \<open>process\<close> and all that follows take the record.  The lemmas show the round trip
  through the dict, on which dicts the constructor raises and what a returned payload
  holds, that the typed constructor is the untyped one on the objects that conform,
  the split into primary and fallback models, that every example is a valid request,
  and that the script makes 27 calls of \<open>print\<close> and returns.

  \<^descr>[\<open>Adapter\<close>] \<^verbatim>\<open>src/llm_handler.py\<close>, \<open>SimpleLLMHandler.__init__\<close>,
  \<open>_setup_api_keys\<close> and \<open>_call_model\<close>.  \<open>litellm.completion\<close> is the parameter
  \<open>completion\<close>; the answer it returns is the record \<open>completion_response\<close>, which
  keeps what \<open>_call_model\<close> reads of it.  \<open>call_model\<close> returns \<open>CallOk\<close> or \<open>CallFailed\<close>
  for the two dicts of the source, and \<open>Raise\<close> for the \<open>ValueError\<close> that
  \<open>get_model_id\<close> raises before the \<open>try\<close> block.  The lemmas show what each branch
  returns and logs, that every exception of the provider and of the reading of the
  answer becomes a failure, that the provider is called once and only for a
  registered key, and that the constructor leaves the environment as it is.

  \<^descr>[\<open>Engine\<close>] \<^verbatim>\<open>src/llm_handler.py\<close>, the dataclass \<open>SimpleResponse\<close> and
  \<open>SimpleLLMHandler.process\<close>.  The loop is the recursion \<open>try_models\<close> over the models
  still to try, with the index of \<open>enumerate\<close>, the list \<open>attempts\<close> and the world as
  arguments.  \<open>failures\<close> states that a list of models fails one after the other; with
  it the three ways a request ends (\<open>process_success\<close>, \<open>process_exhausted\<close>,
  \<open>process_raised\<close>) are stated, and \<open>failures_cases\<close> shows that every request ends in
  one of them.  From these follow the shape of every response (\<open>coherent\<close>), the log
  that belongs to it (\<open>response_log\<close>), the requests on which \<open>process\<close> raises, the
  calls it makes and how many they are at most, and that every request built from an
  example names registered models only.

  \<^descr>[\<open>Machine\<close>] The same run as the state machine of section 4.3 of the
  specification: the inductive relation \<open>step\<close> on configurations (phase, attempts,
  log, world), the function \<open>next_config\<close> that computes it, the configurations
  \<open>reachable\<close> from \<open>initial w\<close>, and \<open>run\<close>, which takes a number of steps.  The phase
  \<open>Raised\<close> is the one the specification does not have.  The lemmas show by rule
  induction that \<open>machine_inv\<close> holds in every reachable configuration, that a step
  has one successor and decreases \<open>steps_left\<close>, and that the one final configuration
  a run reaches holds the result of \<open>process\<close>.  \<open>fuel payload = length models + 2\<close> is
  the number of steps of the longest run (one to start, one per model, one to give
  up); \<open>run_final\<close> shows that it is enough for every request, and \<open>run_final_more\<close>
  that more steps change nothing.

  \<^descr>[\<open>Spec\<close>] The contract of the engine as sections 3, 4.1 and 4.2 of the
  specification state it (\<open>AttemptRecord\<close>, \<open>GenerationResult\<close>, \<open>resolve\<close>,
  \<open>execute\<close>), modelled from the specification, with the abstraction \<open>abs_response\<close>
  from the responses of the code and the adapter \<open>adapter_of\<close> made of a provider.
  The lemmas show that \<open>process\<close> implements \<open>execute\<close> on the requests whose keys are
  all registered and that it leaves the contract on every other request.

  \<^descr>[\<open>Bedrock\<close>] \<^verbatim>\<open>src/bedrock-fallback.py\<close>: \<open>ClaudeResponse\<close>, the constructor of
  \<open>ClaudeFallbackClient\<close> (\<open>client_init\<close>), \<open>call_anthropic_direct\<close>,
  \<open>call_bedrock_fallback\<close> and \<open>generate_response\<close>.  \<open>session.post\<close>, the creation of
  the AWS clients and \<open>invoke_model\<close> with the parsing of its body are parameters.
  An exception is a pair of its class as far as the code tells classes apart
  (\<open>RequestException\<close> or not) and its text.  The lemmas show what each status of the
  answer leads to, the three ways \<open>generate_response\<close> ends, what it logs between the
  two calls, and what a client without the attribute \<open>bedrock_client\<close> does.

  \<^descr>[\<open>Session\<close>] \<^verbatim>\<open>src/bedrock-fallback.py\<close>, the session the constructor builds:
  \<open>session.post\<close> as the retry loop of \<open>urllib3\<close> (\<open>send\<close>, \<open>is_retry\<close>) around single
  exchanges with the server (\<open>'w transport\<close>), for the policy of the constructor
  (\<open>session_post\<close>).  The loop is modelled from the documentation of
  \<open>urllib3.util.Retry\<close>.  The lemmas show that the policy retries nothing but a failed
  connection, because the client only posts, that a call makes between one and four
  exchanges, and that a 429 answer starts the fallback after one exchange.

  \<^descr>[\<open>Handler_Cli\<close>] \<^verbatim>\<open>src/llm_handler.py\<close>, \<open>main\<close>: the dispatch on \<open>sys.argv\<close>
  (\<open>models\<close>, \<open>strategies\<close>, a strategy, an unknown option, no argument), the request
  of the strategy, the call of \<open>process\<close> (\<open>run_strategy\<close>) and the report
  (\<open>print_results\<close>, \<open>history_lines\<close>, \<open>attempt_lines\<close>).  What is printed is a list
  with one item per call of \<open>print\<close>: the text where the source prints ASCII only and a
  constructor of \<open>handler_line\<close> where it prints a pictograph, a formatted float or
  the \<open>repr\<close> of a dict.  \<open>rows\<close> counts the lines a call writes: two for a heading that
  begins with a line break, and one more for every line break in a text it shows.
  The lemmas show that \<open>main\<close> returns for every command line, environment and
  provider, what it prints, logs and calls on each branch, that its listing of the
  models is that of the registry, and how many calls and lines the report takes.

  \<^descr>[\<open>Bedrock_Cli\<close>] \<^verbatim>\<open>src/bedrock-fallback.py\<close>, \<open>main\<close> (\<open>fallback_main\<close>): the four
  environment variables, \<open>int\<close> of \<open>MAX_TOKENS\<close>, the level of the root logger
  (\<open>level_of_name\<close> over the names of \<open>logging\<close>, with the \<open>ValueError\<close>, the
  \<open>TypeError\<close> and the \<open>AttributeError\<close> of the names that are no level), the test of
  the key, the client, the call and the report (\<open>answer\<close>, \<open>details\<close>, one item per
  call of \<open>print\<close>).  The log it returns is the log of the
  client filtered at the level.  The lemmas show that \<open>main\<close> raises exactly on a
  setting it cannot read, and then before anything else happens, that an exception of
  \<open>generate_response\<close> is printed and not raised, and that the text of an integer is
  read back as that integer.

  \<^descr>[\<open>Spec2Isabelle\<close>] This theory: what spans the components.  Every request built
  from an example is processed without an exception; two corner cases of the
  specification are evaluated, the empty list of models and the example of the
  specification with the keys it names.

  \<^bold>\<open>Closed instances.\<close>  A theorem with a premise comes with a closed instance that
  applies it to a concrete request and concrete providers: \<open>scripted\<close> answers from a
  list, \<open>refusing\<close> refuses every call, \<open>by_model\<close> answers by model identifier,
  \<open>recording\<close> keeps the identifiers it was called with; \<open>scripted_post\<close>,
  \<open>scripted_invoke\<close> and \<open>scripted_transport\<close> do the same for the second program, and
  \<open>counting\<close> counts the exchanges of a transport.

  \<^bold>\<open>What is not modelled.\<close>  The statements the modules run when they are
  imported (\<open>load_dotenv\<close>, \<open>logging.basicConfig\<close>, \<open>litellm.set_verbose\<close>) and the two
  lines that call \<open>main\<close> or \<open>list_available_models\<close> under \<open>__main__\<close>: what they do
  is decided inside the libraries (\<open>basicConfig\<close> changes nothing when an imported
  library has configured the root logger before), so the environment is an argument
  of the models of \<open>main\<close>, and the log of the handler holds every call of \<open>logger\<close>,
  whatever level the root logger has.  The libraries
  the sources call: \<open>litellm\<close>, \<open>requests\<close>, \<open>boto3\<close>, \<open>json\<close>, \<open>dotenv\<close> and
  \<open>logging\<close>; they enter as the parameters named above, \<open>urllib3\<close> as the retry loop of
  its documentation without the time it sleeps between two exchanges, and \<open>logging\<close>
  as the order of its levels.  The text of a log line and of a printed text that holds
  a pictograph, a formatted float or the \<open>repr\<close> of a dict: an entry holds the values
  of the text, not its wording.  What \<open>process\<close> and the properties of a request do
  with an object whose fields have other types than their annotations: \<open>init_object\<close>
  builds such an object, the record and \<open>process\<close> do not take it.  Characters above
  255 in a string, and with them the letters outside ASCII that \<open>upper\<close> changes; no
  name of a level holds one.  Concurrent calls of \<open>process\<close> are not modelled: a call
  shares no state with another but the world.

  \<^bold>\<open>What the development found.\<close>  \<open>_call_model\<close> resolves the model key before its
  \<open>try\<close> block, so an unknown key raises \<open>ValueError\<close> out of \<open>process\<close> and the
  attempts made so far are lost, where the specification records a failed attempt and
  goes on; the model keys of the examples of the specification are not registered.  An
  empty list of models is accepted everywhere.  \<open>_setup_api_keys\<close> changes nothing.
  The error of a failed attempt is the message of the provider with a prefix, not the
  message alone.  In the second program throttling is detected from the text of the
  exception, and a client whose Bedrock client could not be created fails every
  fallback with an \<open>AttributeError\<close>; the retry policy of its session never retries an
  answer, whatever its status, because \<open>POST\<close> is not among the methods it allows; its \<open>main\<close> reads \<open>MAX_TOKENS\<close> and \<open>LOG_LEVEL\<close>
  outside the \<open>try\<close> block and before it tests the key, so a setting it cannot read
  ends the program with a traceback, and it accepts a number of tokens that is not
  positive.  The report of the handler ends every error of the attempt history with
  three dots, also an error shorter than the 80 characters it is cut to; three of its
  headings begin with a line break, so it writes more lines than it makes calls of
  \<open>print\<close>.  The annotations of the request are not enforced: \<open>from_dict\<close> accepts a
  string for \<open>models\<close> and builds an object that holds it.
\<close>

section \<open>Properties across the components\<close>

text \<open>
  \<^bold>\<open>C30\<close> (safety).  A request built by \<open>get_example_payload\<close> is valid and names
  registered models only, so \<open>process\<close> returns on it, whatever the provider does, with a
  response that is coherent with the request.
\<close>

theorem example_requests_return:
  assumes "get_example_payload strategy pr = Return p"
  shows "valid_payload p \<and> (\<exists>r. fst (process completion w p) = Return r \<and> coherent p r)"
proof -
  from example_payload_registered [OF assms] have "\<not> raises (fst (process completion w p))"
    by (simp add: process_registered_returns)
  then obtain r where "fst (process completion w p) = Return r"
    by (auto simp: not_raises_iff)
  with example_payload_registered(2) [OF assms] show ?thesis
    by (auto intro: process_coherent)
qed

theorem example_requests_return_witness:
  "valid_payload ((with_defaults ''Hello'' [''gpt-4o'', ''gpt-4o-mini'', ''gpt-4-turbo''])) \<and>
   (\<exists>r. fst (process refusing () (with_defaults ''Hello'' [''gpt-4o'', ''gpt-4o-mini'', ''gpt-4-turbo''])) = Return r
      \<and> coherent (with_defaults ''Hello'' [''gpt-4o'', ''gpt-4o-mini'', ''gpt-4-turbo'']) r)"
proof -
  have "get_example_payload ''openai_only'' ''Hello''
      = Return (with_defaults ''Hello'' [''gpt-4o'', ''gpt-4o-mini'', ''gpt-4-turbo''])"
    by (simp add: get_example_payload_def table_defs with_defaults_def)
  then show ?thesis by (rule example_requests_return)
qed

section \<open>Corner cases of the specification\<close>

text \<open>
  The class accepts an empty list of models, and neither \<open>from_dict\<close> nor \<open>process\<close>
  rejects it: \<open>process\<close> makes no call and returns the failure \<open>All 0 models failed\<close>
  with no attempt, while \<open>primary_model\<close> raises \<open>IndexError\<close> on the same request.
\<close>

theorem empty_request_exhausts:
  assumes "models p = []"
  shows "process completion w p =
       (Return (failure_response ''All 0 models failed'' []),
        header p @ [(ERROR, AllFailed ''All 0 models failed'')], w)
    \<and> primary_model p = Raise (IndexError ''list index out of range'')
    \<and> from_dict (to_dict p) = Some (Return p)"
  using assms
  by (simp add: process_def all_failed_message_def from_dict_to_dict py_defs)

text \<open>
  The example of the specification with the model keys it names: \<open>fast-fail\<close> and
  \<open>slow-success\<close> are not keys of \<open>AVAILABLE_MODELS\<close>, so with the provider of the
  example \<open>process\<close> raises \<open>ValueError\<close> for \<open>fast-fail\<close> and the provider is not
  called; with two registered keys in their place it returns the result the example
  expects, after one call for each.
\<close>

theorem specification_example:
  "(case process (recording (by_model (\<lambda>model_id. if model_id = ''fast-fail'' then Inl ''boom'' else Inr (ok_response ''OK''))))
         ([], ()) (with_defaults ''X'' [''fast-fail'', ''slow-success'']) of
      (r, l, calls, w) \<Rightarrow> r = Raise (ValueError (unknown_model_message ''fast-fail'')) \<and> calls = [])
   \<and> (case process (recording (by_model (\<lambda>model_id. if model_id = ''gpt-4o-mini'' then Inl ''boom'' else Inr (ok_response ''OK''))))
         ([], ()) (with_defaults ''X'' [''gpt-4o-mini'', ''gpt-4o'']) of
      (r, l, calls, w) \<Rightarrow>
        r = Return (success_response ''gpt-4o'' (Some ''OK'')
          [(''prompt_tokens'', PInt 9), (''completion_tokens'', PInt 12)] (Some (1 / 1000))
          [\<lparr>model = ''gpt-4o-mini'', name = ''GPT-4o Mini'', status = ''failed'',
            error = ''GPT-4o Mini failed: boom''\<rparr>,
           \<lparr>model = ''gpt-4o'', name = ''GPT-4o'', status = ''success'', error = []\<rparr>])
        \<and> calls = [''gpt-4o-mini'', ''gpt-4o''])"
  by code_simp

end
